theory Spec2Isabelle
  imports Complex_Main
begin

section \<open>Strings\<close>

text \<open>
  A JavaScript string is modelled as a \<^typ>\<open>string\<close>: a list of code units, here
  restricted to the code units below 256. \<open>length\<close> is the string's \<open>.length\<close>.
\<close>

definition isWhiteSpace :: "char \<Rightarrow> bool" where
  \<comment> \<open>The characters \<open>String.prototype.trim\<close> strips and the regular expression class
     \<open>\s\<close> matches (WhiteSpace and LineTerminator), among the code units below 256:
     TAB, LF, VT, FF, CR, space and the no-break space.\<close>
  "isWhiteSpace c =
     (c = CHR 0x09 \<or> c = CHR 0x0A \<or> c = CHR 0x0B \<or> c = CHR 0x0C \<or> c = CHR 0x0D
      \<or> c = CHR 0x20 \<or> c = CHR 0xA0)"

definition isLineTerminator :: "char \<Rightarrow> bool" where
  \<comment> \<open>What the regular expression \<open>.\<close> does not match (no \<open>s\<close> flag): LF and CR, among
     the code units below 256.\<close>
  "isLineTerminator c = (c = CHR 0x0A \<or> c = CHR 0x0D)"

definition isDigit :: "char \<Rightarrow> bool" where
  \<comment> \<open>The class \<open>\d\<close>.\<close>
  "isDigit c = (c \<in> set ''0123456789'')"

definition isAsciiLetter :: "char \<Rightarrow> bool" where
  \<comment> \<open>The class \<open>[A-Za-z]\<close> (\<open>[a-z]\<close> under the \<open>i\<close> flag).\<close>
  "isAsciiLetter c = (c \<in> set ''abcdefghijklmnopqrstuvwxyzABCDEFGHIJKLMNOPQRSTUVWXYZ'')"

definition isWordChar :: "char \<Rightarrow> bool" where
  \<comment> \<open>The class \<open>\w\<close>, which decides the word boundary \<open>\b\<close>.\<close>
  "isWordChar c = (isAsciiLetter c \<or> isDigit c \<or> c = CHR ''_'')"

definition trimStart :: "string \<Rightarrow> string" where
  "trimStart s = dropWhile isWhiteSpace s"

definition trimEnd :: "string \<Rightarrow> string" where
  "trimEnd s = rev (dropWhile isWhiteSpace (rev s))"

definition trim :: "string \<Rightarrow> string" where
  \<comment> \<open>\<open>s.trim()\<close>\<close>
  "trim s = trimEnd (trimStart s)"

definition startsWith :: "string \<Rightarrow> string \<Rightarrow> bool" where
  \<comment> \<open>\<open>s.startsWith(p)\<close>\<close>
  "startsWith s p = (take (length p) s = p)"

fun includesStr :: "string \<Rightarrow> string \<Rightarrow> bool" where
  \<comment> \<open>\<open>s.includes(p)\<close>: \<open>p\<close> occurs in \<open>s\<close> at some position.\<close>
  "includesStr [] p = (p = [])"
| "includesStr (c # cs) p = (startsWith (c # cs) p \<or> includesStr cs p)"

definition replaceAllChar :: "char \<Rightarrow> string \<Rightarrow> string \<Rightarrow> string" where
  \<comment> \<open>\<open>s.replace(/c/g, r)\<close> for a single character \<open>c\<close> and a replacement \<open>r\<close> without \<open>$\<close>.\<close>
  "replaceAllChar c r s = concat (map (\<lambda>x. if x = c then r else [x]) s)"

definition escapeHtml :: "string \<Rightarrow> string" where
  "escapeHtml v =
     replaceAllChar (CHR 0x27) ''&#39;''
       (replaceAllChar (CHR 0x22) ''&quot;''
         (replaceAllChar CHR ''>'' ''&gt;''
           (replaceAllChar CHR ''<'' ''&lt;''
             (replaceAllChar CHR ''&'' ''&amp;'' v))))"

definition digitChar :: "nat \<Rightarrow> char" where
  "digitChar d = char_of (48 + d)"

function stringOfNat :: "nat \<Rightarrow> string" where
  \<comment> \<open>\<open>String(n)\<close> and the template \<open>${n}\<close> for a non-negative integer below \<open>10^21\<close>
     (from there on JavaScript prints an exponent).\<close>
  "stringOfNat n = (if n < 10 then [digitChar n] else stringOfNat (n div 10) @ [digitChar (n mod 10)])"
  by pat_completeness auto
termination
  by (relation "measure id") auto

declare stringOfNat.simps [simp del]

section \<open>Rubric criteria\<close>

text \<open>
  \<open>Number.parseFloat\<close> is only applied to the first group of the criterion pattern, a
  string of the shape \<open>\d+(\.\d+)?\<close>. Its value is modelled by the exact decimal value
  of that prefix, a rational number; JavaScript rounds it to the nearest double.
\<close>

definition digitValue :: "char \<Rightarrow> nat" where
  "digitValue c = of_char c - 48"

definition decimalValue :: "string \<Rightarrow> nat" where
  "decimalValue ds = foldl (\<lambda>acc d. 10 * acc + digitValue d) 0 ds"

definition parseFloat :: "string \<Rightarrow> rat" where
  "parseFloat s =
     (let ip = takeWhile isDigit s; r = dropWhile isDigit s in
      case r of
        c # fs \<Rightarrow>
          (let fp = takeWhile isDigit fs in
           if c = CHR ''.'' \<and> fp \<noteq> []
           then of_nat (decimalValue ip) + of_nat (decimalValue fp) / 10 ^ length fp
           else of_nat (decimalValue ip))
      | [] \<Rightarrow> of_nat (decimalValue ip))"

record parsed_criterion =
  pc_points :: rat
  pc_text :: string

definition matchNumber :: "string \<Rightarrow> (string \<times> string) option" where
  \<comment> \<open>\<open>(\d+(?:\.\d+)?)\<close> at the start of \<open>s\<close>: the group and what follows it. The digits
     are taken greedily; the fraction is taken when a dot and at least one digit follow.
     No shorter choice can make the rest of the pattern match, since what follows the
     group is \<open>\]\<close>.\<close>
  "matchNumber s =
     (let ip = takeWhile isDigit s; r = dropWhile isDigit s in
      if ip = [] then None
      else case r of
        c # fs \<Rightarrow>
          if c = CHR ''.'' \<and> takeWhile isDigit fs \<noteq> []
          then Some (ip @ [c] @ takeWhile isDigit fs, dropWhile isDigit fs)
          else Some (ip, r)
      | [] \<Rightarrow> Some (ip, r))"

definition matchCriterion :: "string \<Rightarrow> (string \<times> string) option" where
  \<comment> \<open>\<open>trimmed.match(/^\[(\d+(?:\.\d+)?)\]\s*(.*)$/)\<close>: the groups 1 and 2, or \<open>None\<close> for
     \<open>null\<close>. \<open>\s*\<close> is greedy, and \<open>(.*)$\<close> matches the rest when it holds no line
     terminator; giving whitespace back to \<open>(.*)\<close> cannot remove a line terminator from
     the rest.\<close>
  "matchCriterion s =
     (case s of
        c # r1 \<Rightarrow>
          if c \<noteq> CHR ''['' then None
          else (case matchNumber r1 of
            None \<Rightarrow> None
          | Some (num, r2) \<Rightarrow>
              (case r2 of
                 d # r3 \<Rightarrow>
                   if d \<noteq> CHR '']'' then None
                   else (let rest = dropWhile isWhiteSpace r3 in
                         if list_ex isLineTerminator rest then None else Some (num, rest))
               | [] \<Rightarrow> None))
      | [] \<Rightarrow> None)"

definition parseCriterionText :: "string \<Rightarrow> parsed_criterion" where
  "parseCriterionText rawText =
     (let trimmed = trim rawText in
      case matchCriterion trimmed of
        None \<Rightarrow> \<lparr>pc_points = 0, pc_text = trimmed\<rparr>
      | Some (m1, m2) \<Rightarrow> \<lparr>pc_points = parseFloat m1, pc_text = trim m2\<rparr>)"


section \<open>Documents\<close>

text \<open>
  The parsed document is an ordered tree. An element carries its qualified name
  (\<open>nodeName\<close>), its local name, its attributes in document order and its child nodes.
  \<open>OtherNode\<close> stands for the nodes that are neither elements nor text nodes, with their
  \<open>nodeType\<close> (4 a CDATA section, 7 a processing instruction, 8 a comment) and their data.
\<close>

datatype node =
    Element (nodeName: string) (localName: string)
      (attributes: "(string \<times> string) list") (childNodes: "node list")
  | Text string
  | OtherNode nat string

fun isElement :: "node \<Rightarrow> bool" where
  \<comment> \<open>\<open>node.nodeType === NODE_TYPES.ELEMENT_NODE\<close>\<close>
  "isElement (Element _ _ _ _) = True"
| "isElement _ = False"

fun isTextNode :: "node \<Rightarrow> bool" where
  \<comment> \<open>\<open>node.nodeType === NODE_TYPES.TEXT_NODE\<close>\<close>
  "isTextNode (Text _) = True"
| "isTextNode _ = False"

fun getAttribute :: "node \<Rightarrow> string \<Rightarrow> string option" where
  \<comment> \<open>\<open>el.getAttribute(name)\<close>: \<open>None\<close> is \<open>null\<close>, the attribute is absent.\<close>
  "getAttribute (Element _ _ attrs _) name = map_of attrs name"
| "getAttribute _ name = None"

fun textContent :: "node \<Rightarrow> string" where
  \<comment> \<open>\<open>node.textContent\<close>: the data of a character data node; for an element the text
     contents of its children, comments and processing instructions left out.\<close>
  "textContent (Text t) = t"
| "textContent (OtherNode ty d) = d"
| "textContent (Element _ _ _ children) =
     concat (map textContent
       (filter (\<lambda>c. case c of OtherNode ty _ \<Rightarrow> ty \<noteq> 7 \<and> ty \<noteq> 8 | _ \<Rightarrow> True) children))"

fun descendants :: "node \<Rightarrow> node list" where
  \<comment> \<open>The nodes below a node, in document order (the node itself is not one of them).\<close>
  "descendants (Element _ _ _ children) = concat (map (\<lambda>c. c # descendants c) children)"
| "descendants _ = []"

definition getElementsByLocalName :: "node \<Rightarrow> string \<Rightarrow> node list" where
  \<comment> \<open>\<open>root.getElementsByTagNameNS('*', localName)\<close> finds the descendant elements by local
     name, \<open>root.getElementsByTagName(localName)\<close> by qualified name.\<close>
  "getElementsByLocalName rootEl name =
     (let withNamespace = filter (\<lambda>n. isElement n \<and> localName n = name) (descendants rootEl) in
      if length withNamespace > 0 then withNamespace
      else filter (\<lambda>n. isElement n \<and> nodeName n = name) (descendants rootEl))"

definition firstOf :: "'a list \<Rightarrow> 'a option" where
  \<comment> \<open>\<open>xs[0]\<close>, \<open>None\<close> for \<open>undefined\<close>.\<close>
  "firstOf xs = (case xs of [] \<Rightarrow> None | x # _ \<Rightarrow> Some x)"

record rubric_criterion =
  rc_index :: nat
  rc_points :: rat
  rc_text :: string

record choice_option =
  co_identifier :: string
  co_text :: string

definition extractRubricCriteria :: "node \<Rightarrow> rubric_criterion list" where
  "extractRubricCriteria itemBody =
     (let rubricBlocks = getElementsByLocalName itemBody ''qti-rubric-block'' in
      case find (\<lambda>block. getAttribute block ''view'' = Some ''scorer'') rubricBlocks of
        None \<Rightarrow> []
      | Some scorer \<Rightarrow>
          foldl (\<lambda>criteria line.
                   (let parsed = parseCriterionText (trim (textContent line)) in
                    criteria @ [\<lparr>rc_index = length criteria + 1, rc_points = pc_points parsed,
                                  rc_text = pc_text parsed\<rparr>]))
            [] (getElementsByLocalName scorer ''qti-p''))"

definition extractChoices :: "node \<Rightarrow> choice_option list" where
  "extractChoices itemBody =
     map (\<lambda>choice.
            \<lparr>co_identifier = (case getAttribute choice ''identifier'' of None \<Rightarrow> [] | Some i \<Rightarrow> i),
             co_text = trim (textContent choice)\<rparr>)
       (getElementsByLocalName itemBody ''qti-simple-choice'')"

lemma size_descendants: "x \<in> set (descendants n) \<Longrightarrow> size x < size n"
proof (induction n arbitrary: x)
  case (Element nn ln attrs children)
  then obtain c where c: "c \<in> set children" "x = c \<or> x \<in> set (descendants c)"
    by auto
  have "size c < size (Element nn ln attrs children)"
    using c(1) by (simp add: size_list_estimation' less_Suc_eq_le)
  moreover have "size x \<le> size c"
    using c Element.IH by (auto simp: less_imp_le)
  ultimately show ?case by simp
qed simp_all

lemma size_childNodes: "isElement n \<Longrightarrow> c \<in> set (childNodes n) \<Longrightarrow> size c < size n"
  by (cases n) (simp_all add: size_list_estimation' less_Suc_eq_le)

lemma set_getElementsByLocalName:
  "x \<in> set (getElementsByLocalName rootEl name) \<Longrightarrow> x \<in> set (descendants rootEl) \<and> isElement x"
  by (auto simp: getElementsByLocalName_def Let_def split: if_splits)

lemma size_child_lt: "c \<in> set children \<Longrightarrow> size c < Suc (size_list size children)"
  by (simp add: size_list_estimation' less_Suc_eq_le)

lemma size_grandchild_lt:
  "d \<in> set children \<Longrightarrow> isElement d \<Longrightarrow> c \<in> set (childNodes d)
     \<Longrightarrow> size c < Suc (size_list size children)"
  using size_child_lt[of d children] size_childNodes[of d c] by simp

lemma size_choice_child_lt:
  "choice \<in> set (getElementsByLocalName (Element nn name attrs children) x)
     \<Longrightarrow> c \<in> set (childNodes choice) \<Longrightarrow> size c < Suc (size_list size children)"
  using set_getElementsByLocalName[of choice "Element nn name attrs children" x]
    size_descendants[of choice "Element nn name attrs children"] size_childNodes[of choice c]
  by simp

section \<open>The scoring renderer\<close>

record resolved_scoring_options =
  blankRenderer :: "nat \<Rightarrow> string"
  extendedTextRenderer :: "unit \<Rightarrow> string"
  choiceListClassName :: string
  preWithBlanksClassName :: string

record scoring_render_options =
  \<comment> \<open>\<open>ScoringRenderOptions\<close>: every field is optional, \<open>None\<close> when the caller leaves it out.\<close>
  opt_blankRenderer :: "(nat \<Rightarrow> string) option"
  opt_extendedTextRenderer :: "(unit \<Rightarrow> string) option"
  opt_choiceListClassName :: "string option"
  opt_preWithBlanksClassName :: "string option"

definition defaultBlankRenderer :: "nat \<Rightarrow> string" where
  \<open>defaultBlankRenderer index =
     ''<input class="qti-blank-input" data-blank="'' @ stringOfNat index
       @ ''" type="text" size="6" disabled aria-label="blank '' @ stringOfNat index @ ''" />''\<close>

definition defaultExtendedTextRenderer :: "unit \<Rightarrow> string" where
  \<comment> \<open>The placeholder's four characters lie outside the code units below 256; they are
     written here in UTF-8.\<close>
  \<open>defaultExtendedTextRenderer u =
     ''<span class="qti-extended-placeholder">''
       @ [CHR 0xEF, CHR 0xBC, CHR 0x88, CHR 0xE8, CHR 0xA8, CHR 0x98,
          CHR 0xE8, CHR 0xBF, CHR 0xB0, CHR 0xEF, CHR 0xBC, CHR 0x89]
       @ ''</span>''\<close>

definition defaultScoringOptions :: resolved_scoring_options where
  "defaultScoringOptions =
     \<lparr>blankRenderer = defaultBlankRenderer,
      extendedTextRenderer = defaultExtendedTextRenderer,
      choiceListClassName = ''qti-choice-list'',
      preWithBlanksClassName = ''qti-pre-with-blanks''\<rparr>"

definition resolveScoringOptions :: "scoring_render_options \<Rightarrow> resolved_scoring_options" where
  \<comment> \<open>\<open>{ ...defaultScoringOptions, ...options }\<close>\<close>
  "resolveScoringOptions options =
     \<lparr>blankRenderer = (case opt_blankRenderer options of
                          None \<Rightarrow> blankRenderer defaultScoringOptions | Some f \<Rightarrow> f),
      extendedTextRenderer = (case opt_extendedTextRenderer options of
                          None \<Rightarrow> extendedTextRenderer defaultScoringOptions | Some f \<Rightarrow> f),
      choiceListClassName = (case opt_choiceListClassName options of
                          None \<Rightarrow> choiceListClassName defaultScoringOptions | Some c \<Rightarrow> c),
      preWithBlanksClassName = (case opt_preWithBlanksClassName options of
                          None \<Rightarrow> preWithBlanksClassName defaultScoringOptions | Some c \<Rightarrow> c)\<rparr>"

text \<open>
  The blank counter is the object \<open>{ value: number }\<close> that one render shares: the renderer
  takes the counter and gives it back as the rendering leaves it.
\<close>

record blank_counter =
  counter_value :: nat

fun mapJoin :: "('a \<Rightarrow> 's \<Rightarrow> string \<times> 's) \<Rightarrow> 'a list \<Rightarrow> 's \<Rightarrow> string \<times> 's" where
  \<comment> \<open>\<open>xs.map((x) => f(x)).join('')\<close>, for an \<open>f\<close> that reads and updates the state \<open>s\<close>:
     the elements are visited from left to right.\<close>
  "mapJoin f [] s = ([], s)"
| "mapJoin f (x # xs) s =
     (case f x s of (h, s1) \<Rightarrow> (case mapJoin f xs s1 of (t, s2) \<Rightarrow> (h @ t, s2)))"

lemma mapJoin_cong [fundef_cong]:
  "xs = ys \<Longrightarrow> s = t \<Longrightarrow> (\<And>x u. x \<in> set ys \<Longrightarrow> f x u = g x u)
     \<Longrightarrow> mapJoin f xs s = mapJoin g ys t"
proof (induction ys arbitrary: xs s t)
  case (Cons y ys)
  have "f y t = g y t" using Cons.prems(3) by simp
  moreover have "mapJoin f ys u = mapJoin g ys u" for u
    using Cons.IH[OF refl refl] Cons.prems(3) by simp
  ultimately show ?case using Cons.prems(1,2) by simp
qed simp

definition wrapWith :: "string \<Rightarrow> string \<Rightarrow> string \<times> 's \<Rightarrow> string \<times> 's" where
  \<comment> \<open>The template \<open>`${opening}${rendered}${closing}`\<close> around a rendering that has updated
     the state.\<close>
  "wrapWith opening closing r = (opening @ fst r @ closing, snd r)"

definition optionalAttr :: "string \<Rightarrow> string option \<Rightarrow> string" where
  \<comment> \<open>\<open>v ? ` name="${escapeHtml(v)}"` : ''\<close>: an absent and an empty attribute give
     nothing.\<close>
  \<open>optionalAttr name v =
     (case v of
        None \<Rightarrow> []
      | Some x \<Rightarrow> if x = [] then [] else '' '' @ name @ ''="'' @ escapeHtml x @ ''"'')\<close>

definition isBlank :: "node \<Rightarrow> bool" where
  "isBlank child = (isElement child \<and> localName child = ''qti-text-entry-interaction'')"

definition isSignificant :: "node \<Rightarrow> bool" where
  \<comment> \<open>The filter of \<open>significantNodes\<close>.\<close>
  "isSignificant child = (if \<not> isTextNode child then True else trim (textContent child) \<noteq> [])"

definition matchLeadingWhiteSpace :: "string \<Rightarrow> string" where
  \<comment> \<open>\<open>inner.match(/^\s+/)?.[0] ?? ''\<close>\<close>
  "matchLeadingWhiteSpace inner = takeWhile isWhiteSpace inner"

fun matchTrailingWhiteSpace :: "string \<Rightarrow> string" where
  \<comment> \<open>\<open>inner.match(/\s+$/)?.[0] ?? ''\<close>: the match at the first position from which
     whitespace, and nothing else, runs to the end.\<close>
  "matchTrailingWhiteSpace [] = []"
| "matchTrailingWhiteSpace (c # cs) =
     (if list_all isWhiteSpace (c # cs) then c # cs else matchTrailingWhiteSpace cs)"

definition hasLineBreak :: "string \<Rightarrow> bool" where
  \<comment> \<open>\<open>s.includes('\n') || s.includes('\r')\<close>\<close>
  "hasLineBreak s = (CHR 0x0A \<in> set s \<or> CHR 0x0D \<in> set s)"

definition trimCodeInner :: "bool \<Rightarrow> bool \<Rightarrow> string \<Rightarrow> string" where
  \<comment> \<open>The two \<open>if\<close> blocks of \<open>renderCodeInPre\<close>.\<close>
  "trimCodeInner trimStartFlag trimEndFlag inner0 =
     (let inner1 =
            (if trimStartFlag
             then (let leading = matchLeadingWhiteSpace inner0 in
                   if leading \<noteq> [] \<and> \<not> hasLineBreak leading
                   then drop (length leading) inner0 else inner0)
             else inner0);
          inner2 =
            (if trimEndFlag
             then (let trailing = matchTrailingWhiteSpace inner1 in
                   if trailing \<noteq> [] \<and> \<not> hasLineBreak trailing
                   then take (length inner1 - length trailing) inner1 else inner1)
             else inner1)
      in inner2)"

definition renderCodeInPre ::
  "(node \<Rightarrow> 's \<Rightarrow> string \<times> 's) \<Rightarrow> node \<Rightarrow> bool \<Rightarrow> bool \<Rightarrow> 's \<Rightarrow> string \<times> 's" where
  \<comment> \<open>The closure \<open>renderCodeInPre\<close> of the \<open>qti-pre\<close> case. \<open>render\<close> stands for
     \<open>(child) => renderNodeForScoring(child, options, blankCounter, true, true)\<close>.\<close>
  "renderCodeInPre render codeEl trimStartFlag trimEndFlag bc =
     (case mapJoin render (childNodes codeEl) bc of
        (inner, bc1) \<Rightarrow>
          (''<code>'' @ trimCodeInner trimStartFlag trimEndFlag inner @ ''</code>'', bc1))"

lemma renderCodeInPre_cong [fundef_cong]:
  "codeEl = codeEl' \<Longrightarrow> a = a' \<Longrightarrow> b = b' \<Longrightarrow> s = s'
     \<Longrightarrow> (\<And>c u. c \<in> set (childNodes codeEl') \<Longrightarrow> f c u = g c u)
     \<Longrightarrow> renderCodeInPre f codeEl a b s = renderCodeInPre g codeEl' a' b' s'"
  unfolding renderCodeInPre_def by (simp cong: mapJoin_cong)

function renderNodeForScoring ::
  "node \<Rightarrow> resolved_scoring_options \<Rightarrow> blank_counter \<Rightarrow> bool \<Rightarrow> bool
     \<Rightarrow> string \<times> blank_counter" where
  \<open>renderNodeForScoring (Text t) options blankCounter inPre preserveWhitespace =
     (if inPre \<and> \<not> preserveWhitespace \<and> trim t = [] then ([], blankCounter)
      else (escapeHtml t, blankCounter))\<close>
| \<open>renderNodeForScoring (OtherNode ty d) options blankCounter inPre preserveWhitespace =
     ([], blankCounter)\<close>
| \<open>renderNodeForScoring (Element nn name attrs children) options blankCounter inPre
       preserveWhitespace =
     (let el = Element nn name attrs children in
      if name = ''qti-p'' then
        wrapWith ''<p>'' ''</p>''
          (mapJoin (\<lambda>child bc. renderNodeForScoring child options bc inPre preserveWhitespace)
             children blankCounter)
      else if name = ''qti-h3'' \<or> name = ''qti-h4'' \<or> name = ''qti-h5'' \<or> name = ''qti-h6'' then
        (let level = drop (length name - 2) name in
         wrapWith (''<'' @ level @ ''>'') (''</'' @ level @ ''>'')
           (mapJoin (\<lambda>child bc. renderNodeForScoring child options bc inPre preserveWhitespace)
              children blankCounter))
      else if name = ''qti-em'' then
        wrapWith ''<em>'' ''</em>''
          (mapJoin (\<lambda>child bc. renderNodeForScoring child options bc inPre preserveWhitespace)
             children blankCounter)
      else if name = ''qti-strong'' then
        wrapWith ''<strong>'' ''</strong>''
          (mapJoin (\<lambda>child bc. renderNodeForScoring child options bc inPre preserveWhitespace)
             children blankCounter)
      else if name = ''qti-del'' then
        wrapWith ''<del>'' ''</del>''
          (mapJoin (\<lambda>child bc. renderNodeForScoring child options bc inPre preserveWhitespace)
             children blankCounter)
      else if name = ''qti-a'' then
        (let hrefAttr = optionalAttr ''href'' (getAttribute el ''href'');
             titleAttr = optionalAttr ''title'' (getAttribute el ''title'') in
         wrapWith (''<a'' @ hrefAttr @ titleAttr @ ''>'') ''</a>''
           (mapJoin (\<lambda>child bc. renderNodeForScoring child options bc inPre preserveWhitespace)
              children blankCounter))
      else if name = ''qti-code'' then
        wrapWith ''<code>'' ''</code>''
          (mapJoin (\<lambda>child bc. renderNodeForScoring child options bc inPre True)
             children blankCounter)
      else if name = ''qti-pre'' then
        (let significantNodes = filter isSignificant children;
             hasBlank = list_ex isBlank significantNodes;
             rendered =
               mapJoin
                 (\<lambda>(child, index) bc.
                    if isElement child \<and> localName child = ''qti-code'' then
                      (let prevBlank = (index > 0 \<and> isBlank (significantNodes ! (index - 1)));
                           nextBlank = (index < length significantNodes - 1
                                        \<and> isBlank (significantNodes ! (index + 1))) in
                       renderCodeInPre
                         (\<lambda>c bc'. renderNodeForScoring c options bc' True True)
                         child prevBlank nextBlank bc)
                    else renderNodeForScoring child options bc True False)
                 (zip significantNodes [0..<length significantNodes]) blankCounter;
             classAttr = (if hasBlank then '' class="'' @ preWithBlanksClassName options @ ''"''
                          else []) in
         wrapWith (''<pre'' @ classAttr @ ''>'') ''</pre>'' rendered)
      else if name = ''qti-blockquote'' then
        wrapWith ''<blockquote>'' ''</blockquote>''
          (mapJoin (\<lambda>child bc. renderNodeForScoring child options bc inPre preserveWhitespace)
             children blankCounter)
      else if name = ''qti-ul'' then
        wrapWith ''<ul>'' ''</ul>''
          (mapJoin (\<lambda>child bc. renderNodeForScoring child options bc inPre preserveWhitespace)
             children blankCounter)
      else if name = ''qti-ol'' then
        (let startAttr = optionalAttr ''start'' (getAttribute el ''start'') in
         wrapWith (''<ol'' @ startAttr @ ''>'') ''</ol>''
           (mapJoin (\<lambda>child bc. renderNodeForScoring child options bc inPre preserveWhitespace)
              children blankCounter))
      else if name = ''qti-li'' then
        wrapWith ''<li>'' ''</li>''
          (mapJoin (\<lambda>child bc. renderNodeForScoring child options bc inPre preserveWhitespace)
             children blankCounter)
      else if name = ''qti-table'' then
        wrapWith ''<table>'' ''</table>''
          (mapJoin (\<lambda>child bc. renderNodeForScoring child options bc inPre preserveWhitespace)
             children blankCounter)
      else if name = ''qti-thead'' then
        wrapWith ''<thead>'' ''</thead>''
          (mapJoin (\<lambda>child bc. renderNodeForScoring child options bc inPre preserveWhitespace)
             children blankCounter)
      else if name = ''qti-tbody'' then
        wrapWith ''<tbody>'' ''</tbody>''
          (mapJoin (\<lambda>child bc. renderNodeForScoring child options bc inPre preserveWhitespace)
             children blankCounter)
      else if name = ''qti-tr'' then
        wrapWith ''<tr>'' ''</tr>''
          (mapJoin (\<lambda>child bc. renderNodeForScoring child options bc inPre preserveWhitespace)
             children blankCounter)
      else if name = ''qti-th'' then
        wrapWith ''<th>'' ''</th>''
          (mapJoin (\<lambda>child bc. renderNodeForScoring child options bc inPre preserveWhitespace)
             children blankCounter)
      else if name = ''qti-td'' then
        wrapWith ''<td>'' ''</td>''
          (mapJoin (\<lambda>child bc. renderNodeForScoring child options bc inPre preserveWhitespace)
             children blankCounter)
      else if name = ''qti-hr'' then (''<hr />'', blankCounter)
      else if name = ''qti-img'' then
        (let src = (case getAttribute el ''src'' of None \<Rightarrow> [] | Some v \<Rightarrow> v);
             alt = (case getAttribute el ''alt'' of None \<Rightarrow> [] | Some v \<Rightarrow> v);
             titleAttr = optionalAttr ''title'' (getAttribute el ''title'') in
         (''<img src="'' @ escapeHtml src @ ''" alt="'' @ escapeHtml alt @ ''"'' @ titleAttr
            @ '' />'', blankCounter))
      else if name = ''qti-text-entry-interaction'' then
        (let idx = counter_value blankCounter + 1 in
         (blankRenderer options idx, blankCounter\<lparr>counter_value := idx\<rparr>))
      else if name = ''qti-extended-text-interaction'' then
        (extendedTextRenderer options (), blankCounter)
      else if name = ''qti-choice-interaction'' then
        (let choices = getElementsByLocalName el ''qti-simple-choice'';
             listItems =
               mapJoin
                 (\<lambda>choice bc.
                    (let id = (case getAttribute choice ''identifier'' of
                                 None \<Rightarrow> [] | Some v \<Rightarrow> v) in
                     wrapWith (''<li data-choice="'' @ escapeHtml id @ ''">'') ''</li>''
                       (mapJoin (\<lambda>child bc'. renderNodeForScoring child options bc' False False)
                          (childNodes choice) bc)))
                 choices blankCounter in
         wrapWith (''<ol class="'' @ choiceListClassName options @ ''">'') ''</ol>'' listItems)
      else if name = ''qti-rubric-block'' then ([], blankCounter)
      else
        mapJoin (\<lambda>child bc. renderNodeForScoring child options bc inPre preserveWhitespace)
          children blankCounter)\<close>
  by pat_completeness auto
termination
proof (relation "measure (\<lambda>(n, opts, bc, inPre, pw). size n)", goal_cases)
  case 1
  show ?case by simp
qed (auto intro: size_child_lt size_choice_child_lt dest: set_zip_leftD
       intro: size_grandchild_lt[OF set_zip_leftD[THEN filter_is_subset[THEN subsetD]]]
              size_child_lt[OF set_zip_leftD[THEN filter_is_subset[THEN subsetD]]])

declare renderNodeForScoring.simps(3) [simp del]

definition newBlankCounter :: blank_counter where
  \<comment> \<open>\<open>{ value: 0 }\<close>\<close>
  "newBlankCounter = \<lparr>counter_value = 0\<rparr>"

definition renderExplanationBody ::
  "node \<Rightarrow> resolved_scoring_options \<Rightarrow> string \<times> blank_counter" where
  \<comment> \<open>The last statements of \<open>parseCandidateExplanation\<close>: a counter of its own, the
     content body's significant child nodes, and their renderings joined; with the
     counter as the rendering leaves it.\<close>
  "renderExplanationBody contentBody options =
     (let blankCounter = newBlankCounter;
          explanationNodes =
            filter (\<lambda>n. \<not> isTextNode n \<or> trim (textContent n) \<noteq> []) (childNodes contentBody) in
      mapJoin (\<lambda>n bc. renderNodeForScoring n options bc False False)
        explanationNodes blankCounter)"

definition explanationContentBody :: "node \<Rightarrow> node option" where
  \<comment> \<open>The lookups of \<open>parseCandidateExplanation\<close>: the EXPLANATION modal feedback, the one
     with the outcome identifier FEEDBACK first, and its first content body; \<open>None\<close> where
     the function returns \<open>null\<close>.\<close>
  "explanationContentBody rootEl =
     (let modalFeedbacks = getElementsByLocalName rootEl ''qti-modal-feedback'';
          explanationFeedback =
            (case find (\<lambda>feedback.
                          getAttribute feedback ''identifier'' = Some ''EXPLANATION''
                          \<and> getAttribute feedback ''outcome-identifier'' = Some ''FEEDBACK'')
                    modalFeedbacks of
               Some feedback \<Rightarrow> Some feedback
             | None \<Rightarrow>
                 find (\<lambda>feedback. getAttribute feedback ''identifier'' = Some ''EXPLANATION'')
                   modalFeedbacks) in
      case explanationFeedback of
        None \<Rightarrow> None
      | Some feedback \<Rightarrow> firstOf (getElementsByLocalName feedback ''qti-content-body''))"

definition parseCandidateExplanation :: "node \<Rightarrow> resolved_scoring_options \<Rightarrow> string option" where
  "parseCandidateExplanation rootEl options =
     (case explanationContentBody rootEl of
        None \<Rightarrow> None
      | Some contentBody \<Rightarrow> Some (fst (renderExplanationBody contentBody options)))"

definition renderPromptBody ::
  "node \<Rightarrow> resolved_scoring_options \<Rightarrow> string \<times> blank_counter" where
  \<comment> \<open>The prompt of \<open>renderQtiItemForScoring\<close>: a counter of its own, and the renderings of
     the item body's child nodes joined; with the counter as the rendering leaves it.\<close>
  "renderPromptBody itemBody options =
     (let blankCounter = newBlankCounter in
      mapJoin (\<lambda>n bc. renderNodeForScoring n options bc False False)
        (childNodes itemBody) blankCounter)"

record parsed_item_for_scoring =
  s_identifier :: string
  s_title :: string
  s_promptHtml :: string
  s_rubricCriteria :: "rubric_criterion list"
  s_choices :: "choice_option list"
  s_candidateExplanationHtml :: "string option"

datatype error = Error string

text \<open>
  The XML parser is a collaborator of the renderer: \<open>parseXml xml\<close> is the document element
  of the parsed document, \<open>None\<close> when the document has none.
\<close>

type_synonym xml_parser = "string \<Rightarrow> node option"

definition renderQtiItemForScoring ::
  "xml_parser \<Rightarrow> string \<Rightarrow> scoring_render_options \<Rightarrow> error + parsed_item_for_scoring" where
  "renderQtiItemForScoring parseXml xml options =
     (let resolved = resolveScoringOptions options in
      case parseXml xml of
        None \<Rightarrow> Inl (Error ''QTI item XML parse failed'')
      | Some rootEl \<Rightarrow>
          if nodeName rootEl = ''parsererror'' then Inl (Error ''QTI item XML parse failed'')
          else
            (let identifier = (case getAttribute rootEl ''identifier'' of
                                 None \<Rightarrow> [] | Some v \<Rightarrow> v);
                 title = (case getAttribute rootEl ''title'' of
                            None \<Rightarrow> identifier | Some v \<Rightarrow> v) in
             case firstOf (getElementsByLocalName rootEl ''qti-item-body'') of
               None \<Rightarrow> Inl (Error ''qti-item-body not found'')
             | Some itemBody \<Rightarrow>
                 (let promptHtml = fst (renderPromptBody itemBody resolved);
                      rubricCriteria = extractRubricCriteria itemBody;
                      choices = extractChoices itemBody;
                      candidateExplanationHtml = parseCandidateExplanation rootEl resolved in
                  Inr \<lparr>s_identifier = identifier,
                       s_title = title,
                       s_promptHtml = promptHtml,
                       s_rubricCriteria = rubricCriteria,
                       s_choices = choices,
                       s_candidateExplanationHtml = candidateExplanationHtml\<rparr>)))"

definition renderPreChild ::
  "resolved_scoring_options \<Rightarrow> node list \<Rightarrow> node \<times> nat \<Rightarrow> blank_counter
     \<Rightarrow> string \<times> blank_counter" where
  \<comment> \<open>The callback \<open>(child, index) => ...\<close> that the \<open>qti-pre\<close> case maps over
     \<open>significantNodes\<close>, as the function above has it.\<close>
  "renderPreChild options significantNodes =
     (\<lambda>(child, index) bc.
        if isElement child \<and> localName child = ''qti-code'' then
          (let prevBlank = (index > 0 \<and> isBlank (significantNodes ! (index - 1)));
               nextBlank = (index < length significantNodes - 1
                            \<and> isBlank (significantNodes ! (index + 1))) in
           renderCodeInPre
             (\<lambda>c bc'. renderNodeForScoring c options bc' True True)
             child prevBlank nextBlank bc)
        else renderNodeForScoring child options bc True False)"

definition leadingSpan :: "string \<Rightarrow> string" where
  \<comment> \<open>The span of whitespace a string starts with (empty when it starts with none).\<close>
  "leadingSpan s = takeWhile isWhiteSpace s"

definition trailingSpan :: "string \<Rightarrow> string" where
  \<comment> \<open>The span of whitespace a string ends with (empty when it ends with none).\<close>
  "trailingSpan s = rev (takeWhile isWhiteSpace (rev s))"

subsection \<open>Blanks in document order\<close>

definition textEntries :: "node \<Rightarrow> node list" where
  \<comment> \<open>The text-entry-interaction elements of a subtree, its root included, in document
     order.\<close>
  "textEntries n = filter isBlank (n # descendants n)"

definition mentionsSimpleChoice :: "node \<Rightarrow> bool" where
  \<comment> \<open>An element that a lookup of \<open>qti-simple-choice\<close> can find, by local or by qualified
     name.\<close>
  "mentionsSimpleChoice n =
     (isElement n \<and> (localName n = ''qti-simple-choice'' \<or> nodeName n = ''qti-simple-choice''))"

text \<open>
  \<open>regular n\<close> says where the blanks of a subtree stand: none below a rubric block, none
  below an element that is rendered without its children (\<open>qti-hr\<close>, \<open>qti-img\<close>, a
  text-entry or an extended-text interaction), and below a choice interaction only inside
  its simple choices. \<open>covered n\<close> is the condition on what stands below a choice
  interaction: every blank lies inside a simple choice, at any depth below the interaction;
  a simple choice holds no further simple choice, and what it holds is regular; an element
  that is no simple choice by its local name is none by its qualified name.
\<close>

function regular :: "node \<Rightarrow> bool" and covered :: "node \<Rightarrow> bool" where
  "regular (Text t) = True"
| "regular (OtherNode ty d) = True"
| "regular (Element nn name attrs children) =
     (if name = ''qti-rubric-block'' \<or> name = ''qti-hr'' \<or> name = ''qti-img''
         \<or> name = ''qti-text-entry-interaction'' \<or> name = ''qti-extended-text-interaction''
      then list_all (\<lambda>c. textEntries c = []) children
      else if name = ''qti-choice-interaction'' then list_all covered children
      else list_all regular children)"
| "covered (Text t) = True"
| "covered (OtherNode ty d) = True"
| "covered (Element nn name attrs children) =
     (if name = ''qti-simple-choice''
      then \<not> list_ex mentionsSimpleChoice (descendants (Element nn name attrs children))
           \<and> list_all regular children
      else nn \<noteq> ''qti-simple-choice'' \<and> name \<noteq> ''qti-text-entry-interaction''
           \<and> list_all covered children)"
  by pat_completeness auto
termination
proof (relation "measure (\<lambda>x. case x of Inl n \<Rightarrow> size n | Inr n \<Rightarrow> size n)", goal_cases)
  case 1
  show ?case by simp
qed (simp_all add: size_child_lt)

subsection \<open>The shape of a rendering\<close>

text \<open>
  The shape of a rendering is what the renderer writes when the blanks are left open: the
  pieces of text that do not depend on the blank renderer, and, at the place of each
  text-entry-interaction it renders, a blank that names the element. \<open>fill r k pieces\<close> is
  the text in which the blanks, from left to right, hold \<open>r (k + 1)\<close>, \<open>r (k + 2)\<close>, ...: the
  indices that follow a counter that stands at \<open>k\<close>.
\<close>

datatype piece = Lit string | Blank node

fun fill :: "(nat \<Rightarrow> string) \<Rightarrow> nat \<Rightarrow> piece list \<Rightarrow> string" where
  "fill r k [] = []"
| "fill r k (Lit s # ps) = s @ fill r k ps"
| "fill r k (Blank n # ps) = r (k + 1) @ fill r (k + 1) ps"

fun blankNodes :: "piece list \<Rightarrow> node list" where
  \<comment> \<open>The elements at the blanks of a shape, from left to right.\<close>
  "blankNodes [] = []"
| "blankNodes (Lit s # ps) = blankNodes ps"
| "blankNodes (Blank n # ps) = n # blankNodes ps"

definition blankCount :: "piece list \<Rightarrow> nat" where
  "blankCount ps = length (blankNodes ps)"

definition solid :: "(nat \<Rightarrow> string) \<Rightarrow> bool" where
  \<comment> \<open>A blank renderer whose results are not empty and neither start nor end with
     whitespace, as the default one: the \<open>qti-pre\<close> case cuts whitespace off the ends of
     what a \<open>qti-code\<close> child renders to.\<close>
  "solid r = (\<forall>i. r i \<noteq> [] \<and> \<not> isWhiteSpace (hd (r i)) \<and> \<not> isWhiteSpace (last (r i)))"

definition wrapPieces :: "string \<Rightarrow> string \<Rightarrow> piece list \<Rightarrow> piece list" where
  "wrapPieces opening closing ps = Lit opening # ps @ [Lit closing]"

definition dropTrailing :: "string \<Rightarrow> string" where
  \<comment> \<open>A string without the whitespace it ends with.\<close>
  "dropTrailing s = take (length s - length (matchTrailingWhiteSpace s)) s"

fun leadingOf :: "piece list \<Rightarrow> string" where
  \<comment> \<open>The whitespace a shape starts with: a blank, filled by a solid renderer, stops
     it.\<close>
  "leadingOf [] = []"
| "leadingOf (Blank n # ps) = []"
| "leadingOf (Lit s # ps) =
     (if list_all isWhiteSpace s then s @ leadingOf ps else takeWhile isWhiteSpace s)"

fun dropLeading :: "piece list \<Rightarrow> piece list" where
  "dropLeading [] = []"
| "dropLeading (Blank n # ps) = Blank n # ps"
| "dropLeading (Lit s # ps) =
     (if list_all isWhiteSpace s then dropLeading ps else Lit (dropWhile isWhiteSpace s) # ps)"

fun trailingOfRev :: "piece list \<Rightarrow> string" where
  \<comment> \<open>The whitespace a shape ends with; the pieces are given last piece first.\<close>
  "trailingOfRev [] = []"
| "trailingOfRev (Blank n # ps) = []"
| "trailingOfRev (Lit s # ps) =
     (if list_all isWhiteSpace s then trailingOfRev ps @ s else matchTrailingWhiteSpace s)"

fun dropTrailingRev :: "piece list \<Rightarrow> piece list" where
  "dropTrailingRev [] = []"
| "dropTrailingRev (Blank n # ps) = Blank n # ps"
| "dropTrailingRev (Lit s # ps) =
     (if list_all isWhiteSpace s then dropTrailingRev ps else Lit (dropTrailing s) # ps)"

definition trimPieces :: "bool \<Rightarrow> bool \<Rightarrow> piece list \<Rightarrow> piece list" where
  \<comment> \<open>\<open>trimCodeInner\<close> on a shape.\<close>
  "trimPieces trimStartFlag trimEndFlag inner0 =
     (let inner1 =
            (if trimStartFlag
             then (let leading = leadingOf inner0 in
                   if leading \<noteq> [] \<and> \<not> hasLineBreak leading
                   then dropLeading inner0 else inner0)
             else inner0);
          inner2 =
            (if trimEndFlag
             then (let trailing = trailingOfRev (rev inner1) in
                   if trailing \<noteq> [] \<and> \<not> hasLineBreak trailing
                   then rev (dropTrailingRev (rev inner1)) else inner1)
             else inner1)
      in inner2)"

text \<open>
  \<open>shape n options inPre preserveWhitespace\<close> is the shape of the rendering of \<open>n\<close>: the rules
  of the renderer, element by element, with a blank where a text-entry-interaction is
  rendered. It does not read the blank renderer and keeps no counter; it is the description
  that \<open>renderNodeForScoring\<close>, the renderer of the source, is compared with.
\<close>

function shape :: "node \<Rightarrow> resolved_scoring_options \<Rightarrow> bool \<Rightarrow> bool \<Rightarrow> piece list" where
  \<open>shape (Text t) options inPre preserveWhitespace =
     (if inPre \<and> \<not> preserveWhitespace \<and> trim t = [] then [Lit []]
      else [Lit (escapeHtml t)])\<close>
| \<open>shape (OtherNode ty d) options inPre preserveWhitespace = [Lit []]\<close>
| \<open>shape (Element nn name attrs children) options inPre preserveWhitespace =
     (let el = Element nn name attrs children in
      if name = ''qti-p'' then
        wrapPieces ''<p>'' ''</p>''
          (concat (map (\<lambda>child. shape child options inPre preserveWhitespace) children))
      else if name = ''qti-h3'' \<or> name = ''qti-h4'' \<or> name = ''qti-h5'' \<or> name = ''qti-h6'' then
        (let level = drop (length name - 2) name in
         wrapPieces (''<'' @ level @ ''>'') (''</'' @ level @ ''>'')
           (concat (map (\<lambda>child. shape child options inPre preserveWhitespace) children)))
      else if name = ''qti-em'' then
        wrapPieces ''<em>'' ''</em>''
          (concat (map (\<lambda>child. shape child options inPre preserveWhitespace) children))
      else if name = ''qti-strong'' then
        wrapPieces ''<strong>'' ''</strong>''
          (concat (map (\<lambda>child. shape child options inPre preserveWhitespace) children))
      else if name = ''qti-del'' then
        wrapPieces ''<del>'' ''</del>''
          (concat (map (\<lambda>child. shape child options inPre preserveWhitespace) children))
      else if name = ''qti-a'' then
        (let hrefAttr = optionalAttr ''href'' (getAttribute el ''href'');
             titleAttr = optionalAttr ''title'' (getAttribute el ''title'') in
         wrapPieces (''<a'' @ hrefAttr @ titleAttr @ ''>'') ''</a>''
           (concat (map (\<lambda>child. shape child options inPre preserveWhitespace) children)))
      else if name = ''qti-code'' then
        wrapPieces ''<code>'' ''</code>''
          (concat (map (\<lambda>child. shape child options inPre True) children))
      else if name = ''qti-pre'' then
        (let significantNodes = filter isSignificant children;
             hasBlank = list_ex isBlank significantNodes;
             rendered =
               concat (map
                 (\<lambda>(child, index).
                    if isElement child \<and> localName child = ''qti-code'' then
                      (let prevBlank = (index > 0 \<and> isBlank (significantNodes ! (index - 1)));
                           nextBlank = (index < length significantNodes - 1
                                        \<and> isBlank (significantNodes ! (index + 1))) in
                       wrapPieces ''<code>'' ''</code>''
                         (trimPieces prevBlank nextBlank
                            (concat (map (\<lambda>c. shape c options True True) (childNodes child)))))
                    else shape child options True False)
                 (zip significantNodes [0..<length significantNodes]));
             classAttr = (if hasBlank then '' class="'' @ preWithBlanksClassName options @ ''"''
                          else []) in
         wrapPieces (''<pre'' @ classAttr @ ''>'') ''</pre>'' rendered)
      else if name = ''qti-blockquote'' then
        wrapPieces ''<blockquote>'' ''</blockquote>''
          (concat (map (\<lambda>child. shape child options inPre preserveWhitespace) children))
      else if name = ''qti-ul'' then
        wrapPieces ''<ul>'' ''</ul>''
          (concat (map (\<lambda>child. shape child options inPre preserveWhitespace) children))
      else if name = ''qti-ol'' then
        (let startAttr = optionalAttr ''start'' (getAttribute el ''start'') in
         wrapPieces (''<ol'' @ startAttr @ ''>'') ''</ol>''
           (concat (map (\<lambda>child. shape child options inPre preserveWhitespace) children)))
      else if name = ''qti-li'' then
        wrapPieces ''<li>'' ''</li>''
          (concat (map (\<lambda>child. shape child options inPre preserveWhitespace) children))
      else if name = ''qti-table'' then
        wrapPieces ''<table>'' ''</table>''
          (concat (map (\<lambda>child. shape child options inPre preserveWhitespace) children))
      else if name = ''qti-thead'' then
        wrapPieces ''<thead>'' ''</thead>''
          (concat (map (\<lambda>child. shape child options inPre preserveWhitespace) children))
      else if name = ''qti-tbody'' then
        wrapPieces ''<tbody>'' ''</tbody>''
          (concat (map (\<lambda>child. shape child options inPre preserveWhitespace) children))
      else if name = ''qti-tr'' then
        wrapPieces ''<tr>'' ''</tr>''
          (concat (map (\<lambda>child. shape child options inPre preserveWhitespace) children))
      else if name = ''qti-th'' then
        wrapPieces ''<th>'' ''</th>''
          (concat (map (\<lambda>child. shape child options inPre preserveWhitespace) children))
      else if name = ''qti-td'' then
        wrapPieces ''<td>'' ''</td>''
          (concat (map (\<lambda>child. shape child options inPre preserveWhitespace) children))
      else if name = ''qti-hr'' then [Lit ''<hr />'']
      else if name = ''qti-img'' then
        (let src = (case getAttribute el ''src'' of None \<Rightarrow> [] | Some v \<Rightarrow> v);
             alt = (case getAttribute el ''alt'' of None \<Rightarrow> [] | Some v \<Rightarrow> v);
             titleAttr = optionalAttr ''title'' (getAttribute el ''title'') in
         [Lit (''<img src="'' @ escapeHtml src @ ''" alt="'' @ escapeHtml alt @ ''"'' @ titleAttr
                 @ '' />'')])
      else if name = ''qti-text-entry-interaction'' then
        [Blank el]
      else if name = ''qti-extended-text-interaction'' then
        [Lit (extendedTextRenderer options ())]
      else if name = ''qti-choice-interaction'' then
        (let choices = getElementsByLocalName el ''qti-simple-choice'';
             listItems =
               concat (map
                 (\<lambda>choice.
                    (let id = (case getAttribute choice ''identifier'' of
                                 None \<Rightarrow> [] | Some v \<Rightarrow> v) in
                     wrapPieces (''<li data-choice="'' @ escapeHtml id @ ''">'') ''</li>''
                       (concat (map (\<lambda>child. shape child options False False)
                                  (childNodes choice)))))
                 choices) in
         wrapPieces (''<ol class="'' @ choiceListClassName options @ ''">'') ''</ol>'' listItems)
      else if name = ''qti-rubric-block'' then [Lit []]
      else
        concat (map (\<lambda>child. shape child options inPre preserveWhitespace) children))\<close>
  by pat_completeness auto
termination
proof (relation "measure (\<lambda>(n, opts, inPre, pw). size n)", goal_cases)
  case 1
  show ?case by simp
qed (auto intro: size_child_lt size_choice_child_lt dest: set_zip_leftD
       intro: size_grandchild_lt[OF set_zip_leftD[THEN filter_is_subset[THEN subsetD]]]
              size_child_lt[OF set_zip_leftD[THEN filter_is_subset[THEN subsetD]]])

declare shape.simps(3) [simp del]

definition promptShape :: "node \<Rightarrow> resolved_scoring_options \<Rightarrow> piece list" where
  \<comment> \<open>The shape of the prompt: the shapes of the item body's child nodes.\<close>
  "promptShape itemBody options =
     concat (map (\<lambda>n. shape n options False False) (childNodes itemBody))"

definition explanationShape :: "node \<Rightarrow> resolved_scoring_options \<Rightarrow> piece list" where
  \<comment> \<open>The shape of the explanation: the shapes of the content body's significant child
     nodes.\<close>
  "explanationShape contentBody options =
     concat (map (\<lambda>n. shape n options False False)
               (filter (\<lambda>n. \<not> isTextNode n \<or> trim (textContent n) \<noteq> []) (childNodes contentBody)))"

definition step_is ::
  "((nat \<Rightarrow> string) \<Rightarrow> blank_counter \<Rightarrow> string \<times> blank_counter) \<Rightarrow> piece list \<Rightarrow> bool
     \<Rightarrow> node list \<Rightarrow> bool" where
  \<comment> \<open>\<open>F r\<close> is a step of the renderer under the blank renderer \<open>r\<close>. For every solid \<open>r\<close>
     the step writes the shape \<open>pieces\<close>, filled with the indices that follow the counter,
     and advances the counter by the number of blanks; the blanks are the elements \<open>ts\<close>
     when \<open>reg\<close> holds.\<close>
  "step_is F pieces reg ts =
     ((\<forall>r s. solid r \<longrightarrow>
         F r s = (fill r (counter_value s) pieces,
                  s\<lparr>counter_value := counter_value s + blankCount pieces\<rparr>))
      \<and> (reg \<longrightarrow> blankNodes pieces = ts))"

definition isSimpleChoice :: "node \<Rightarrow> bool" where
  "isSimpleChoice c = (isElement c \<and> localName c = ''qti-simple-choice'')"

definition choiceBlanks :: "node \<Rightarrow> node list" where
  \<comment> \<open>The text-entry-interactions below a simple choice, in document order.\<close>
  "choiceBlanks x = concat (map textEntries (childNodes x))"

definition choicesOk :: "node list \<Rightarrow> bool" where
  \<comment> \<open>What \<open>covered\<close> gives of the nodes below a choice interaction: the children of the
     simple choices are regular, the blanks are those of the simple choices, and the lookup
     by qualified name finds nothing else.\<close>
  "choicesOk xs =
     (list_all (\<lambda>x. list_all regular (childNodes x)) (filter isSimpleChoice xs)
      \<and> concat (map choiceBlanks (filter isSimpleChoice xs)) = filter isBlank xs
      \<and> (\<forall>x\<in>set xs. mentionsSimpleChoice x \<longrightarrow> isSimpleChoice x))"

subsection \<open>Example documents\<close>

definition noScoringOptions :: scoring_render_options where
  \<comment> \<open>The options argument \<open>{}\<close>.\<close>
  "noScoringOptions =
     \<lparr>opt_blankRenderer = None, opt_extendedTextRenderer = None,
      opt_choiceListClassName = None, opt_preWithBlanksClassName = None\<rparr>"

definition elem :: "string \<Rightarrow> (string \<times> string) list \<Rightarrow> node list \<Rightarrow> node" where
  \<comment> \<open>An element without prefix: its qualified name is its local name.\<close>
  "elem name attrs children = Element name name attrs children"

definition blankEl :: "string \<Rightarrow> node" where
  \<comment> \<open>\<open><qti-text-entry-interaction response-identifier="..."/>\<close>\<close>
  "blankEl r = elem ''qti-text-entry-interaction'' [(''response-identifier'', r)] []"

definition exampleNestedBody :: node where
  \<comment> \<open>An item body with a blank inside a simple choice that lies below a list item of
     its choice interaction, one inside a paragraph, one at the end of a code element of a
     \<open>pre\<close> and one between two code elements of that \<open>pre\<close>.\<close>
  "exampleNestedBody =
     elem ''qti-item-body'' []
       [elem ''qti-choice-interaction'' []
          [elem ''qti-li'' []
             [elem ''qti-simple-choice'' [(''identifier'', ''A'')] [Text ''Alpha '', blankEl ''R1'']]],
        elem ''qti-p'' [] [elem ''qti-em'' [] [blankEl ''R2'']],
        elem ''qti-pre'' []
          [elem ''qti-code'' [] [Text ''x = '', blankEl ''R3'', Text '' ''], blankEl ''R4'',
           elem ''qti-code'' [] [Text '';'']]]"

definition exampleNestedItem :: node where
  "exampleNestedItem = elem ''qti-assessment-item'' [(''identifier'', ''item-2'')] [exampleNestedBody]"

definition examplePromptBlankBody :: node where
  \<comment> \<open>A choice interaction whose prompt holds a blank, before the blank of its simple
     choice.\<close>
  "examplePromptBlankBody =
     elem ''qti-item-body'' []
       [elem ''qti-choice-interaction'' []
          [elem ''qti-prompt'' [] [blankEl ''R1''],
           elem ''qti-simple-choice'' [(''identifier'', ''A'')] [blankEl ''R2'']]]"

definition exampleExplanationBody :: node where
  "exampleExplanationBody = elem ''qti-content-body'' [] [elem ''qti-p'' [] [blankEl ''R2'']]"

definition exampleExplanationItem :: node where
  \<comment> \<open>An item with one blank in its prompt and one in its explanation.\<close>
  "exampleExplanationItem =
     elem ''qti-assessment-item'' [(''identifier'', ''item-1''), (''title'', ''Item 1'')]
       [elem ''qti-item-body'' [] [elem ''qti-p'' [] [blankEl ''R1'']],
        elem ''qti-modal-feedback''
          [(''identifier'', ''EXPLANATION''), (''outcome-identifier'', ''FEEDBACK'')]
          [exampleExplanationBody]]"

definition examplePreChildren :: "node list" where
  \<comment> \<open>The children of a \<open>pre\<close>: code that ends with two spaces, a blank, and code that
     starts with a space and a line feed.\<close>
  "examplePreChildren =
     [elem ''qti-code'' [] [Text ''x =  ''], blankEl ''R1'',
      elem ''qti-code'' [] [Text [CHR '' '', CHR 0x0A, CHR ''y'']]]"

definition exampleUntitledItem :: node where
  \<comment> \<open>An item whose root has neither an identifier nor a title.\<close>
  "exampleUntitledItem =
     elem ''qti-assessment-item'' [] [elem ''qti-item-body'' [] [elem ''qti-p'' [] [Text ''Q'']]]"

definition exampleTitledItem :: node where
  \<comment> \<open>An item whose root has a title and no identifier.\<close>
  "exampleTitledItem =
     elem ''qti-assessment-item'' [(''title'', ''Item 1'')]
       [elem ''qti-item-body'' [] [elem ''qti-p'' [] [Text ''Q'']]]"

section \<open>The report renderer\<close>

subsection \<open>Regular expressions over strings\<close>

text \<open>
  The report passes work on strings with regular expressions. Each expression is modelled
  by a matcher: a function that, given the string from some position on, returns what the
  expression matches there (its groups) and the rest of the string following the match, or
  \<open>None\<close>. The expressions of this program are deterministic where it matters: a tag runs
  to the first \<open>>\<close>, a quoted value to the next quote, a lazy \<open>[\s\S]*?\<close> to the first
  occurrence of what follows it.
\<close>

function scanMatches :: "(string \<Rightarrow> ('g \<times> string) option) \<Rightarrow> string \<Rightarrow> (char + 'g) list" where
  \<comment> \<open>The scan of a global regular expression (\<open>replace\<close> with the \<open>g\<close> flag, a loop of
     \<open>exec\<close>): at each position the matcher is tried; following a match the scan goes on
     behind it, otherwise one character further. The result lists the characters left
     out of any match and the matches, in order. A match is never empty for the matchers
     below, which is what the guard says.\<close>
  "scanMatches m [] = []"
| "scanMatches m (c # cs) =
     (case m (c # cs) of
        Some (g, rest) \<Rightarrow>
          if length rest < length (c # cs) then Inr g # scanMatches m rest
          else Inl c # scanMatches m cs
      | None \<Rightarrow> Inl c # scanMatches m cs)"
  by pat_completeness auto
termination
  by (relation "measure (\<lambda>(m, s). length s)") auto

definition replaceGlobal :: "(string \<Rightarrow> ('g \<times> string) option) \<Rightarrow> ('g \<Rightarrow> string) \<Rightarrow> string \<Rightarrow> string" where
  \<comment> \<open>\<open>s.replace(/.../g, (match, groups...) => f(groups))\<close>: the value the function
     returns is inserted as it is.\<close>
  "replaceGlobal m f s =
     concat (map (\<lambda>x. case x of Inl c \<Rightarrow> [c] | Inr g \<Rightarrow> f g) (scanMatches m s))"

definition matchAll :: "(string \<Rightarrow> ('g \<times> string) option) \<Rightarrow> string \<Rightarrow> 'g list" where
  \<comment> \<open>The matches of the loop \<open>while (match) { ...; match = pattern.exec(s) }\<close>.\<close>
  "matchAll m s = concat (map (\<lambda>x. case x of Inl c \<Rightarrow> [] | Inr g \<Rightarrow> [g]) (scanMatches m s))"

fun findMatch :: "(string \<Rightarrow> ('g \<times> string) option) \<Rightarrow> string \<Rightarrow> (string \<times> 'g \<times> string) option" where
  \<comment> \<open>The first match of an expression without the \<open>g\<close> flag: what precedes it, its
     groups and what follows it.\<close>
  "findMatch m [] = None"
| "findMatch m (c # cs) =
     (case m (c # cs) of
        Some (g, rest) \<Rightarrow> Some ([], g, rest)
      | None \<Rightarrow>
          (case findMatch m cs of
             Some (preceding, g, rest) \<Rightarrow> Some (c # preceding, g, rest)
           | None \<Rightarrow> None))"

fun splitAtFirst :: "string \<Rightarrow> string \<Rightarrow> (string \<times> string) option" where
  \<comment> \<open>\<open>([\s\S]*?)lit\<close>: the shortest prefix that \<open>lit\<close> follows, and what follows
     \<open>lit\<close>.\<close>
  "splitAtFirst lit [] = (if lit = [] then Some ([], []) else None)"
| "splitAtFirst lit (c # cs) =
     (if startsWith (c # cs) lit then Some ([], drop (length lit) (c # cs))
      else (case splitAtFirst lit cs of
              Some (preceding, rest) \<Rightarrow> Some (c # preceding, rest)
            | None \<Rightarrow> None))"

definition matchTag :: "string \<Rightarrow> string \<Rightarrow> (string \<times> string) option" where
  \<comment> \<open>\<open>prefix\b[^>]*>\<close> at the start of \<open>s\<close>, for a prefix such as \<open><pre\<close> or \<open></code\<close>
     that ends with a word character: the tag, and what follows it.\<close>
  "matchTag prefix s =
     (if startsWith s prefix then
        (let r = drop (length prefix) s in
         if r \<noteq> [] \<and> isWordChar (hd r) then None
         else (case dropWhile (\<lambda>c. c \<noteq> CHR ''>'') r of
                 [] \<Rightarrow> None
               | c # rest \<Rightarrow> Some (prefix @ takeWhile (\<lambda>c. c \<noteq> CHR ''>'') r @ ''>'', rest)))
      else None)"

fun jsSplitWhitespace :: "string \<Rightarrow> string list" where
  \<comment> \<open>\<open>s.split(/\s+/)\<close>: the pieces between the runs of whitespace; the first or the
     last piece is empty when the string starts or ends with whitespace. The pieces of
     \<open>c # s\<close> are those of \<open>s\<close>, with \<open>c\<close> joined to the first piece, or with a new empty
     piece in front when \<open>c\<close> is whitespace and does not continue a run.\<close>
  "jsSplitWhitespace [] = [[]]"
| "jsSplitWhitespace (c # s) =
     (case jsSplitWhitespace s of
        [] \<Rightarrow> (if isWhiteSpace c then [[], []] else [[c]])
      | t # ts \<Rightarrow>
          if isWhiteSpace c then (if t = [] \<and> ts \<noteq> [] then t # ts else [] # t # ts)
          else (c # t) # ts)"

definition joinWith :: "string \<Rightarrow> string list \<Rightarrow> string" where
  \<comment> \<open>\<open>xs.join(sep)\<close>\<close>
  "joinWith sep xs = (case xs of [] \<Rightarrow> [] | y # ys \<Rightarrow> y @ concat (map (\<lambda>z. sep @ z) ys))"

definition toLowerChar :: "char \<Rightarrow> char" where
  \<comment> \<open>\<open>toLowerCase\<close> on a code unit below 256: the ASCII capitals and the capitals of
     Latin-1.\<close>
  "toLowerChar c =
     (let n = (of_char c :: nat) in
      if (65 \<le> n \<and> n \<le> 90) \<or> (192 \<le> n \<and> n \<le> 222 \<and> n \<noteq> 215) then char_of (n + 32) else c)"

definition toLowerCase :: "string \<Rightarrow> string" where
  "toLowerCase s = map toLowerChar s"

function replaceAllStr :: "string \<Rightarrow> string \<Rightarrow> string \<Rightarrow> string" where
  \<comment> \<open>\<open>s.replace(/pat/g, rep)\<close> for a literal, non-empty \<open>pat\<close> and a replacement without
     \<open>$\<close>.\<close>
  "replaceAllStr pat rep [] = []"
| "replaceAllStr pat rep (c # cs) =
     (if pat \<noteq> [] \<and> startsWith (c # cs) pat
      then rep @ replaceAllStr pat rep (drop (length pat) (c # cs))
      else c # replaceAllStr pat rep cs)"
  by pat_completeness auto
termination
  by (relation "measure (\<lambda>(p, r, s). length s)") (auto simp: startsWith_def)

definition decodeXmlEntities :: "string \<Rightarrow> string" where
  "decodeXmlEntities v =
     replaceAllStr ''&apos;'' [CHR 0x27]
       (replaceAllStr ''&quot;'' [CHR 0x22]
         (replaceAllStr ''&amp;'' ''&''
           (replaceAllStr ''&gt;'' ''>''
             (replaceAllStr ''&lt;'' ''<'' v))))"

subsection \<open>Open tags and their attributes\<close>

function expandReplacement :: "string list \<Rightarrow> string \<Rightarrow> string \<Rightarrow> string \<Rightarrow> string \<Rightarrow> string" where
  \<comment> \<open>The replacement text of \<open>s.replace(pattern, template)\<close> for a template string: \<open>$$\<close>
     is a dollar sign, \<open>$&\<close> the match, \<open>$`\<close> what precedes the match, \<open>$'\<close> what follows
     it, \<open>$n\<close> and \<open>$nn\<close> the group of that number when the pattern has one; a two-digit
     number beyond the groups is read as one digit; every other \<open>$\<close> stands for itself.
     \<open>caps\<close> are the groups of the match.\<close>
  "expandReplacement caps matched preceding following [] = []"
| "expandReplacement caps matched preceding following (c # t) =
     (if c \<noteq> CHR ''$'' then c # expandReplacement caps matched preceding following t
      else (case t of
              [] \<Rightarrow> [c]
            | d # t' \<Rightarrow>
                if d = CHR ''$'' then CHR ''$'' # expandReplacement caps matched preceding following t'
                else if d = CHR ''&'' then matched @ expandReplacement caps matched preceding following t'
                else if d = CHR 0x60 then preceding @ expandReplacement caps matched preceding following t'
                else if d = CHR 0x27 then following @ expandReplacement caps matched preceding following t'
                else if isDigit d then
                  (let one = (if 1 \<le> digitValue d \<and> digitValue d \<le> length caps
                              then caps ! (digitValue d - 1)
                                     @ expandReplacement caps matched preceding following t'
                              else c # d # expandReplacement caps matched preceding following t') in
                   case t' of
                     [] \<Rightarrow> one
                   | d2 # t'' \<Rightarrow>
                       if isDigit d2 then
                         (let idx = 10 * digitValue d + digitValue d2 in
                          if idx > length caps then one
                          else if 1 \<le> idx
                          then caps ! (idx - 1) @ expandReplacement caps matched preceding following t''
                          else c # d # d2 # expandReplacement caps matched preceding following t'')
                       else one)
                else c # expandReplacement caps matched preceding following t))"
  by pat_completeness auto
termination
  by (relation "measure (\<lambda>(caps, m, b, a, t). length t)") auto

definition isNameStartChar :: "char \<Rightarrow> bool" where
  \<comment> \<open>\<open>[A-Za-z_:]\<close>\<close>
  "isNameStartChar c = (isAsciiLetter c \<or> c = CHR ''_'' \<or> c = CHR '':'')"

definition isNameChar :: "char \<Rightarrow> bool" where
  \<comment> \<open>\<open>[A-Za-z0-9_.:-]\<close>\<close>
  "isNameChar c =
     (isAsciiLetter c \<or> isDigit c \<or> c = CHR ''_'' \<or> c = CHR ''.'' \<or> c = CHR '':'' \<or> c = CHR ''-'')"

definition matchQuoted :: "char \<Rightarrow> string \<Rightarrow> (string \<times> string) option" where
  \<comment> \<open>\<open>q([^q]*)q\<close> at the start of \<open>s\<close>, for a quote character \<open>q\<close>: the group, and
     what follows the closing quote.\<close>
  "matchQuoted q s =
     (case s of
        [] \<Rightarrow> None
      | c # r \<Rightarrow>
          if c \<noteq> q then None
          else (case dropWhile (\<lambda>x. x \<noteq> q) r of
                  [] \<Rightarrow> None
                | e # rest \<Rightarrow> Some (takeWhile (\<lambda>x. x \<noteq> q) r, rest)))"

definition matchAttribute :: "string \<Rightarrow> ((string \<times> string) \<times> string) option" where
  \<comment> \<open>\<open>([A-Za-z_:][A-Za-z0-9_.:-]*)\s*=\s*(?:"([^"]*)"|'([^']*)')\<close> at the start of
     \<open>s\<close>: the name and the value (\<open>match[2] ?? match[3] ?? ''\<close>), and what follows.\<close>
  "matchAttribute s =
     (case s of
        [] \<Rightarrow> None
      | c # r \<Rightarrow>
          if \<not> isNameStartChar c then None
          else (let name = c # takeWhile isNameChar r;
                    r1 = dropWhile isWhiteSpace (dropWhile isNameChar r) in
                case r1 of
                  [] \<Rightarrow> None
                | e # r2 \<Rightarrow>
                    if e \<noteq> CHR ''='' then None
                    else (let r3 = dropWhile isWhiteSpace r2 in
                          case matchQuoted (CHR 0x22) r3 of
                            Some (v, rest) \<Rightarrow> Some ((name, v), rest)
                          | None \<Rightarrow>
                              (case matchQuoted (CHR 0x27) r3 of
                                 Some (v, rest) \<Rightarrow> Some ((name, v), rest)
                               | None \<Rightarrow> None))))"

definition parseAttributes :: "string \<Rightarrow> (string \<times> string) list" where
  \<comment> \<open>The attributes in the order of their matches; the source stores them in an object,
     where a later match of a name replaces an earlier one: see \<open>attributeOf\<close>.\<close>
  "parseAttributes tagOpen = matchAll matchAttribute tagOpen"

definition attributeOf :: "(string \<times> string) list \<Rightarrow> string \<Rightarrow> string option" where
  \<comment> \<open>\<open>attributes[name]\<close>, \<open>None\<close> for \<open>undefined\<close>: the value of the last match of the
     name.\<close>
  "attributeOf attrs name = map_of (rev attrs) name"

definition extractInnerXml :: "string \<Rightarrow> string \<Rightarrow> error + string" where
  \<comment> \<open>\<open>^<tagName\b[^>]*>([\s\S]*?)</tagName>$\<close>: the open tag, and the group runs to the
     closing tag that ends the string.\<close>
  "extractInnerXml tagBlock tagName =
     (case matchTag (''<'' @ tagName) tagBlock of
        None \<Rightarrow> Inl (Error (''Invalid XML: could not extract inner XML for '' @ tagName))
      | Some (tagOpen, r) \<Rightarrow>
          (let closing = ''</'' @ tagName @ ''>'' in
           if length closing \<le> length r \<and> drop (length r - length closing) r = closing
           then Inr (take (length r - length closing) r)
           else Inl (Error (''Invalid XML: could not extract inner XML for '' @ tagName))))"

definition matchesNameChar :: "char \<Rightarrow> char \<Rightarrow> bool" where
  \<comment> \<open>One character of an attribute name that is put into a regular expression as it
     is: \<open>.\<close> matches every character but a line terminator, another character matches
     itself.\<close>
  "matchesNameChar p c = (if p = CHR ''.'' then \<not> isLineTerminator c else c = p)"

definition matchQuotedAttribute :: "string \<Rightarrow> string \<Rightarrow> (string \<times> string) option" where
  \<comment> \<open>\<open>new RegExp(`\\s${name}="[^"]*"`)\<close> at the start of \<open>s\<close>: the match, and what follows
     it. The name is not escaped; it is read as a pattern here for the names without the
     syntax characters \<open>^ $ \ * + ? ( ) [ ] { } |\<close>, of which the names \<open>class\<close> and
     \<open>data-code-lang\<close> are.\<close>
  \<open>matchQuotedAttribute name s =
     (case s of
        [] \<Rightarrow> None
      | c # r \<Rightarrow>
          if isWhiteSpace c \<and> length name \<le> length r
             \<and> list_all2 matchesNameChar name (take (length name) r)
             \<and> startsWith (drop (length name) r) ''="'' then
            (let r1 = drop (length name + 2) r in
             case dropWhile (\<lambda>x. x \<noteq> CHR 0x22) r1 of
               [] \<Rightarrow> None
             | e # rest \<Rightarrow>
                 Some (c # take (length name + 2) r @ takeWhile (\<lambda>x. x \<noteq> CHR 0x22) r1 @ ''"'',
                       rest))
          else None)\<close>

definition isTagNameChar :: "char \<Rightarrow> bool" where
  \<comment> \<open>\<open>[A-Za-z0-9-]\<close>\<close>
  "isTagNameChar c = (isAsciiLetter c \<or> isDigit c \<or> c = CHR ''-'')"

definition addOrUpdateAttribute :: "string \<Rightarrow> string \<Rightarrow> string \<Rightarrow> string" where
  \<open>addOrUpdateAttribute tagOpen attributeName attributeValue =
     (case findMatch (matchQuotedAttribute attributeName) tagOpen of
        Some (preceding, matched, following) \<Rightarrow>
          preceding
            @ expandReplacement [] matched preceding following
                ('' '' @ attributeName @ ''="'' @ attributeValue @ ''"'')
            @ following
      | None \<Rightarrow>
          (case tagOpen of
             [] \<Rightarrow> tagOpen
           | c # r \<Rightarrow>
               (let tagName = takeWhile isTagNameChar r; following = dropWhile isTagNameChar r in
                if c = CHR ''<'' \<and> tagName \<noteq> [] then
                  expandReplacement [tagName] (c # tagName) [] following
                    (''<$1 '' @ attributeName @ ''="'' @ attributeValue @ ''"'')
                    @ following
                else tagOpen)))\<close>

definition addToSet :: "string list \<Rightarrow> string \<Rightarrow> string list" where
  \<comment> \<open>\<open>merged.add(token)\<close> on a \<open>Set\<close>, which keeps the order of insertion.\<close>
  "addToSet merged token = (if token \<in> set merged then merged else merged @ [token])"

definition addClasses :: "string \<Rightarrow> string list \<Rightarrow> string" where
  "addClasses tagOpen classNames =
     (let attributes = parseAttributes tagOpen;
          existing = (case attributeOf attributes ''class'' of None \<Rightarrow> [] | Some v \<Rightarrow> v);
          merged = foldl addToSet [] (filter (\<lambda>token. length token > 0) (jsSplitWhitespace existing));
          merged = foldl addToSet merged classNames in
      addOrUpdateAttribute tagOpen ''class'' (joinWith '' '' merged))"

definition matchLanguageToken :: "string \<Rightarrow> string option" where
  \<comment> \<open>\<open>token.match(/^(?:language|lang)-([A-Za-z0-9_-]+)$/)\<close>: the group.\<close>
  "matchLanguageToken token =
     (let ok = (\<lambda>r. r \<noteq> [] \<and> list_all (\<lambda>c. isWordChar c \<or> c = CHR ''-'') r) in
      if startsWith token ''language-'' \<and> ok (drop 9 token) then Some (drop 9 token)
      else if startsWith token ''lang-'' \<and> ok (drop 5 token) then Some (drop 5 token)
      else None)"

definition firstLanguageToken :: "string list \<Rightarrow> string option" where
  \<comment> \<open>The loop over the tokens, which returns at the first token that matches.\<close>
  "firstLanguageToken tokens =
     (case List.map_filter matchLanguageToken tokens of [] \<Rightarrow> None | l # ls \<Rightarrow> Some l)"

definition detectCodeLanguageFromOpenTag :: "string \<Rightarrow> string option" where
  "detectCodeLanguageFromOpenTag tagOpen =
     (let attributes = parseAttributes tagOpen;
          fromData =
            (case attributeOf attributes ''data-lang'' of
               Some v \<Rightarrow> Some v
             | None \<Rightarrow>
                 (case attributeOf attributes ''data-language'' of
                    Some v \<Rightarrow> Some v
                  | None \<Rightarrow> attributeOf attributes ''data-code-lang'')) in
      if fromData \<noteq> None \<and> fromData \<noteq> Some [] then Some (trim (the fromData))
      else (case attributeOf attributes ''class'' of
              None \<Rightarrow> None
            | Some classAttr \<Rightarrow>
                if classAttr = [] then None
                else firstLanguageToken (jsSplitWhitespace classAttr)))"

definition normalizeLanguageForReport :: "string \<Rightarrow> string" where
  "normalizeLanguageForReport language =
     (let normalized = toLowerCase language in
      if normalized = ''xml'' then ''html''
      else if normalized = ''plaintext'' then ''plain''
      else normalized)"

subsection \<open>The report renderer and its passes\<close>

record code_highlight_result =
  hl_language :: "string option"
  hl_html :: string

record resolved_report_options =
  clozeInputHtml :: string
  choiceWrapperClassName :: string
  codeBlockClassName :: string
  codeBlockCodeClassName :: string
  inlineCodeClassName :: string
  dataCodeLangAttribute :: string
  itemBodyWrapperClassName :: string

record report_render_options =
  \<comment> \<open>\<open>ReportRenderOptions\<close>: every field is optional.\<close>
  opt_clozeInputHtml :: "string option"
  opt_choiceWrapperClassName :: "string option"
  opt_codeBlockClassName :: "string option"
  opt_codeBlockCodeClassName :: "string option"
  opt_inlineCodeClassName :: "string option"
  opt_dataCodeLangAttribute :: "string option"
  opt_itemBodyWrapperClassName :: "string option"
  opt_codeHighlighter :: "(string \<Rightarrow> string option \<Rightarrow> code_highlight_result) option"

definition defaultReportOptions :: resolved_report_options where
  "defaultReportOptions =
     \<lparr>clozeInputHtml = ''<input class=cloze-input type=text readonly aria-label=blank>'',
      choiceWrapperClassName = ''choice-interaction'',
      codeBlockClassName = ''code-block hljs'',
      codeBlockCodeClassName = ''code-block-code'',
      inlineCodeClassName = ''code-inline'',
      dataCodeLangAttribute = ''data-code-lang'',
      itemBodyWrapperClassName = ''item-body''\<rparr>"

definition resolveReportOptions :: "report_render_options \<Rightarrow> resolved_report_options" where
  \<comment> \<open>\<open>{ ...defaultReportOptions, ...options }\<close>\<close>
  "resolveReportOptions options =
     \<lparr>clozeInputHtml = (case opt_clozeInputHtml options of
                           None \<Rightarrow> clozeInputHtml defaultReportOptions | Some v \<Rightarrow> v),
      choiceWrapperClassName = (case opt_choiceWrapperClassName options of
                           None \<Rightarrow> choiceWrapperClassName defaultReportOptions | Some v \<Rightarrow> v),
      codeBlockClassName = (case opt_codeBlockClassName options of
                           None \<Rightarrow> codeBlockClassName defaultReportOptions | Some v \<Rightarrow> v),
      codeBlockCodeClassName = (case opt_codeBlockCodeClassName options of
                           None \<Rightarrow> codeBlockCodeClassName defaultReportOptions | Some v \<Rightarrow> v),
      inlineCodeClassName = (case opt_inlineCodeClassName options of
                           None \<Rightarrow> inlineCodeClassName defaultReportOptions | Some v \<Rightarrow> v),
      dataCodeLangAttribute = (case opt_dataCodeLangAttribute options of
                           None \<Rightarrow> dataCodeLangAttribute defaultReportOptions | Some v \<Rightarrow> v),
      itemBodyWrapperClassName = (case opt_itemBodyWrapperClassName options of
                           None \<Rightarrow> itemBodyWrapperClassName defaultReportOptions | Some v \<Rightarrow> v)\<rparr>"

definition matchPreBlock :: "string \<Rightarrow> (string \<times> string) option" where
  \<comment> \<open>\<open><pre\b[^>]*>[\s\S]*?<\/pre>\<close> at the start of \<open>s\<close>: the match, and what follows
     it.\<close>
  "matchPreBlock s =
     (case matchTag ''<pre'' s of
        None \<Rightarrow> None
      | Some (preOpen, r) \<Rightarrow>
          (case splitAtFirst ''</pre>'' r of
             None \<Rightarrow> None
           | Some (inner, rest) \<Rightarrow> Some (preOpen @ inner @ ''</pre>'', rest)))"

definition matchCodeTag :: "string \<Rightarrow> (string \<times> string) option" where
  \<comment> \<open>\<open><\/?code\b[^>]*>\<close> at the start of \<open>s\<close>\<close>
  "matchCodeTag s =
     (case matchTag ''</code'' s of Some m \<Rightarrow> Some m | None \<Rightarrow> matchTag ''<code'' s)"

definition normalizePreBlock :: "string \<Rightarrow> string" where
  \<comment> \<open>The function that \<open>normalizePreBlocks\<close> applies to each match.\<close>
  "normalizePreBlock preBlock =
     (case matchTag ''<pre'' preBlock of
        None \<Rightarrow> preBlock
      | Some (preOpen, r) \<Rightarrow>
          (case extractInnerXml preBlock ''pre'' of
             Inl e \<Rightarrow> preBlock
           | Inr inner \<Rightarrow>
               (case findMatch (matchTag ''<code'') inner of
                  None \<Rightarrow> preBlock
                | Some (preceding, firstCodeOpen, following) \<Rightarrow>
                    (let withoutCodeTags = replaceGlobal matchCodeTag (\<lambda>tag. []) inner in
                     preOpen @ firstCodeOpen @ withoutCodeTags @ ''</code></pre>''))))"

definition normalizePreBlocks :: "string \<Rightarrow> string" where
  "normalizePreBlocks htmlFragment = replaceGlobal matchPreBlock normalizePreBlock htmlFragment"

definition matchPreCode :: "string \<Rightarrow> ((string \<times> string \<times> string \<times> string \<times> string) \<times> string) option" where
  \<comment> \<open>\<open>(<pre\b[^>]*>)(\s*)(<code\b[^>]*>)([\s\S]*?)(<\/code>)\<close> at the start of \<open>s\<close>:
     the five groups, and what follows the match.\<close>
  "matchPreCode s =
     (case matchTag ''<pre'' s of
        None \<Rightarrow> None
      | Some (preOpen, r1) \<Rightarrow>
          (let whitespace = takeWhile isWhiteSpace r1 in
           case matchTag ''<code'' (dropWhile isWhiteSpace r1) of
             None \<Rightarrow> None
           | Some (codeOpen, r2) \<Rightarrow>
               (case splitAtFirst ''</code>'' r2 of
                  None \<Rightarrow> None
                | Some (codeContent, rest) \<Rightarrow>
                    Some ((preOpen, whitespace, codeOpen, codeContent, ''</code>''), rest))))"

definition enhanceCodeBlock ::
  "resolved_report_options \<Rightarrow> (string \<Rightarrow> string option \<Rightarrow> code_highlight_result) option
     \<Rightarrow> string \<times> string \<times> string \<times> string \<times> string \<Rightarrow> string" where
  \<comment> \<open>The function that \<open>enhanceCodeBlocks\<close> applies to the groups of each match.\<close>
  "enhanceCodeBlock options codeHighlighter =
     (\<lambda>(preOpen, whitespace, codeOpen, codeContent, codeClose).
        (let explicitLanguage = detectCodeLanguageFromOpenTag codeOpen;
             language0 = (case explicitLanguage of
                            None \<Rightarrow> ''plain''
                          | Some l \<Rightarrow> if l = [] then ''plain'' else normalizeLanguageForReport l);
             (language, content) =
               (case codeHighlighter of
                  None \<Rightarrow> (language0, codeContent)
                | Some highlight \<Rightarrow>
                    (let highlighted = highlight (decodeXmlEntities codeContent) explicitLanguage in
                     (normalizeLanguageForReport
                        (case hl_language highlighted of None \<Rightarrow> language0 | Some l \<Rightarrow> l),
                      if length (hl_html highlighted) > 0 then hl_html highlighted
                      else codeContent)));
             enhancedPre =
               addOrUpdateAttribute
                 (addClasses preOpen (jsSplitWhitespace (codeBlockClassName options)))
                 (dataCodeLangAttribute options) language;
             enhancedCode =
               addOrUpdateAttribute
                 (addClasses codeOpen (jsSplitWhitespace (codeBlockCodeClassName options)))
                 (dataCodeLangAttribute options) language in
         enhancedPre @ whitespace @ enhancedCode @ content @ codeClose))"

definition enhanceCodeBlocks ::
  "string \<Rightarrow> resolved_report_options
     \<Rightarrow> (string \<Rightarrow> string option \<Rightarrow> code_highlight_result) option \<Rightarrow> string" where
  "enhanceCodeBlocks htmlFragment options codeHighlighter =
     replaceGlobal matchPreCode (enhanceCodeBlock options codeHighlighter) htmlFragment"

definition enhanceInlineCodeTag :: "resolved_report_options \<Rightarrow> string \<Rightarrow> string" where
  \<comment> \<open>The function that \<open>enhanceInlineCode\<close> applies to each \<open>code\<close> open tag.\<close>
  "enhanceInlineCodeTag options codeOpen =
     (let attributes = parseAttributes codeOpen;
          existingClasses = (case attributeOf attributes ''class'' of None \<Rightarrow> [] | Some v \<Rightarrow> v) in
      if codeBlockCodeClassName options \<in> set (jsSplitWhitespace existingClasses) then codeOpen
      else
        (let language = detectCodeLanguageFromOpenTag codeOpen;
             enhancedCode = addClasses codeOpen (jsSplitWhitespace (inlineCodeClassName options)) in
         case language of
           None \<Rightarrow> enhancedCode
         | Some l \<Rightarrow>
             if l = [] then enhancedCode
             else addOrUpdateAttribute enhancedCode (dataCodeLangAttribute options)
                    (normalizeLanguageForReport l)))"

definition enhanceInlineCode :: "string \<Rightarrow> resolved_report_options \<Rightarrow> string" where
  "enhanceInlineCode htmlFragment options =
     replaceGlobal (matchTag ''<code'') (enhanceInlineCodeTag options) htmlFragment"

definition serializeAttributes :: "node \<Rightarrow> string" where
  \<open>serializeAttributes el =
     concat (map (\<lambda>(name, v). '' '' @ name @ ''="'' @ escapeHtml v @ ''"'')
               (filter (\<lambda>(name, v). \<not> (name = ''xmlns'' \<or> startsWith name ''xmlns:''))
                  (attributes el)))\<close>

function renderNodeForReport :: "node \<Rightarrow> resolved_report_options \<Rightarrow> bool \<Rightarrow> bool \<Rightarrow> string" where
  \<open>renderNodeForReport (Text t) options inPre preserveWhitespace =
     (if inPre \<and> \<not> preserveWhitespace \<and> trim t = [] then [] else escapeHtml t)\<close>
| \<open>renderNodeForReport (OtherNode ty d) options inPre preserveWhitespace = []\<close>
| \<open>renderNodeForReport (Element nn name attrs children) options inPre preserveWhitespace =
     (let el = Element nn name attrs children in
      if name = ''qti-rubric-block'' then []
      else if name = ''qti-choice-interaction'' then
        (let classAttr = (if choiceWrapperClassName options \<noteq> []
                          then '' class="'' @ escapeHtml (choiceWrapperClassName options) @ ''"''
                          else []) in
         ''<div'' @ classAttr @ ''>''
           @ concat (map (\<lambda>child. renderNodeForReport child options inPre preserveWhitespace) children)
           @ ''</div>'')
      else if name = ''qti-text-entry-interaction'' then clozeInputHtml options
      else if name = ''qti-extended-text-interaction'' then []
      else if name = ''qti-pre'' \<or> name = ''pre'' then
        ''<pre'' @ serializeAttributes el @ ''>''
          @ concat (map (\<lambda>child. renderNodeForReport child options True False) children)
          @ ''</pre>''
      else if name = ''qti-code'' \<or> name = ''code'' then
        ''<code'' @ serializeAttributes el @ ''>''
          @ concat (map (\<lambda>child. renderNodeForReport child options inPre True) children)
          @ ''</code>''
      else if name = ''qti-img'' \<or> name = ''img'' then ''<img'' @ serializeAttributes el @ '' />''
      else if name = ''qti-hr'' \<or> name = ''hr'' then ''<hr />''
      else
        (let tagName = (if startsWith name ''qti-'' then drop 4 name else name) in
         ''<'' @ tagName @ serializeAttributes el @ ''>''
           @ concat (map (\<lambda>child. renderNodeForReport child options inPre preserveWhitespace) children)
           @ ''</'' @ tagName @ ''>''))\<close>
  by pat_completeness auto
termination
proof (relation "measure (\<lambda>(n, opts, inPre, pw). size n)", goal_cases)
  case 1
  show ?case by simp
qed (simp_all add: size_child_lt)

declare renderNodeForReport.simps(3) [simp del]

record parsed_item_for_report =
  r_identifier :: string
  r_title :: string
  r_questionHtml :: string
  r_rubricCriteria :: "rubric_criterion list"
  r_itemMaxScore :: rat
  r_choices :: "choice_option list"

definition renderQtiItemForReport ::
  "xml_parser \<Rightarrow> string \<Rightarrow> string \<Rightarrow> report_render_options \<Rightarrow> error + parsed_item_for_report" where
  \<open>renderQtiItemForReport parseXml xml expectedIdentifier options =
     (let resolved = resolveReportOptions options in
      case parseXml xml of
        None \<Rightarrow> Inl (Error (''Invalid assessment item: XML parse failed for '' @ expectedIdentifier))
      | Some rootEl \<Rightarrow>
          if nodeName rootEl = ''parsererror''
          then Inl (Error (''Invalid assessment item: XML parse failed for '' @ expectedIdentifier))
          else
            (let identifier = (case getAttribute rootEl ''identifier'' of
                                 None \<Rightarrow> [] | Some v \<Rightarrow> v);
                 title = (case getAttribute rootEl ''title'' of
                            None \<Rightarrow> expectedIdentifier | Some v \<Rightarrow> v) in
             if identifier = []
             then Inl (Error (''Invalid assessment item: identifier missing in ''
                                @ expectedIdentifier))
             else if identifier \<noteq> expectedIdentifier
             then Inl (Error (''Assessment item identifier mismatch: expected ''
                                @ expectedIdentifier @ '' but found '' @ identifier))
             else
               (case firstOf (getElementsByLocalName rootEl ''qti-item-body'') of
                  None \<Rightarrow> Inl (Error (''Invalid assessment item: qti-item-body not found for ''
                                         @ identifier))
                | Some itemBody \<Rightarrow>
                    (let rubricCriteria = extractRubricCriteria itemBody;
                         itemMaxScore = foldl (\<lambda>total criterion. total + rc_points criterion) 0
                                          rubricCriteria;
                         rawBody = concat (map (\<lambda>n. renderNodeForReport n resolved False False)
                                             (childNodes itemBody));
                         wrappedHtml = ''<div class="'' @ itemBodyWrapperClassName resolved @ ''">''
                                         @ rawBody @ ''</div>'';
                         normalizedPreBlocks = normalizePreBlocks wrappedHtml;
                         withCodeBlocks = enhanceCodeBlocks normalizedPreBlocks resolved
                                            (opt_codeHighlighter options);
                         questionHtml = enhanceInlineCode withCodeBlocks resolved;
                         choices = extractChoices itemBody in
                     Inr \<lparr>r_identifier = identifier,
                          r_title = title,
                          r_questionHtml = questionHtml,
                          r_rubricCriteria = rubricCriteria,
                          r_itemMaxScore = itemMaxScore,
                          r_choices = choices\<rparr>))))\<close>

definition noReportOptions :: report_render_options where
  \<comment> \<open>The options argument \<open>{}\<close>.\<close>
  "noReportOptions =
     \<lparr>opt_clozeInputHtml = None, opt_choiceWrapperClassName = None,
      opt_codeBlockClassName = None, opt_codeBlockCodeClassName = None,
      opt_inlineCodeClassName = None, opt_dataCodeLangAttribute = None,
      opt_itemBodyWrapperClassName = None, opt_codeHighlighter = None\<rparr>"

definition exampleReportItem :: node where
  \<comment> \<open>The item of the repository's report test, with an inline code element added.\<close>
  "exampleReportItem =
     elem ''qti-assessment-item''
       [(''xmlns'', ''http://www.imsglobal.org/xsd/imsqti_v3p0''), (''identifier'', ''item-7''),
        (''title'', ''Item 7'')]
       [elem ''qti-item-body'' []
          [elem ''qti-p'' []
             [elem ''pre'' []
                [elem ''code'' [(''class'', ''language-css'')] [Text ''.modal { opacity: 0.5; }'']]],
           elem ''qti-p'' []
             [Text ''see '', elem ''qti-code'' [] [Text ''x<y''],
              elem ''qti-text-entry-interaction'' [] []],
           elem ''qti-rubric-block'' [(''view'', ''scorer'')] [elem ''qti-p'' [] [Text ''[1] ok'']]]]"

definition exampleCodeBlockItem :: node where
  \<comment> \<open>An item whose body is a code block: \<open><qti-pre><qti-code>a</qti-code></qti-pre>\<close>.\<close>
  "exampleCodeBlockItem =
     elem ''qti-assessment-item'' [(''identifier'', ''item-9'')]
       [elem ''qti-item-body'' [] [elem ''qti-pre'' [] [elem ''qti-code'' [] [Text ''a'']]]]"

definition twoClassNamesOptions :: report_render_options where
  \<comment> \<open>The options argument \<open>{ codeBlockCodeClassName: 'hljs code-block-code' }\<close>.\<close>
  "twoClassNamesOptions = noReportOptions\<lparr>opt_codeBlockCodeClassName := Some ''hljs code-block-code''\<rparr>"

section \<open>Post-processing of rendered HTML\<close>

text \<open>
  \<open>applyResponsesToPromptHtml\<close> and \<open>rewriteHtmlImageSources\<close> work on a document that an
  injected \<open>DOMParser\<close> builds from the HTML string. They use three things of it: the
  elements that a selector finds, in document order; the attributes of such an element,
  which they read and set; and \<open>doc.body.innerHTML\<close>. The document is modelled
  accordingly: its elements in document order, each with its tag name and attributes, and
  whatever else the serializer reads (\<open>doc_rest\<close>). An element is referred to by its
  position in document order; setting an attribute of one element leaves the others as
  they are.
\<close>

record helement =
  h_tag :: string
  h_attrs :: "(string \<times> string) list"

record 'd html_document =
  doc_elements :: "helement list"
  doc_rest :: 'd

record 'd html_dom_parser =
  \<comment> \<open>\<open>parser.parseFromString(html, 'text/html')\<close> and the \<open>doc.body.innerHTML\<close> of its
     documents.\<close>
  parseFromString :: "string \<Rightarrow> 'd html_document"
  bodyInnerHTML :: "'d html_document \<Rightarrow> string"

definition resolveHtmlDomParser ::
  "'d html_dom_parser option \<Rightarrow> 'd html_dom_parser option \<Rightarrow> error + 'd html_dom_parser" where
  \<comment> \<open>The second argument is the ambient \<open>globalThis.DOMParser\<close>, \<open>None\<close> when the global
     is not a function.\<close>
  "resolveHtmlDomParser domParser globalDOMParser =
     (case domParser of
        Some p \<Rightarrow> Inr p
      | None \<Rightarrow>
          (case globalDOMParser of
             Some g \<Rightarrow> Inr g
           | None \<Rightarrow>
               Inl (Error ''DOMParser is not available. Provide a domParser option (e.g. from linkedom/jsdom).'')))"

definition querySelectorAll :: "'d html_document \<Rightarrow> (helement \<Rightarrow> bool) \<Rightarrow> nat list" where
  \<comment> \<open>\<open>doc.querySelectorAll(selector)\<close>: the elements that match, in document order.\<close>
  "querySelectorAll doc selector =
     filter (\<lambda>i. selector (doc_elements doc ! i)) [0..<length (doc_elements doc)]"

definition getAttributeOf :: "'d html_document \<Rightarrow> nat \<Rightarrow> string \<Rightarrow> string option" where
  \<comment> \<open>\<open>el.getAttribute(name)\<close>\<close>
  "getAttributeOf doc el name = map_of (h_attrs (doc_elements doc ! el)) name"

definition setAttr :: "string \<Rightarrow> string \<Rightarrow> (string \<times> string) list \<Rightarrow> (string \<times> string) list" where
  "setAttr name v attrs =
     (if name \<in> fst ` set attrs
      then map (\<lambda>(k, w). if k = name then (k, v) else (k, w)) attrs
      else attrs @ [(name, v)])"

definition setAttribute :: "nat \<Rightarrow> string \<Rightarrow> string \<Rightarrow> 'd html_document \<Rightarrow> 'd html_document" where
  \<comment> \<open>\<open>el.setAttribute(name, value)\<close>\<close>
  "setAttribute el name v doc =
     doc\<lparr>doc_elements :=
           (doc_elements doc)[el := (doc_elements doc ! el)
                                       \<lparr>h_attrs := setAttr name v (h_attrs (doc_elements doc ! el))\<rparr>]\<rparr>"

definition classTokens :: "helement \<Rightarrow> string list" where
  \<comment> \<open>The tokens of the \<open>class\<close> attribute, separated by whitespace.\<close>
  "classTokens e =
     (case map_of (h_attrs e) ''class'' of
        None \<Rightarrow> []
      | Some c \<Rightarrow>
          filter (\<lambda>t. t \<noteq> [])
            (foldr (\<lambda>ch acc. if isWhiteSpace ch then [] # acc
                              else (case acc of [] \<Rightarrow> [[ch]] | t # ts \<Rightarrow> (ch # t) # ts))
               c []))"

definition isBlankInput :: "helement \<Rightarrow> bool" where
  \<comment> \<open>The selector \<open>input.qti-blank-input\<close>\<close>
  "isBlankInput e = (h_tag e = ''input'' \<and> ''qti-blank-input'' \<in> set (classTokens e))"

definition isImgWithSrc :: "helement \<Rightarrow> bool" where
  \<comment> \<open>The selector \<open>img[src]\<close>\<close>
  "isImgWithSrc e = (h_tag e = ''img'' \<and> map_of (h_attrs e) ''src'' \<noteq> None)"

datatype response = Null | Undefined | Single string | Many "string list"

definition MIN_BLANK_SIZE :: nat where
  "MIN_BLANK_SIZE = 6"

definition normalizeResponses :: "response \<Rightarrow> string list" where
  "normalizeResponses r =
     (case r of Null \<Rightarrow> [] | Undefined \<Rightarrow> [] | Single s \<Rightarrow> [s] | Many ss \<Rightarrow> ss)"

definition computeBlankSize :: "string \<Rightarrow> nat" where
  "computeBlankSize v = max MIN_BLANK_SIZE (length v)"

definition fillBlank :: "string list \<Rightarrow> nat \<times> nat \<Rightarrow> 'd html_document \<Rightarrow> 'd html_document" where
  \<comment> \<open>The callback \<open>(blank, index) => ...\<close> of \<open>blanks.forEach\<close>; \<open>responses[index]\<close> is
     \<open>undefined\<close> from the length of \<open>responses\<close> on.\<close>
  "fillBlank responses = (\<lambda>(blank, index) doc.
     if index < length responses
     then (let v = responses ! index in
           setAttribute blank ''size'' (stringOfNat (computeBlankSize v))
             (setAttribute blank ''value'' v doc))
     else doc)"

definition forEachIndexed :: "('a \<times> nat \<Rightarrow> 's \<Rightarrow> 's) \<Rightarrow> 'a list \<Rightarrow> 's \<Rightarrow> 's" where
  \<comment> \<open>\<open>xs.forEach((x, index) => ...)\<close> for a callback that updates the state \<open>s\<close>.\<close>
  "forEachIndexed f xs s = fold f (zip xs [0..<length xs]) s"

definition applyResponsesToPromptHtml ::
  "string \<Rightarrow> response \<Rightarrow> 'd html_dom_parser option \<Rightarrow> 'd html_dom_parser option
     \<Rightarrow> error + string" where
  \<comment> \<open>The third argument is \<open>options.domParser\<close>, the fourth the ambient
     \<open>globalThis.DOMParser\<close>.\<close>
  "applyResponsesToPromptHtml promptHtml response domParser globalDOMParser =
     (if \<not> includesStr promptHtml ''qti-blank-input'' then Inr promptHtml
      else
        (let responses = normalizeResponses response in
         if length responses = 0 then Inr promptHtml
         else
           (case resolveHtmlDomParser domParser globalDOMParser of
              Inl e \<Rightarrow> Inl e
            | Inr parser \<Rightarrow>
                (let doc = parseFromString parser promptHtml;
                     blanks = querySelectorAll doc isBlankInput in
                 if length blanks = 0 then Inr promptHtml
                 else Inr (bodyInnerHTML parser (forEachIndexed (fillBlank responses) blanks doc))))))"

definition matchSchemeSlashes :: "string \<Rightarrow> bool" where
  \<comment> \<open>\<open>/^(?:[a-z]+:)?\/\//i.test(src)\<close>: two slashes at the start, or after one or more
     letters and a colon.\<close>
  "matchSchemeSlashes src =
     (startsWith src ''//''
      \<or> (let letters = takeWhile isAsciiLetter src
          in letters \<noteq> [] \<and> startsWith (drop (length letters) src) ''://''))"

definition defaultIsExternalSource :: "string \<Rightarrow> bool" where
  "defaultIsExternalSource src =
     (matchSchemeSlashes src \<or> startsWith src ''data:'' \<or> startsWith src ''/'')"

record rewrite_image_sources_options =
  resolveUrl :: "string \<Rightarrow> string \<Rightarrow> string"
  isExternalSource :: "(string \<Rightarrow> bool) option"

definition rewriteImage ::
  "(string \<Rightarrow> string \<Rightarrow> string option) \<Rightarrow> string \<Rightarrow> rewrite_image_sources_options
     \<Rightarrow> nat \<Rightarrow> 'd html_document \<Rightarrow> 'd html_document" where
  \<comment> \<open>The callback \<open>(img) => ...\<close> of \<open>images.forEach\<close>. \<open>resolveRelativePath\<close> is a function
     of another package; \<open>None\<close> and the empty string are its falsy results.\<close>
  "rewriteImage resolveRelativePath baseFilePath options = (\<lambda>img doc.
     (let rawSrc = getAttributeOf doc img ''src'';
          isExternal = (case isExternalSource options of
                          None \<Rightarrow> defaultIsExternalSource | Some f \<Rightarrow> f) in
      case rawSrc of
        None \<Rightarrow> doc
      | Some src \<Rightarrow>
          if src = [] \<or> isExternal src then doc
          else (case resolveRelativePath baseFilePath src of
                  None \<Rightarrow> doc
                | Some resolved \<Rightarrow>
                    if resolved = [] then doc
                    else setAttribute img ''src'' (resolveUrl options resolved src) doc)))"

definition rewriteHtmlImageSources ::
  "(string \<Rightarrow> string \<Rightarrow> string option) \<Rightarrow> string \<Rightarrow> string \<Rightarrow> rewrite_image_sources_options
     \<Rightarrow> 'd html_dom_parser option \<Rightarrow> 'd html_dom_parser option \<Rightarrow> error + string" where
  "rewriteHtmlImageSources resolveRelativePath html baseFilePath options domParser globalDOMParser =
     (case resolveHtmlDomParser domParser globalDOMParser of
        Inl e \<Rightarrow> Inl e
      | Inr parser \<Rightarrow>
          (let doc = parseFromString parser html;
               images = querySelectorAll doc isImgWithSrc in
           Inr (bodyInnerHTML parser
                  (fold (rewriteImage resolveRelativePath baseFilePath options) images doc))))"

subsection \<open>Notions used in the proofs about the HTML passes\<close>



definition rewritten ::
  "(string \<Rightarrow> string \<Rightarrow> string option) \<Rightarrow> string \<Rightarrow> rewrite_image_sources_options
     \<Rightarrow> helement \<Rightarrow> helement" where
  \<comment> \<open>An image element after \<open>rewriteImage\<close>.\<close>
  "rewritten resolveRelativePath baseFilePath options e =
     (case map_of (h_attrs e) ''src'' of
        None \<Rightarrow> e
      | Some src \<Rightarrow>
          if src = [] \<or> (case isExternalSource options of
                            None \<Rightarrow> defaultIsExternalSource | Some f \<Rightarrow> f) src then e
          else (case resolveRelativePath baseFilePath src of
                  None \<Rightarrow> e
                | Some resolved \<Rightarrow>
                    if resolved = [] then e
                    else e\<lparr>h_attrs := setAttr ''src'' (resolveUrl options resolved src) (h_attrs e)\<rparr>))"

definition serializeElements :: "'d html_document \<Rightarrow> string" where
  \<comment> \<open>A serializer for the examples: the open tags of the elements, one after the
     other.\<close>
  \<open>serializeElements doc =
     concat (map (\<lambda>e. ''<'' @ h_tag e
                        @ concat (map (\<lambda>(k, v). '' '' @ k @ ''="'' @ v @ ''"'') (h_attrs e)) @ ''>'')
               (doc_elements doc))\<close>

definition exampleBlankDocument :: "unit html_document" where
  \<comment> \<open>A paragraph with two blank inputs.\<close>
  "exampleBlankDocument =
     \<lparr>doc_elements =
        [\<lparr>h_tag = ''p'', h_attrs = []\<rparr>,
         \<lparr>h_tag = ''input'', h_attrs = [(''class'', ''qti-blank-input''), (''data-blank'', ''1''),
                                         (''size'', ''6'')]\<rparr>,
         \<lparr>h_tag = ''input'', h_attrs = [(''class'', ''qti-blank-input''), (''data-blank'', ''2''),
                                         (''size'', ''6'')]\<rparr>],
      doc_rest = ()\<rparr>"

definition exampleBlankParser :: "unit html_dom_parser" where
  "exampleBlankParser =
     \<lparr>parseFromString = (\<lambda>html. exampleBlankDocument), bodyInnerHTML = serializeElements\<rparr>"

definition exampleImageDocument :: "unit html_document" where
  \<comment> \<open>Three images: a relative source, an \<open>https\<close> source and an \<open>s3\<close> source.\<close>
  "exampleImageDocument =
     \<lparr>doc_elements =
        [\<lparr>h_tag = ''img'', h_attrs = [(''src'', ''images/pic.png'')]\<rparr>,
         \<lparr>h_tag = ''img'', h_attrs = [(''src'', ''https://example.org/pic.png'')]\<rparr>,
         \<lparr>h_tag = ''img'', h_attrs = [(''src'', ''s3://bucket/pic.png'')]\<rparr>],
      doc_rest = ()\<rparr>"

definition exampleImageParser :: "unit html_dom_parser" where
  "exampleImageParser =
     \<lparr>parseFromString = (\<lambda>html. exampleImageDocument), bodyInnerHTML = serializeElements\<rparr>"

definition exampleRewriteOptions :: rewrite_image_sources_options where
  "exampleRewriteOptions =
     \<lparr>resolveUrl = (\<lambda>resolved original. ''/assets/'' @ resolved), isExternalSource = None\<rparr>"
section \<open>Properties of the criterion parser\<close>

lemma takeWhile_all_append:
  "list_all P xs \<Longrightarrow> \<not> P y \<Longrightarrow> takeWhile P (xs @ y # ys) = xs"
  by (induction xs) auto











section \<open>Properties of the scoring renderer\<close>

subsection \<open>Filling a shape\<close>

lemma blankNodes_append [simp]: "blankNodes (ps @ qs) = blankNodes ps @ blankNodes qs"
  by (induction ps rule: blankNodes.induct) simp_all

lemma blankCount_simps [simp]:
  "blankCount [] = 0" "blankCount (Lit s # ps) = blankCount ps"
  "blankCount (Blank n # ps) = Suc (blankCount ps)"
  "blankCount (ps @ qs) = blankCount ps + blankCount qs"
  by (simp_all add: blankCount_def)

lemma blankNodes_concat: "blankNodes (concat pss) = concat (map blankNodes pss)"
  by (induction pss) simp_all

lemma fill_append: "fill r k (ps @ qs) = fill r k ps @ fill r (k + blankCount ps) qs"
  by (induction r k ps rule: fill.induct) simp_all

lemma step_is_pair: "step_is (\<lambda>r s. (h, s)) [Lit h] reg []"
  by (simp add: step_is_def)

lemma step_is_blank:
  "step_is (\<lambda>r s. (r (counter_value s + 1), s\<lparr>counter_value := counter_value s + 1\<rparr>))
     [Blank b] reg [b]"
  by (simp add: step_is_def)

lemma step_is_if:
  "step_is F p reg ts \<Longrightarrow> step_is G q reg ts
     \<Longrightarrow> step_is (\<lambda>r s. if c then F r s else G r s) (if c then p else q) reg ts"
  by (cases c) simp_all

lemma step_is_weaken:
  "step_is F p reg ts \<Longrightarrow> (reg' \<Longrightarrow> reg \<and> ts' = ts) \<Longrightarrow> step_is F p reg' ts'"
  unfolding step_is_def by metis

lemma step_is_wrapWith:
  assumes "step_is F p reg ts"
  shows "step_is (\<lambda>r s. wrapWith a b (F r s)) (wrapPieces a b p) reg ts"
  using assms by (simp add: step_is_def wrapWith_def wrapPieces_def fill_append)

lemma step_is_mapJoin:
  assumes "\<And>x. x \<in> set xs \<Longrightarrow> step_is (\<lambda>r. f r x) (T x) (R x) (g x)"
  shows "step_is (\<lambda>r. mapJoin (f r) xs) (concat (map T xs)) (list_all R xs) (concat (map g xs))"
  using assms
proof (induction xs)
  case Nil
  show ?case by (simp add: step_is_def)
next
  case (Cons x xs)
  have 1: "step_is (\<lambda>r. f r x) (T x) (R x) (g x)" using Cons.prems by simp
  have 2: "step_is (\<lambda>r. mapJoin (f r) xs) (concat (map T xs)) (list_all R xs) (concat (map g xs))"
    using Cons by simp
  show ?case unfolding step_is_def
  proof (intro conjI allI impI)
    fix r s assume r: "solid r"
    from 1 r have a: "f r x s = (fill r (counter_value s) (T x),
                                 s\<lparr>counter_value := counter_value s + blankCount (T x)\<rparr>)"
      by (simp add: step_is_def)
    from 2 r have b: "mapJoin (f r) xs s' = (fill r (counter_value s') (concat (map T xs)),
                       s'\<lparr>counter_value := counter_value s' + blankCount (concat (map T xs))\<rparr>)" for s'
      by (simp add: step_is_def)
    show "mapJoin (f r) (x # xs) s
            = (fill r (counter_value s) (concat (map T (x # xs))),
               s\<lparr>counter_value := counter_value s + blankCount (concat (map T (x # xs)))\<rparr>)"
      by (simp add: a b fill_append add.assoc)
  next
    assume "list_all R (x # xs)"
    with 1 2 show "blankNodes (concat (map T (x # xs))) = concat (map g (x # xs))"
      by (simp add: step_is_def)
  qed
qed

subsection \<open>Trimming the rendering of a code element\<close>

lemma solid_parts:
  assumes "solid r"
  obtains c cs where "r i = c # cs" "\<not> isWhiteSpace c"
proof -
  from assms have "r i \<noteq> []" "\<not> isWhiteSpace (hd (r i))" by (simp_all add: solid_def)
  then show ?thesis using that by (cases "r i") auto
qed

lemma solid_last:
  assumes "solid r"
  obtains cs c where "r i = cs @ [c]" "\<not> isWhiteSpace c"
proof -
  from assms have "r i \<noteq> []" "\<not> isWhiteSpace (last (r i))" by (simp_all add: solid_def)
  then show ?thesis using that by (metis append_butlast_last_id)
qed

lemma blankNodes_dropLeading [simp]: "blankNodes (dropLeading ps) = blankNodes ps"
  by (induction ps rule: dropLeading.induct) simp_all

lemma blankNodes_dropTrailingRev [simp]: "blankNodes (dropTrailingRev ps) = blankNodes ps"
  by (induction ps rule: dropTrailingRev.induct) simp_all

lemma blankNodes_rev: "blankNodes (rev ps) = rev (blankNodes ps)"
  by (induction ps rule: blankNodes.induct) simp_all

lemma blankNodes_trimPieces [simp]: "blankNodes (trimPieces a b ps) = blankNodes ps"
  by (simp add: trimPieces_def Let_def blankNodes_rev)

lemma leading_fill:
  assumes "solid r"
  shows "takeWhile isWhiteSpace (fill r k pieces) = leadingOf pieces
         \<and> dropWhile isWhiteSpace (fill r k pieces) = fill r k (dropLeading pieces)"
proof (induction pieces arbitrary: k rule: leadingOf.induct)
  case 1
  show ?case by simp
next
  case (2 n ps)
  from assms obtain c cs where "r (k + 1) = c # cs" "\<not> isWhiteSpace c" by (rule solid_parts)
  then show ?case by simp
next
  case (3 s ps)
  show ?case
  proof (cases "list_all isWhiteSpace s")
    case True
    then have a: "\<forall>x\<in>set s. isWhiteSpace x" by (simp add: list_all_iff)
    from 3[OF True, of k] a True show ?thesis
      by (simp add: takeWhile_append2 dropWhile_append2)
  next
    case False
    then obtain x where x: "x \<in> set s" "\<not> isWhiteSpace x" by (auto simp: list_all_iff)
    with False show ?thesis by (simp add: takeWhile_append1 dropWhile_append1)
  qed
qed

lemma matchTrailingWhiteSpace_all:
  "list_all isWhiteSpace s \<Longrightarrow> matchTrailingWhiteSpace s = s"
  by (cases s) simp_all

lemma matchTrailingWhiteSpace_append_space:
  "list_all isWhiteSpace y \<Longrightarrow> matchTrailingWhiteSpace (x @ y) = matchTrailingWhiteSpace x @ y"
  by (induction x) (simp_all add: matchTrailingWhiteSpace_all)

lemma matchTrailingWhiteSpace_append_other:
  "\<not> list_all isWhiteSpace y \<Longrightarrow> matchTrailingWhiteSpace (x @ y) = matchTrailingWhiteSpace y"
  by (induction x) simp_all

lemma matchTrailingWhiteSpace_suffix:
  "\<exists>p. s = p @ matchTrailingWhiteSpace s"
proof (induction s)
  case Nil
  show ?case by simp
next
  case (Cons c cs)
  then obtain p where p: "cs = p @ matchTrailingWhiteSpace cs" by blast
  show ?case
  proof (cases "list_all isWhiteSpace (c # cs)")
    case True
    then show ?thesis by (intro exI[of _ "[]"]) simp
  next
    case False
    then have "c # cs = (c # p) @ matchTrailingWhiteSpace (c # cs)" using p by simp
    then show ?thesis by blast
  qed
qed

lemma dropTrailing_append_space:
  assumes "list_all isWhiteSpace y"
  shows "dropTrailing (x @ y) = dropTrailing x"
proof -
  obtain p where p: "x = p @ matchTrailingWhiteSpace x"
    using matchTrailingWhiteSpace_suffix by blast
  have l: "length x = length p + length (matchTrailingWhiteSpace x)"
    by (subst p) simp
  have 1: "dropTrailing x = p"
    unfolding dropTrailing_def l by (subst (2) p) simp
  have "dropTrailing (x @ y) = take (length p) ((p @ matchTrailingWhiteSpace x) @ y)"
    unfolding dropTrailing_def matchTrailingWhiteSpace_append_space[OF assms]
    using l p by simp
  then show ?thesis using 1 by simp
qed

lemma dropTrailing_append_other:
  assumes "\<not> list_all isWhiteSpace y"
  shows "dropTrailing (x @ y) = x @ dropTrailing y"
proof -
  obtain p where p: "y = p @ matchTrailingWhiteSpace y"
    using matchTrailingWhiteSpace_suffix by blast
  have l: "length y = length p + length (matchTrailingWhiteSpace y)"
    by (subst p) simp
  have 1: "dropTrailing y = p"
    unfolding dropTrailing_def l by (subst (2) p) simp
  have "dropTrailing (x @ y) = take (length x + length p) (x @ p @ matchTrailingWhiteSpace y)"
    unfolding dropTrailing_def matchTrailingWhiteSpace_append_other[OF assms]
    using l p by simp
  then show ?thesis using 1 by simp
qed

lemma trailing_fill:
  assumes "solid r"
  shows "matchTrailingWhiteSpace (fill r k pieces) = trailingOfRev (rev pieces)
         \<and> dropTrailing (fill r k pieces) = fill r k (rev (dropTrailingRev (rev pieces)))"
proof (induction pieces rule: rev_induct)
  case Nil
  show ?case by (simp add: dropTrailing_def)
next
  case (snoc p pieces)
  show ?case
  proof (cases p)
    case (Blank n)
    from assms obtain cs c where l: "r (k + blankCount pieces + 1) = cs @ [c]" "\<not> isWhiteSpace c"
      by (rule solid_last)
    have n: "\<not> list_all isWhiteSpace [c]" using l(2) by simp
    have f: "fill r k (pieces @ [Blank n]) = (fill r k pieces @ cs) @ [c]"
      using l(1) by (simp add: fill_append)
    have m: "matchTrailingWhiteSpace (fill r k (pieces @ [Blank n])) = []"
      unfolding f matchTrailingWhiteSpace_append_other[OF n] using l(2) by simp
    then show ?thesis unfolding Blank by (simp add: dropTrailing_def)
  next
    case (Lit s)
    show ?thesis
    proof (cases "list_all isWhiteSpace s")
      case True
      with snoc show ?thesis unfolding Lit
        by (simp add: fill_append matchTrailingWhiteSpace_append_space[OF True]
              dropTrailing_append_space[OF True])
    next
      case False
      then show ?thesis unfolding Lit
        by (simp add: fill_append matchTrailingWhiteSpace_append_other[OF False]
              dropTrailing_append_other[OF False])
    qed
  qed
qed

lemma trimCodeInner_fill:
  assumes "solid r"
  shows "trimCodeInner a b (fill r k pieces) = fill r k (trimPieces a b pieces)"
proof -
  define q where "q = (if a then (let leading = leadingOf pieces in
                                  if leading \<noteq> [] \<and> \<not> hasLineBreak leading
                                  then dropLeading pieces else pieces)
                       else pieces)"
  have d: "drop (length (takeWhile isWhiteSpace (fill r k pieces))) (fill r k pieces)
             = dropWhile isWhiteSpace (fill r k pieces)"
    by (simp add: dropWhile_eq_drop)
  have i1: "(if a then (let leading = matchLeadingWhiteSpace (fill r k pieces) in
                        if leading \<noteq> [] \<and> \<not> hasLineBreak leading
                        then drop (length leading) (fill r k pieces) else fill r k pieces)
             else fill r k pieces) = fill r k q"
    unfolding Let_def matchLeadingWhiteSpace_def d using leading_fill[OF assms, of k pieces]
    by (simp add: q_def Let_def)
  from trailing_fill[OF assms, of k q]
  have t1: "matchTrailingWhiteSpace (fill r k q) = trailingOfRev (rev q)"
    and t2: "dropTrailing (fill r k q) = fill r k (rev (dropTrailingRev (rev q)))" by simp_all
  have "trimCodeInner a b (fill r k pieces)
          = (if b then (let trailing = matchTrailingWhiteSpace (fill r k q) in
                        if trailing \<noteq> [] \<and> \<not> hasLineBreak trailing
                        then take (length (fill r k q) - length trailing) (fill r k q)
                        else fill r k q)
             else fill r k q)"
    unfolding trimCodeInner_def using i1 by (simp add: Let_def)
  also have "\<dots> = fill r k (if b then (let trailing = trailingOfRev (rev q) in
                                           if trailing \<noteq> [] \<and> \<not> hasLineBreak trailing
                                           then rev (dropTrailingRev (rev q)) else q)
                              else q)"
    unfolding Let_def t1 using t2[unfolded dropTrailing_def t1] by simp
  also have "\<dots> = fill r k (trimPieces a b pieces)"
    by (simp only: trimPieces_def q_def Let_def)
  finally show ?thesis .
qed

lemma step_is_renderCodeInPre:
  assumes "step_is (\<lambda>r. mapJoin (f r) (childNodes c)) p reg ts"
  shows "step_is (\<lambda>r. renderCodeInPre (f r) c a b)
           (wrapPieces ''<code>'' ''</code>'' (trimPieces a b p)) reg ts"
  unfolding step_is_def
proof (intro conjI allI impI)
  fix r s assume r: "solid r"
  from assms r have m: "mapJoin (f r) (childNodes c) s
      = (fill r (counter_value s) p, s\<lparr>counter_value := counter_value s + blankCount p\<rparr>)"
    by (simp add: step_is_def)
  show "renderCodeInPre (f r) c a b s
          = (fill r (counter_value s) (wrapPieces ''<code>'' ''</code>'' (trimPieces a b p)),
             s\<lparr>counter_value := counter_value s
                  + blankCount (wrapPieces ''<code>'' ''</code>'' (trimPieces a b p))\<rparr>)"
    by (simp add: renderCodeInPre_def m trimCodeInner_fill[OF r] wrapPieces_def fill_append
          blankCount_def)
next
  assume reg
  with assms show "blankNodes (wrapPieces ''<code>'' ''</code>'' (trimPieces a b p)) = ts"
    by (simp add: step_is_def wrapPieces_def)
qed
subsection \<open>The cases of the renderer\<close>

lemma textEntries_Element:
  "textEntries (Element nn name attrs children) =
     (if name = ''qti-text-entry-interaction'' then [Element nn name attrs children] else [])
     @ concat (map textEntries children)"
proof -
  have "filter isBlank (concat (map (\<lambda>c. c # descendants c) children))
        = concat (map textEntries children)"
    by (induction children) (simp_all add: textEntries_def)
  then show ?thesis by (simp add: textEntries_def isBlank_def)
qed

lemma textEntries_simps [simp]: "textEntries (Text t) = []" "textEntries (OtherNode ty d) = []"
  by (simp_all add: textEntries_def isBlank_def)

lemma concat_textEntries_Nil:
  "list_all (\<lambda>c. textEntries c = []) cs \<Longrightarrow> concat (map textEntries cs) = []"
  by (induction cs) auto

lemma render_generic_step_is:
  assumes kids: "\<And>ip p. step_is (\<lambda>r. mapJoin (\<lambda>child bc. renderNodeForScoring child (opts\<lparr>blankRenderer := r\<rparr>) bc ip p) children)
                    (concat (map (\<lambda>child. shape child opts ip p) children))
                    (list_all regular children) (concat (map textEntries children))"
    and nm: "name \<noteq> ''qti-pre''" "name \<noteq> ''qti-hr''" "name \<noteq> ''qti-img''"
      "name \<noteq> ''qti-text-entry-interaction''" "name \<noteq> ''qti-extended-text-interaction''"
      "name \<noteq> ''qti-choice-interaction''" "name \<noteq> ''qti-rubric-block''"
  shows "step_is (\<lambda>r s. renderNodeForScoring (Element nn name attrs children) (opts\<lparr>blankRenderer := r\<rparr>) s inPre pw)
           (shape (Element nn name attrs children) opts inPre pw)
           (regular (Element nn name attrs children)) (textEntries (Element nn name attrs children))"
proof -
  have r: "regular (Element nn name attrs children) = list_all regular children"
    using nm by simp
  have t: "textEntries (Element nn name attrs children) = concat (map textEntries children)"
    using nm by (simp add: textEntries_Element)
  have wrapper: "step_is (\<lambda>r s. wrapWith a b (mapJoin (\<lambda>child bc. renderNodeForScoring child (opts\<lparr>blankRenderer := r\<rparr>) bc ip p) children s))
      (wrapPieces a b (concat (map (\<lambda>child. shape child opts ip p) children)))
      (list_all regular children) (concat (map textEntries children))" for a b ip p
    by (rule step_is_wrapWith) (rule kids)
  have plain: "step_is (\<lambda>r s. mapJoin (\<lambda>child bc. renderNodeForScoring child (opts\<lparr>blankRenderer := r\<rparr>) bc ip p) children s)
      (concat (map (\<lambda>child. shape child opts ip p) children))
      (list_all regular children) (concat (map textEntries children))" for ip p
    by (rule kids)
  have "?thesis" if "name = ''qti-p''"
    unfolding r t using that by (simp add: renderNodeForScoring.simps(3) shape.simps(3) Let_def wrapper)
  moreover
  have "?thesis" if "name = ''qti-h3''"
    unfolding r t using that by (simp add: renderNodeForScoring.simps(3) shape.simps(3) Let_def wrapper)
  moreover
  have "?thesis" if "name = ''qti-h4''"
    unfolding r t using that by (simp add: renderNodeForScoring.simps(3) shape.simps(3) Let_def wrapper)
  moreover
  have "?thesis" if "name = ''qti-h5''"
    unfolding r t using that by (simp add: renderNodeForScoring.simps(3) shape.simps(3) Let_def wrapper)
  moreover
  have "?thesis" if "name = ''qti-h6''"
    unfolding r t using that by (simp add: renderNodeForScoring.simps(3) shape.simps(3) Let_def wrapper)
  moreover
  have "?thesis" if "name = ''qti-em''"
    unfolding r t using that by (simp add: renderNodeForScoring.simps(3) shape.simps(3) Let_def wrapper)
  moreover
  have "?thesis" if "name = ''qti-strong''"
    unfolding r t using that by (simp add: renderNodeForScoring.simps(3) shape.simps(3) Let_def wrapper)
  moreover
  have "?thesis" if "name = ''qti-del''"
    unfolding r t using that by (simp add: renderNodeForScoring.simps(3) shape.simps(3) Let_def wrapper)
  moreover
  have "?thesis" if "name = ''qti-a''"
    unfolding r t using that by (simp add: renderNodeForScoring.simps(3) shape.simps(3) Let_def wrapper)
  moreover
  have "?thesis" if "name = ''qti-code''"
    unfolding r t using that by (simp add: renderNodeForScoring.simps(3) shape.simps(3) Let_def wrapper)
  moreover
  have "?thesis" if "name = ''qti-blockquote''"
    unfolding r t using that by (simp add: renderNodeForScoring.simps(3) shape.simps(3) Let_def wrapper)
  moreover
  have "?thesis" if "name = ''qti-ul''"
    unfolding r t using that by (simp add: renderNodeForScoring.simps(3) shape.simps(3) Let_def wrapper)
  moreover
  have "?thesis" if "name = ''qti-ol''"
    unfolding r t using that by (simp add: renderNodeForScoring.simps(3) shape.simps(3) Let_def wrapper)
  moreover
  have "?thesis" if "name = ''qti-li''"
    unfolding r t using that by (simp add: renderNodeForScoring.simps(3) shape.simps(3) Let_def wrapper)
  moreover
  have "?thesis" if "name = ''qti-table''"
    unfolding r t using that by (simp add: renderNodeForScoring.simps(3) shape.simps(3) Let_def wrapper)
  moreover
  have "?thesis" if "name = ''qti-thead''"
    unfolding r t using that by (simp add: renderNodeForScoring.simps(3) shape.simps(3) Let_def wrapper)
  moreover
  have "?thesis" if "name = ''qti-tbody''"
    unfolding r t using that by (simp add: renderNodeForScoring.simps(3) shape.simps(3) Let_def wrapper)
  moreover
  have "?thesis" if "name = ''qti-tr''"
    unfolding r t using that by (simp add: renderNodeForScoring.simps(3) shape.simps(3) Let_def wrapper)
  moreover
  have "?thesis" if "name = ''qti-th''"
    unfolding r t using that by (simp add: renderNodeForScoring.simps(3) shape.simps(3) Let_def wrapper)
  moreover
  have "?thesis" if "name = ''qti-td''"
    unfolding r t using that by (simp add: renderNodeForScoring.simps(3) shape.simps(3) Let_def wrapper)
  moreover
  have "?thesis" if "name \<noteq> ''qti-p''" "name \<noteq> ''qti-h3''" "name \<noteq> ''qti-h4''" "name \<noteq> ''qti-h5''" "name \<noteq> ''qti-h6''" "name \<noteq> ''qti-em''" "name \<noteq> ''qti-strong''" "name \<noteq> ''qti-del''" "name \<noteq> ''qti-a''" "name \<noteq> ''qti-code''" "name \<noteq> ''qti-blockquote''" "name \<noteq> ''qti-ul''" "name \<noteq> ''qti-ol''" "name \<noteq> ''qti-li''" "name \<noteq> ''qti-table''" "name \<noteq> ''qti-thead''" "name \<noteq> ''qti-tbody''" "name \<noteq> ''qti-tr''" "name \<noteq> ''qti-th''" "name \<noteq> ''qti-td''"
    unfolding r t using that nm by (simp add: renderNodeForScoring.simps(3) shape.simps(3) Let_def plain)
  ultimately show ?thesis by blast
qed

lemma map_fst_zip_upt: "map fst (zip xs [0..<length xs]) = xs"
  by (simp add: map_fst_zip)

lemma list_all_fst_zip_upt: "list_all (\<lambda>x. P (fst x)) (zip xs [0..<length xs]) = list_all P xs"
proof -
  have "list_all (\<lambda>x. P (fst x)) (zip xs [0..<length xs]) = list_all P (map fst (zip xs [0..<length xs]))"
    unfolding list.pred_map comp_def ..
  then show ?thesis by (simp only: map_fst_zip_upt)
qed

lemma concat_fst_zip_upt:
  "concat (map (\<lambda>x. g (fst x)) (zip xs [0..<length xs])) = concat (map g xs)"
proof -
  have "map (\<lambda>x. g (fst x)) (zip xs [0..<length xs]) = map g (map fst (zip xs [0..<length xs]))"
    unfolding map_map comp_def ..
  then show ?thesis by (simp only: map_fst_zip_upt)
qed

lemma textEntries_not_significant: "\<not> isSignificant c \<Longrightarrow> textEntries c = []"
  by (cases c) (simp_all add: isSignificant_def)

lemma concat_textEntries_significant:
  "concat (map textEntries (filter isSignificant cs)) = concat (map textEntries cs)"
  by (induction cs) (simp_all add: textEntries_not_significant)

lemma render_pre_step_is:
  assumes ch: "\<And>c ip p. c \<in> set children \<Longrightarrow>
      step_is (\<lambda>r s. renderNodeForScoring c (opts\<lparr>blankRenderer := r\<rparr>) s ip p)
        (shape c opts ip p) (regular c) (textEntries c)"
    and gch: "\<And>c d ip p. c \<in> set children \<Longrightarrow> isElement c \<Longrightarrow> d \<in> set (childNodes c) \<Longrightarrow>
      step_is (\<lambda>r s. renderNodeForScoring d (opts\<lparr>blankRenderer := r\<rparr>) s ip p)
        (shape d opts ip p) (regular d) (textEntries d)"
  shows "step_is (\<lambda>r s. renderNodeForScoring (Element nn ''qti-pre'' attrs children)
                          (opts\<lparr>blankRenderer := r\<rparr>) s inPre pw)
           (shape (Element nn ''qti-pre'' attrs children) opts inPre pw)
           (regular (Element nn ''qti-pre'' attrs children))
           (textEntries (Element nn ''qti-pre'' attrs children))"
proof -
  let ?sig = "filter isSignificant children"
  let ?f = "\<lambda>r (child, index) bc.
              if isElement child \<and> localName child = ''qti-code'' then
                (let prevBlank = (index > 0 \<and> isBlank (?sig ! (index - 1)));
                     nextBlank = (index < length ?sig - 1 \<and> isBlank (?sig ! (index + 1))) in
                 renderCodeInPre
                   (\<lambda>c bc'. renderNodeForScoring c (opts\<lparr>blankRenderer := r\<rparr>) bc' True True) child
                   prevBlank nextBlank bc)
              else renderNodeForScoring child (opts\<lparr>blankRenderer := r\<rparr>) bc True False"
  let ?T = "\<lambda>(child, index).
              if isElement child \<and> localName child = ''qti-code'' then
                (let prevBlank = (index > 0 \<and> isBlank (?sig ! (index - 1)));
                     nextBlank = (index < length ?sig - 1 \<and> isBlank (?sig ! (index + 1))) in
                 wrapPieces ''<code>'' ''</code>''
                   (trimPieces prevBlank nextBlank
                      (concat (map (\<lambda>c. shape c opts True True) (childNodes child)))))
              else shape child opts True False"
  have each: "step_is (\<lambda>r. ?f r x) (?T x) (regular (fst x)) (textEntries (fst x))"
    if "x \<in> set (zip ?sig [0..<length ?sig])" for x
  proof -
    obtain child index where x: "x = (child, index)" by (cases x)
    have mem: "child \<in> set children" using that x by (auto dest: set_zip_leftD)
    show ?thesis
    proof (cases "isElement child \<and> localName child = ''qti-code''")
      case True
      then obtain cn ca cc where c: "child = Element cn ''qti-code'' ca cc" by (cases child) auto
      have "step_is (\<lambda>r. mapJoin (\<lambda>c bc'. renderNodeForScoring c (opts\<lparr>blankRenderer := r\<rparr>) bc' True True)
                            (childNodes child))
              (concat (map (\<lambda>c. shape c opts True True) (childNodes child)))
              (list_all regular (childNodes child)) (concat (map textEntries (childNodes child)))"
        by (rule step_is_mapJoin) (use gch mem True in blast)
      then have "step_is (\<lambda>r. mapJoin (\<lambda>c bc'. renderNodeForScoring c (opts\<lparr>blankRenderer := r\<rparr>) bc' True True)
                            (childNodes child))
              (concat (map (\<lambda>c. shape c opts True True) (childNodes child)))
              (regular child) (textEntries child)"
        by (simp add: c textEntries_Element)
      then have "step_is (\<lambda>r. renderCodeInPre
                    (\<lambda>c bc'. renderNodeForScoring c (opts\<lparr>blankRenderer := r\<rparr>) bc' True True) child a b)
              (wrapPieces ''<code>'' ''</code>''
                 (trimPieces a b (concat (map (\<lambda>c. shape c opts True True) (childNodes child)))))
              (regular child) (textEntries child)" for a b
        by (rule step_is_renderCodeInPre)
      then show ?thesis using True x by (simp add: Let_def)
    next
      case False
      have "(\<lambda>r. ?f r x) = (\<lambda>r bc. renderNodeForScoring child (opts\<lparr>blankRenderer := r\<rparr>) bc True False)"
        using False x by auto
      moreover have "?T x = shape child opts True False" using False x by auto
      ultimately show ?thesis using ch[OF mem] x by simp
    qed
  qed
  have "step_is (\<lambda>r. mapJoin (?f r) (zip ?sig [0..<length ?sig]))
          (concat (map ?T (zip ?sig [0..<length ?sig])))
          (list_all (\<lambda>x. regular (fst x)) (zip ?sig [0..<length ?sig]))
          (concat (map (\<lambda>x. textEntries (fst x)) (zip ?sig [0..<length ?sig])))"
    by (rule step_is_mapJoin) (rule each)
  then have m: "step_is (\<lambda>r. mapJoin (?f r) (zip ?sig [0..<length ?sig]))
          (concat (map ?T (zip ?sig [0..<length ?sig])))
          (list_all regular ?sig) (concat (map textEntries children))"
    by (simp only: list_all_fst_zip_upt concat_fst_zip_upt concat_textEntries_significant)
  let ?open = "''<pre'' @ (if list_ex isBlank ?sig then '' class='' @ [CHR 0x22] @ preWithBlanksClassName opts @ [CHR 0x22] else []) @ ''>''"
  have eq: "renderNodeForScoring (Element nn ''qti-pre'' attrs children) (opts\<lparr>blankRenderer := r\<rparr>) s inPre pw
      = wrapWith ?open ''</pre>'' (mapJoin (?f r) (zip ?sig [0..<length ?sig]) s)" for r s
    by (simp add: renderNodeForScoring.simps(3) Let_def)
  have eqs: "shape (Element nn ''qti-pre'' attrs children) opts inPre pw
      = wrapPieces ?open ''</pre>'' (concat (map ?T (zip ?sig [0..<length ?sig])))"
    by (simp add: shape.simps(3) Let_def)
  have "step_is (\<lambda>r s. renderNodeForScoring (Element nn ''qti-pre'' attrs children)
                          (opts\<lparr>blankRenderer := r\<rparr>) s inPre pw)
          (shape (Element nn ''qti-pre'' attrs children) opts inPre pw)
          (list_all regular ?sig) (concat (map textEntries children))"
    unfolding eq eqs by (rule step_is_wrapWith) (rule m)
  then show ?thesis
    by (rule step_is_weaken) (simp add: textEntries_Element list_all_iff)
qed

subsection \<open>The simple choices of a choice interaction\<close>

lemma choicesOk_Nil: "choicesOk []"
  by (simp add: choicesOk_def)

lemma choicesOk_append: "choicesOk xs \<Longrightarrow> choicesOk ys \<Longrightarrow> choicesOk (xs @ ys)"
  by (auto simp: choicesOk_def)

lemma choicesOk_concat: "(\<And>x. x \<in> set xss \<Longrightarrow> choicesOk x) \<Longrightarrow> choicesOk (concat xss)"
  by (induction xss) (simp_all add: choicesOk_Nil choicesOk_append)

lemma isSimpleChoice_mentions: "isSimpleChoice x \<Longrightarrow> mentionsSimpleChoice x"
  by (simp add: isSimpleChoice_def mentionsSimpleChoice_def)

lemma filter_isBlank_descendants:
  "filter isBlank (descendants (Element nn name attrs children)) = concat (map textEntries children)"
proof -
  let ?el = "Element nn name attrs children"
  have "textEntries ?el = (if isBlank ?el then [?el] else []) @ filter isBlank (descendants ?el)"
    unfolding textEntries_def by simp
  moreover have "isBlank ?el = (name = ''qti-text-entry-interaction'')"
    by (simp add: isBlank_def)
  ultimately show ?thesis using textEntries_Element[of nn name attrs children]
    by (simp split: if_splits)
qed

lemma covered_choicesOk: "covered c \<Longrightarrow> choicesOk (c # descendants c)"
proof (induction c rule: measure_induct_rule[where f = size])
  case (less c)
  show ?case
  proof (cases c)
    case (Text t)
    show ?thesis unfolding Text by (simp add: choicesOk_def isSimpleChoice_def isBlank_def mentionsSimpleChoice_def)
  next
    case (OtherNode ty d)
    show ?thesis unfolding OtherNode
      by (simp add: choicesOk_def isSimpleChoice_def isBlank_def mentionsSimpleChoice_def)
  next
    case (Element nn name attrs children)
    show ?thesis
    proof (cases "name = ''qti-simple-choice''")
      case True
      from less.prems have nm: "\<not> list_ex mentionsSimpleChoice (descendants c)"
        and reg: "list_all regular children"
        unfolding Element using True by simp_all
      have sc: "isSimpleChoice c" unfolding Element using True by (simp add: isSimpleChoice_def)
      have nb: "\<not> isBlank c" unfolding Element using True by (simp add: isBlank_def)
      have f: "filter isSimpleChoice (descendants c) = []"
        using nm isSimpleChoice_mentions by (auto simp: list_ex_iff filter_empty_conv)
      have b: "filter isBlank (descendants c) = choiceBlanks c"
        using filter_isBlank_descendants[of nn name attrs children]
        by (simp add: Element choiceBlanks_def)
      show ?thesis
        unfolding choicesOk_def using sc nb f b reg nm
        by (simp add: Element list_ex_iff)
    next
      case False
      from less.prems have q: "nn \<noteq> ''qti-simple-choice''" and nb: "name \<noteq> ''qti-text-entry-interaction''"
        and cov: "list_all covered children"
        unfolding Element using False by simp_all
      have "choicesOk (d # descendants d)" if "d \<in> set children" for d
      proof -
        have "size d < size c" using that unfolding Element by (simp add: size_child_lt)
        moreover have "covered d" using cov that by (simp add: list_all_iff)
        ultimately show ?thesis by (rule less.IH)
      qed
      then have "choicesOk (concat (map (\<lambda>d. d # descendants d) children))"
        by (intro choicesOk_concat) auto
      then have d: "choicesOk (descendants c)" unfolding Element by simp
      have "choicesOk [c]"
        unfolding Element using False q nb
        by (simp add: choicesOk_def isSimpleChoice_def isBlank_def mentionsSimpleChoice_def)
      from choicesOk_append[OF this d] show ?thesis by simp
    qed
  qed
qed

lemma covered_children_choicesOk:
  assumes "list_all covered children"
  shows "choicesOk (descendants (Element nn name attrs children))"
proof -
  have "choicesOk (concat (map (\<lambda>d. d # descendants d) children))"
    by (intro choicesOk_concat) (use assms covered_choicesOk in \<open>auto simp: list_all_iff\<close>)
  then show ?thesis by simp
qed

lemma choices_regular:
  assumes "choicesOk (descendants rootEl)"
  shows "getElementsByLocalName rootEl ''qti-simple-choice''
           = filter isSimpleChoice (descendants rootEl)"
proof -
  let ?D = "descendants rootEl"
  have "(\<lambda>n. isElement n \<and> localName n = ''qti-simple-choice'') = isSimpleChoice"
    by (simp add: isSimpleChoice_def fun_eq_iff)
  then have l: "filter (\<lambda>n. isElement n \<and> localName n = ''qti-simple-choice'') ?D = filter isSimpleChoice ?D"
    by simp
  have "filter (\<lambda>n. isElement n \<and> nodeName n = ''qti-simple-choice'') ?D = []"
    if "filter isSimpleChoice ?D = []"
  proof -
    have "\<not> (isElement x \<and> nodeName x = ''qti-simple-choice'')" if x: "x \<in> set ?D" for x
    proof
      assume "isElement x \<and> nodeName x = ''qti-simple-choice''"
      then have "mentionsSimpleChoice x" by (simp add: mentionsSimpleChoice_def)
      with assms x have "isSimpleChoice x" by (simp add: choicesOk_def)
      with x \<open>filter isSimpleChoice ?D = []\<close> show False by (auto simp: filter_empty_conv)
    qed
    then show ?thesis by (auto simp: filter_empty_conv)
  qed
  then show ?thesis unfolding getElementsByLocalName_def Let_def l by auto
qed

lemma render_choice_step_is:
  assumes desc: "\<And>c d ip p.
      c \<in> set (getElementsByLocalName (Element nn ''qti-choice-interaction'' attrs children)
                  ''qti-simple-choice'') \<Longrightarrow> d \<in> set (childNodes c) \<Longrightarrow>
      step_is (\<lambda>r s. renderNodeForScoring d (opts\<lparr>blankRenderer := r\<rparr>) s ip p)
        (shape d opts ip p) (regular d) (textEntries d)"
  shows "step_is
           (\<lambda>r s. renderNodeForScoring (Element nn ''qti-choice-interaction'' attrs children)
                     (opts\<lparr>blankRenderer := r\<rparr>) s inPre pw)
           (shape (Element nn ''qti-choice-interaction'' attrs children) opts inPre pw)
           (regular (Element nn ''qti-choice-interaction'' attrs children))
           (textEntries (Element nn ''qti-choice-interaction'' attrs children))"
proof -
  let ?el = "Element nn ''qti-choice-interaction'' attrs children"
  let ?choices = "getElementsByLocalName ?el ''qti-simple-choice''"
  let ?li = "\<lambda>choice. ''<li data-choice='' @ [CHR 0x22]
                          @ escapeHtml (case getAttribute choice ''identifier'' of None \<Rightarrow> [] | Some v \<Rightarrow> v)
                          @ [CHR 0x22] @ ''>''"
  let ?g = "\<lambda>r choice bc.
              wrapWith (?li choice) ''</li>''
                (mapJoin (\<lambda>child bc'. renderNodeForScoring child (opts\<lparr>blankRenderer := r\<rparr>) bc' False False)
                   (childNodes choice) bc)"
  let ?T = "\<lambda>choice. wrapPieces (?li choice) ''</li>''
                       (concat (map (\<lambda>child. shape child opts False False) (childNodes choice)))"
  have each: "step_is (\<lambda>r. ?g r choice) (?T choice)
                (list_all regular (childNodes choice)) (choiceBlanks choice)"
    if "choice \<in> set ?choices" for choice
    unfolding choiceBlanks_def
    by (rule step_is_wrapWith, rule step_is_mapJoin) (use desc that in blast)
  have m: "step_is (\<lambda>r. mapJoin (?g r) ?choices) (concat (map ?T ?choices))
          (list_all (\<lambda>c. list_all regular (childNodes c)) ?choices)
          (concat (map choiceBlanks ?choices))"
    by (rule step_is_mapJoin) (rule each)
  let ?open = "''<ol class='' @ [CHR 0x22] @ choiceListClassName opts @ [CHR 0x22] @ ''>''"
  have eq: "renderNodeForScoring ?el (opts\<lparr>blankRenderer := r\<rparr>) s inPre pw
      = wrapWith ?open ''</ol>'' (mapJoin (?g r) ?choices s)" for r s
    by (simp add: renderNodeForScoring.simps(3) Let_def)
  have eqs: "shape ?el opts inPre pw = wrapPieces ?open ''</ol>'' (concat (map ?T ?choices))"
    by (simp add: shape.simps(3) Let_def)
  have "step_is (\<lambda>r s. renderNodeForScoring ?el (opts\<lparr>blankRenderer := r\<rparr>) s inPre pw)
          (shape ?el opts inPre pw)
          (list_all (\<lambda>c. list_all regular (childNodes c)) ?choices)
          (concat (map choiceBlanks ?choices))"
    unfolding eq eqs by (rule step_is_wrapWith) (rule m)
  then show ?thesis
  proof (rule step_is_weaken)
    assume "regular ?el"
    then have cov: "list_all covered children" by simp
    have ok: "choicesOk (descendants ?el)" by (rule covered_children_choicesOk[OF cov])
    have ch: "?choices = filter isSimpleChoice (descendants ?el)" by (rule choices_regular[OF ok])
    have "textEntries ?el = filter isBlank (descendants ?el)"
      by (simp add: textEntries_def isBlank_def)
    also have "\<dots> = concat (map choiceBlanks ?choices)"
      unfolding ch using ok by (simp add: choicesOk_def)
    finally have t: "textEntries ?el = concat (map choiceBlanks ?choices)" .
    have "list_all (\<lambda>c. list_all regular (childNodes c)) ?choices"
      unfolding ch using ok by (simp add: choicesOk_def)
    with t show "list_all (\<lambda>c. list_all regular (childNodes c)) ?choices
        \<and> textEntries ?el = concat (map choiceBlanks ?choices)"
      by simp
  qed
qed

subsection \<open>The rendering of a node is its shape, filled\<close>

lemma render_step_is:
  "step_is (\<lambda>r s. renderNodeForScoring n (opts\<lparr>blankRenderer := r\<rparr>) s inPre pw)
     (shape n opts inPre pw) (regular n) (textEntries n)"
proof (induction n arbitrary: inPre pw rule: measure_induct_rule[where f = size])
  case (less n)
  show ?case
  proof (cases n)
    case (Text t)
    show ?thesis unfolding Text renderNodeForScoring.simps shape.simps textEntries_simps
      by (intro step_is_if step_is_pair)
  next
    case (OtherNode ty d)
    show ?thesis unfolding OtherNode by (simp add: step_is_pair)
  next
    case (Element nn name attrs children)
    have ch: "step_is (\<lambda>r s. renderNodeForScoring c (opts\<lparr>blankRenderer := r\<rparr>) s ip p)
                (shape c opts ip p) (regular c) (textEntries c)"
      if "c \<in> set children" for c ip p
      using less.IH[of c ip p] size_child_lt[OF that] Element by simp
    have kids: "step_is (\<lambda>r. mapJoin (\<lambda>child bc. renderNodeForScoring child (opts\<lparr>blankRenderer := r\<rparr>) bc ip p)
                                children)
        (concat (map (\<lambda>child. shape child opts ip p) children))
        (list_all regular children) (concat (map textEntries children))" for ip p
      by (rule step_is_mapJoin) (rule ch)
    have none: "concat (map textEntries children) = []"
      if "list_all (\<lambda>c. textEntries c = []) children"
      using that by (rule concat_textEntries_Nil)
    consider (pre) "name = ''qti-pre''" | (hr) "name = ''qti-hr''" | (img) "name = ''qti-img''"
      | (blank) "name = ''qti-text-entry-interaction''"
      | (ext) "name = ''qti-extended-text-interaction''"
      | (choice) "name = ''qti-choice-interaction''" | (rubric) "name = ''qti-rubric-block''"
      | (generic) "name \<noteq> ''qti-pre''" "name \<noteq> ''qti-hr''" "name \<noteq> ''qti-img''"
          "name \<noteq> ''qti-text-entry-interaction''" "name \<noteq> ''qti-extended-text-interaction''"
          "name \<noteq> ''qti-choice-interaction''" "name \<noteq> ''qti-rubric-block''"
      by blast
    then show ?thesis
    proof cases
      case pre
      have gch: "step_is (\<lambda>r s. renderNodeForScoring d (opts\<lparr>blankRenderer := r\<rparr>) s ip p)
                   (shape d opts ip p) (regular d) (textEntries d)"
        if "c \<in> set children" "isElement c" "d \<in> set (childNodes c)" for c d ip p
        using less.IH[of d ip p] size_grandchild_lt[OF that] Element by simp
      show ?thesis unfolding Element pre by (rule render_pre_step_is) (use ch gch in blast)+
    next
      case hr
      have "step_is (\<lambda>r s. renderNodeForScoring (Element nn ''qti-hr'' attrs children)
                              (opts\<lparr>blankRenderer := r\<rparr>) s inPre pw)
              (shape (Element nn ''qti-hr'' attrs children) opts inPre pw) True []"
        by (simp add: renderNodeForScoring.simps(3) shape.simps(3) step_is_pair)
      then show ?thesis unfolding Element hr
        by (rule step_is_weaken) (simp add: textEntries_Element none)
    next
      case img
      have "step_is (\<lambda>r s. renderNodeForScoring (Element nn ''qti-img'' attrs children)
                              (opts\<lparr>blankRenderer := r\<rparr>) s inPre pw)
              (shape (Element nn ''qti-img'' attrs children) opts inPre pw) True []"
        by (simp add: renderNodeForScoring.simps(3) shape.simps(3) Let_def step_is_pair)
      then show ?thesis unfolding Element img
        by (rule step_is_weaken) (simp add: textEntries_Element none)
    next
      case blank
      have "step_is (\<lambda>r s. renderNodeForScoring (Element nn ''qti-text-entry-interaction'' attrs children)
                              (opts\<lparr>blankRenderer := r\<rparr>) s inPre pw)
              (shape (Element nn ''qti-text-entry-interaction'' attrs children) opts inPre pw)
              True [Element nn ''qti-text-entry-interaction'' attrs children]"
        using step_is_blank[of "Element nn ''qti-text-entry-interaction'' attrs children" True]
        by (simp add: renderNodeForScoring.simps(3) shape.simps(3) Let_def)
      then show ?thesis unfolding Element blank
        by (rule step_is_weaken) (simp add: textEntries_Element none)
    next
      case ext
      have "step_is (\<lambda>r s. renderNodeForScoring (Element nn ''qti-extended-text-interaction'' attrs children)
                              (opts\<lparr>blankRenderer := r\<rparr>) s inPre pw)
              (shape (Element nn ''qti-extended-text-interaction'' attrs children) opts inPre pw)
              True []"
        by (simp add: renderNodeForScoring.simps(3) shape.simps(3) step_is_pair)
      then show ?thesis unfolding Element ext
        by (rule step_is_weaken) (simp add: textEntries_Element none)
    next
      case choice
      have desc: "step_is (\<lambda>r s. renderNodeForScoring d (opts\<lparr>blankRenderer := r\<rparr>) s ip p)
                    (shape d opts ip p) (regular d) (textEntries d)"
        if "c \<in> set (getElementsByLocalName (Element nn ''qti-choice-interaction'' attrs children)
                  ''qti-simple-choice'')" "d \<in> set (childNodes c)" for c d ip p
        using less.IH[of d ip p] size_choice_child_lt[OF that] Element by simp
      show ?thesis unfolding Element choice by (rule render_choice_step_is) (use desc in blast)
    next
      case rubric
      have "step_is (\<lambda>r s. renderNodeForScoring (Element nn ''qti-rubric-block'' attrs children)
                              (opts\<lparr>blankRenderer := r\<rparr>) s inPre pw)
              (shape (Element nn ''qti-rubric-block'' attrs children) opts inPre pw) True []"
        by (simp add: renderNodeForScoring.simps(3) shape.simps(3) step_is_pair)
      then show ?thesis unfolding Element rubric
        by (rule step_is_weaken) (simp add: textEntries_Element none)
    next
      case generic
      show ?thesis unfolding Element by (rule render_generic_step_is) (use kids generic in blast)+
    qed
  qed
qed

lemma render_nodes_shape:
  "(\<forall>r. solid r \<longrightarrow>
      fst (mapJoin (\<lambda>n bc. renderNodeForScoring n (opts\<lparr>blankRenderer := r\<rparr>) bc False False)
             nodes newBlankCounter)
        = fill r 0 (concat (map (\<lambda>n. shape n opts False False) nodes)))
   \<and> (list_all regular nodes \<longrightarrow>
        blankNodes (concat (map (\<lambda>n. shape n opts False False) nodes))
          = concat (map textEntries nodes))"
proof -
  let ?pieces = "concat (map (\<lambda>n. shape n opts False False) nodes)"
  have "step_is (\<lambda>r. mapJoin (\<lambda>n bc. renderNodeForScoring n (opts\<lparr>blankRenderer := r\<rparr>) bc False False) nodes)
          ?pieces (list_all regular nodes) (concat (map textEntries nodes))"
    by (rule step_is_mapJoin) (rule render_step_is)
  then have
    p: "\<And>r s. solid r \<Longrightarrow>
          mapJoin (\<lambda>n bc. renderNodeForScoring n (opts\<lparr>blankRenderer := r\<rparr>) bc False False) nodes s
            = (fill r (counter_value s) ?pieces, s\<lparr>counter_value := counter_value s + blankCount ?pieces\<rparr>)"
    and n: "list_all regular nodes \<longrightarrow> blankNodes ?pieces = concat (map textEntries nodes)"
    unfolding step_is_def by blast+
  have "fst (mapJoin (\<lambda>n bc. renderNodeForScoring n (opts\<lparr>blankRenderer := r\<rparr>) bc False False)
               nodes newBlankCounter) = fill r 0 ?pieces" if "solid r" for r
    using p[OF that, of newBlankCounter] by (simp add: newBlankCounter_def)
  with n show ?thesis by blast
qed

lemma solid_defaultBlankRenderer: "solid defaultBlankRenderer"
  by (simp add: solid_def defaultBlankRenderer_def isWhiteSpace_def)

subsection \<open>Code inside \<open>pre\<close>\<close>

lemma takeWhile_all: "list_all P xs \<Longrightarrow> takeWhile P xs = xs"
  by (simp add: takeWhile_eq_all_conv list_all_iff)

lemma matchTrailingWhiteSpace_eq: "matchTrailingWhiteSpace s = trailingSpan s"
proof (induction s)
  case Nil
  show ?case by (simp add: trailingSpan_def)
next
  case (Cons c cs)
  show ?case
  proof (cases "list_all isWhiteSpace (c # cs)")
    case True
    then show ?thesis by (simp add: trailingSpan_def takeWhile_all)
  next
    case False
    show ?thesis
    proof (cases "list_all isWhiteSpace cs")
      case True
      with False have nc: "\<not> isWhiteSpace c" by simp
      have "takeWhile isWhiteSpace (rev cs @ [c]) = rev cs"
        using True nc takeWhile_all_append[of isWhiteSpace "rev cs" c "[]"] by simp
      then have "trailingSpan (c # cs) = cs" by (simp add: trailingSpan_def)
      moreover have "trailingSpan cs = cs" using True by (simp add: trailingSpan_def takeWhile_all)
      ultimately show ?thesis using False Cons by simp
    next
      case F2: False
      then obtain x where "x \<in> set (rev cs)" "\<not> isWhiteSpace x" by (auto simp: list_all_iff)
      then have "takeWhile isWhiteSpace (rev cs @ [c]) = takeWhile isWhiteSpace (rev cs)"
        by (rule takeWhile_append1)
      then have "trailingSpan (c # cs) = trailingSpan cs" by (simp add: trailingSpan_def)
      then show ?thesis using False Cons by auto
    qed
  qed
qed

lemma if_conj_weaken: "(\<not> a \<Longrightarrow> x = y) \<Longrightarrow> (if a \<and> b then x else y) = (if b then x else y)"
  by auto

lemma trimCodeInner_spans:
  "trimCodeInner ts te inner =
     (let afterStart = (if ts \<and> \<not> hasLineBreak (leadingSpan inner)
                        then drop (length (leadingSpan inner)) inner else inner) in
      if te \<and> \<not> hasLineBreak (trailingSpan afterStart)
      then take (length afterStart - length (trailingSpan afterStart)) afterStart
      else afterStart)"
proof -
  define a where "a = (if ts \<and> \<not> hasLineBreak (leadingSpan inner)
                        then drop (length (leadingSpan inner)) inner else inner)"
  have l: "(if leadingSpan inner \<noteq> [] \<and> \<not> hasLineBreak (leadingSpan inner)
            then drop (length (leadingSpan inner)) inner else inner)
         = (if \<not> hasLineBreak (leadingSpan inner)
            then drop (length (leadingSpan inner)) inner else inner)"
    by (rule if_conj_weaken) simp
  have r: "(if trailingSpan a \<noteq> [] \<and> \<not> hasLineBreak (trailingSpan a)
            then take (length a - length (trailingSpan a)) a else a)
         = (if \<not> hasLineBreak (trailingSpan a)
            then take (length a - length (trailingSpan a)) a else a)"
    by (rule if_conj_weaken) simp
  have a1: "(if ts then (if leadingSpan inner \<noteq> [] \<and> \<not> hasLineBreak (leadingSpan inner)
            then drop (length (leadingSpan inner)) inner else inner) else inner) = a"
    unfolding l a_def by simp
  have a2: "(if te then (if trailingSpan a \<noteq> [] \<and> \<not> hasLineBreak (trailingSpan a)
            then take (length a - length (trailingSpan a)) a else a) else a)
          = (if te \<and> \<not> hasLineBreak (trailingSpan a)
             then take (length a - length (trailingSpan a)) a else a)"
    unfolding r by simp
  have e1: "trimCodeInner ts te inner
      = (if te then (if trailingSpan a \<noteq> [] \<and> \<not> hasLineBreak (trailingSpan a)
            then take (length a - length (trailingSpan a)) a else a) else a)"
    unfolding trimCodeInner_def Let_def matchTrailingWhiteSpace_eq matchLeadingWhiteSpace_def
      leadingSpan_def[symmetric] a1 ..
  have e2: "trimCodeInner ts te inner
      = (if te \<and> \<not> hasLineBreak (trailingSpan a)
             then take (length a - length (trailingSpan a)) a else a)"
    by (simp only: e1 a2)
  show ?thesis unfolding Let_def a_def[symmetric] by (rule e2)
qed

lemma renderNodeForScoring_pre:
  "renderNodeForScoring (Element nn ''qti-pre'' attrs children) options s inPre pw =
     (let significantNodes = filter isSignificant children in
      wrapWith (''<pre'' @ (if list_ex isBlank significantNodes
                            then '' class='' @ [CHR 0x22] @ preWithBlanksClassName options @ [CHR 0x22]
                            else []) @ ''>'') ''</pre>''
        (mapJoin (renderPreChild options significantNodes)
           (zip significantNodes [0..<length significantNodes]) s))"
  by (simp add: renderNodeForScoring.simps(3) Let_def renderPreChild_def)

text \<open>
  C4. In the scoring renderer's \<open>qti-pre\<close> case the significant children are rendered by
  \<open>renderPreChild\<close>. The children of a \<open>qti-code\<close> child are rendered with whitespace
  preserved: a text node is never dropped there. Of the rendered text \<open>inner\<close> of the code,
  the leading span of whitespace is removed if the significant sibling just before the code
  is a text-entry-interaction and the span contains neither a newline nor a carriage return,
  and is left untouched otherwise; so is the trailing span, with the sibling just after
  the code.
\<close>

theorem pre_code_trimming:
  assumes "significantNodes = filter isSignificant children"
    and "index < length significantNodes"
    and "isElement (significantNodes ! index) \<and> localName (significantNodes ! index) = ''qti-code''"
    and "mapJoin (\<lambda>c bc'. renderNodeForScoring c options bc' True True)
           (childNodes (significantNodes ! index)) bc = (inner, bc1)"
  shows "renderNodeForScoring (Element nn ''qti-pre'' attrs children) options s inPre pw =
           wrapWith (''<pre'' @ (if list_ex isBlank significantNodes
                                 then '' class='' @ [CHR 0x22] @ preWithBlanksClassName options @ [CHR 0x22]
                                 else []) @ ''>'') ''</pre>''
             (mapJoin (renderPreChild options significantNodes)
                (zip significantNodes [0..<length significantNodes]) s)
         \<and> renderNodeForScoring (Text t) options bc True True = (escapeHtml t, bc)
         \<and> renderPreChild options significantNodes (significantNodes ! index, index) bc =
             (let prevBlank = (0 < index \<and> isBlank (significantNodes ! (index - 1)));
                  nextBlank = (index + 1 < length significantNodes
                               \<and> isBlank (significantNodes ! (index + 1)));
                  afterStart = (if prevBlank \<and> \<not> hasLineBreak (leadingSpan inner)
                                then drop (length (leadingSpan inner)) inner else inner);
                  afterEnd = (if nextBlank \<and> \<not> hasLineBreak (trailingSpan afterStart)
                              then take (length afterStart - length (trailingSpan afterStart)) afterStart
                              else afterStart)
              in (''<code>'' @ afterEnd @ ''</code>'', bc1))"
proof (intro conjI)
  show "renderNodeForScoring (Element nn ''qti-pre'' attrs children) options s inPre pw =
           wrapWith (''<pre'' @ (if list_ex isBlank significantNodes
                                 then '' class='' @ [CHR 0x22] @ preWithBlanksClassName options @ [CHR 0x22]
                                 else []) @ ''>'') ''</pre>''
             (mapJoin (renderPreChild options significantNodes)
                (zip significantNodes [0..<length significantNodes]) s)"
    unfolding assms(1) renderNodeForScoring_pre Let_def ..
  show "renderNodeForScoring (Text t) options bc True True = (escapeHtml t, bc)" by simp
  have n: "(index < length significantNodes - Suc 0) = (Suc index < length significantNodes)"
    by auto
  have "renderPreChild options significantNodes (significantNodes ! index, index) bc =
          (''<code>'' @ trimCodeInner (0 < index \<and> isBlank (significantNodes ! (index - 1)))
                          (index + 1 < length significantNodes
                             \<and> isBlank (significantNodes ! (index + 1))) inner @ ''</code>'', bc1)"
    using assms(3,4) by (simp add: renderPreChild_def renderCodeInPre_def Let_def n)
  then show "renderPreChild options significantNodes (significantNodes ! index, index) bc =
             (let prevBlank = (0 < index \<and> isBlank (significantNodes ! (index - 1)));
                  nextBlank = (index + 1 < length significantNodes
                               \<and> isBlank (significantNodes ! (index + 1)));
                  afterStart = (if prevBlank \<and> \<not> hasLineBreak (leadingSpan inner)
                                then drop (length (leadingSpan inner)) inner else inner);
                  afterEnd = (if nextBlank \<and> \<not> hasLineBreak (trailingSpan afterStart)
                              then take (length afterStart - length (trailingSpan afterStart)) afterStart
                              else afterStart)
              in (''<code>'' @ afterEnd @ ''</code>'', bc1))"
    unfolding trimCodeInner_spans Let_def .
qed

theorem pre_code_trimming_witness:
  "examplePreChildren = filter isSignificant examplePreChildren
   \<and> 0 < length examplePreChildren
   \<and> (isElement (examplePreChildren ! 0) \<and> localName (examplePreChildren ! 0) = ''qti-code'')
   \<and> mapJoin (\<lambda>c bc'. renderNodeForScoring c defaultScoringOptions bc' True True)
        (childNodes (examplePreChildren ! 0)) newBlankCounter = (''x =  '', newBlankCounter)
   \<and> renderPreChild defaultScoringOptions examplePreChildren (examplePreChildren ! 0, 0)
        newBlankCounter = (''<code>x =</code>'', newBlankCounter)
   \<and> 2 < length examplePreChildren
   \<and> (isElement (examplePreChildren ! 2) \<and> localName (examplePreChildren ! 2) = ''qti-code'')
   \<and> mapJoin (\<lambda>c bc'. renderNodeForScoring c defaultScoringOptions bc' True True)
        (childNodes (examplePreChildren ! 2)) newBlankCounter
        = ([CHR '' '', CHR 0x0A, CHR ''y''], newBlankCounter)
   \<and> renderPreChild defaultScoringOptions examplePreChildren (examplePreChildren ! 2, 2)
        newBlankCounter = (''<code>'' @ [CHR '' '', CHR 0x0A, CHR ''y''] @ ''</code>'', newBlankCounter)"
proof -
  have h1: "examplePreChildren = filter isSignificant examplePreChildren" by code_simp
  have h2: "0 < length examplePreChildren" by code_simp
  have h3: "isElement (examplePreChildren ! 0) \<and> localName (examplePreChildren ! 0) = ''qti-code''"
    by code_simp
  have h4: "mapJoin (\<lambda>c bc'. renderNodeForScoring c defaultScoringOptions bc' True True)
        (childNodes (examplePreChildren ! 0)) newBlankCounter = (''x =  '', newBlankCounter)"
    by code_simp
  have k2: "2 < length examplePreChildren" by code_simp
  have k3: "isElement (examplePreChildren ! 2) \<and> localName (examplePreChildren ! 2) = ''qti-code''"
    by code_simp
  have k4: "mapJoin (\<lambda>c bc'. renderNodeForScoring c defaultScoringOptions bc' True True)
        (childNodes (examplePreChildren ! 2)) newBlankCounter
        = ([CHR '' '', CHR 0x0A, CHR ''y''], newBlankCounter)"
    by code_simp
  have b: "\<not> isBlank (examplePreChildren ! 0)" "isBlank (examplePreChildren ! 1)"
     "length examplePreChildren = 3"
    by code_simp+
  have a: "renderPreChild defaultScoringOptions examplePreChildren (examplePreChildren ! 0, 0)
        newBlankCounter = (''<code>x =</code>'', newBlankCounter)"
    using pre_code_trimming[OF h1 h2 h3 h4, THEN conjunct2, THEN conjunct2] b
    by (simp add: leadingSpan_def trailingSpan_def hasLineBreak_def isWhiteSpace_def)
  have c: "renderPreChild defaultScoringOptions examplePreChildren (examplePreChildren ! 2, 2)
        newBlankCounter = (''<code>'' @ [CHR '' '', CHR 0x0A, CHR ''y''] @ ''</code>'', newBlankCounter)"
    using pre_code_trimming[OF h1 k2 k3 k4, THEN conjunct2, THEN conjunct2] b
    by (simp add: leadingSpan_def trailingSpan_def hasLineBreak_def isWhiteSpace_def)
  from h1 h2 h3 h4 a k2 k3 k4 c show ?thesis by blast
qed

subsection \<open>Blank indices\<close>

lemma resolve_blankRenderer_Some:
  "resolveScoringOptions (options\<lparr>opt_blankRenderer := Some r\<rparr>)
     = (resolveScoringOptions options)\<lparr>blankRenderer := r\<rparr>"
  by (simp add: resolveScoringOptions_def)

lemma resolve_blankRenderer_None:
  "resolveScoringOptions (options\<lparr>opt_blankRenderer := None\<rparr>)
     = (resolveScoringOptions options)\<lparr>blankRenderer := defaultBlankRenderer\<rparr>"
  by (simp add: resolveScoringOptions_def defaultScoringOptions_def)

lemma textEntries_isTextNode: "isTextNode c \<Longrightarrow> textEntries c = []"
  by (cases c) simp_all

lemma concat_textEntries_filter:
  "(\<And>c. \<not> P c \<Longrightarrow> textEntries c = []) \<Longrightarrow>
     concat (map textEntries (filter P cs)) = concat (map textEntries cs)"
  by (induction cs) simp_all

lemma prompt_shape:
  "(\<forall>r. solid r \<longrightarrow>
      fst (renderPromptBody itemBody (opts\<lparr>blankRenderer := r\<rparr>))
        = fill r 0 (promptShape itemBody opts))
   \<and> (list_all regular (childNodes itemBody) \<longrightarrow>
        blankNodes (promptShape itemBody opts) = concat (map textEntries (childNodes itemBody)))"
  unfolding renderPromptBody_def promptShape_def Let_def by (rule render_nodes_shape)

lemma explanation_shape:
  "(\<forall>r. solid r \<longrightarrow>
      fst (renderExplanationBody contentBody (opts\<lparr>blankRenderer := r\<rparr>))
        = fill r 0 (explanationShape contentBody opts))
   \<and> (list_all regular (childNodes contentBody) \<longrightarrow>
        blankNodes (explanationShape contentBody opts)
          = concat (map textEntries (childNodes contentBody)))"
proof -
  let ?nodes = "filter (\<lambda>n. \<not> isTextNode n \<or> trim (textContent n) \<noteq> []) (childNodes contentBody)"
  from render_nodes_shape[of opts ?nodes] have
    p: "\<And>r. solid r \<Longrightarrow>
          fst (mapJoin (\<lambda>n bc. renderNodeForScoring n (opts\<lparr>blankRenderer := r\<rparr>) bc False False)
                 ?nodes newBlankCounter) = fill r 0 (explanationShape contentBody opts)"
    and n: "list_all regular ?nodes \<longrightarrow>
              blankNodes (explanationShape contentBody opts) = concat (map textEntries ?nodes)"
    unfolding explanationShape_def by blast+
  have t: "concat (map textEntries ?nodes) = concat (map textEntries (childNodes contentBody))"
    by (rule concat_textEntries_filter) (auto simp: textEntries_isTextNode)
  have "blankNodes (explanationShape contentBody opts)
          = concat (map textEntries (childNodes contentBody))"
    if "list_all regular (childNodes contentBody)"
  proof -
    from that have "list_all regular ?nodes" by (simp add: list_all_iff)
    with n show ?thesis by (simp only: t)
  qed
  moreover have "fst (renderExplanationBody contentBody (opts\<lparr>blankRenderer := r\<rparr>))
                   = fill r 0 (explanationShape contentBody opts)"
    if "solid r" for r
    unfolding renderExplanationBody_def Let_def by (rule p[OF that])
  ultimately show ?thesis by blast
qed

text \<open>
  C2 (amended). For every document with an item body, the prompt that
  \<open>renderQtiItemForScoring\<close> returns is the shape of the item body, filled: the text of
  the shape, which does not depend on the blank renderer, with \<open>blankRenderer(1)\<close>,
  \<open>blankRenderer(2)\<close>, ..., \<open>blankRenderer(K)\<close> at its blanks from left to right, at any
  nesting depth. This holds for the default blank renderer and for every blank renderer
  whose results are not empty and neither start nor end with whitespace. When the children
  of the item body are regular (no text-entry-interaction below a rubric block or below an
  element rendered without its children; below a choice interaction every
  text-entry-interaction inside a simple choice, and no simple choice inside another), the
  blanks of the shape are the text-entry-interaction elements of the item body in document
  order: the \<open>i\<close>-th of them is rendered as \<open>blankRenderer(i)\<close>, and \<open>K\<close> is their
  number \<open>N\<close>.
\<close>

theorem scoring_blank_indices:
  assumes "parseXml xml = Some rootEl" and "nodeName rootEl \<noteq> ''parsererror''"
    and "firstOf (getElementsByLocalName rootEl ''qti-item-body'') = Some itemBody"
  shows "(\<forall>r. solid r \<longrightarrow>
            (\<exists>item. renderQtiItemForScoring parseXml xml (options\<lparr>opt_blankRenderer := Some r\<rparr>)
                       = Inr item
                   \<and> s_promptHtml item
                       = fill r 0 (promptShape itemBody (resolveScoringOptions options))))
         \<and> (\<exists>item. renderQtiItemForScoring parseXml xml (options\<lparr>opt_blankRenderer := None\<rparr>)
                       = Inr item
                   \<and> s_promptHtml item
                       = fill defaultBlankRenderer 0
                           (promptShape itemBody (resolveScoringOptions options)))
         \<and> (list_all regular (childNodes itemBody) \<longrightarrow>
              blankNodes (promptShape itemBody (resolveScoringOptions options))
                = concat (map textEntries (childNodes itemBody)))"
proof -
  let ?pieces = "promptShape itemBody (resolveScoringOptions options)"
  from prompt_shape[of itemBody "resolveScoringOptions options"] have
    p: "\<And>r. solid r \<Longrightarrow>
          fst (renderPromptBody itemBody ((resolveScoringOptions options)\<lparr>blankRenderer := r\<rparr>))
            = fill r 0 ?pieces"
    and n: "list_all regular (childNodes itemBody) \<longrightarrow>
              blankNodes ?pieces = concat (map textEntries (childNodes itemBody))"
    by blast+
  have a: "\<exists>item. renderQtiItemForScoring parseXml xml (options\<lparr>opt_blankRenderer := Some r\<rparr>) = Inr item
                \<and> s_promptHtml item = fill r 0 ?pieces" if "solid r" for r
    using assms p[OF that]
    by (simp add: renderQtiItemForScoring_def Let_def resolve_blankRenderer_Some)
  have b: "\<exists>item. renderQtiItemForScoring parseXml xml (options\<lparr>opt_blankRenderer := None\<rparr>) = Inr item
                \<and> s_promptHtml item = fill defaultBlankRenderer 0 ?pieces"
    using assms p[OF solid_defaultBlankRenderer]
    by (simp add: renderQtiItemForScoring_def Let_def resolve_blankRenderer_None)
  from a b n show ?thesis by blast
qed

theorem scoring_blank_indices_witness:
  \<open>(\<lambda>xml. Some exampleNestedItem) [] = Some exampleNestedItem
   \<and> nodeName exampleNestedItem \<noteq> ''parsererror''
   \<and> firstOf (getElementsByLocalName exampleNestedItem ''qti-item-body'') = Some exampleNestedBody
   \<and> list_all regular (childNodes exampleNestedBody)
   \<and> concat (map textEntries (childNodes exampleNestedBody))
       = [blankEl ''R1'', blankEl ''R2'', blankEl ''R3'', blankEl ''R4'']
   \<and> solid defaultBlankRenderer
   \<and> blankNodes (promptShape exampleNestedBody (resolveScoringOptions noScoringOptions))
       = [blankEl ''R1'', blankEl ''R2'', blankEl ''R3'', blankEl ''R4'']
   \<and> (\<exists>item item'.
         renderQtiItemForScoring (\<lambda>xml. Some exampleNestedItem) [] noScoringOptions = Inr item
         \<and> s_promptHtml item
             = fill defaultBlankRenderer 0
                 (promptShape exampleNestedBody (resolveScoringOptions noScoringOptions))
         \<and> s_promptHtml item
             = ''<ol class="qti-choice-list"><li data-choice="A">Alpha '' @ defaultBlankRenderer 1
               @ ''</li></ol><p><em>'' @ defaultBlankRenderer 2
               @ ''</em></p><pre class="qti-pre-with-blanks"><code>x = '' @ defaultBlankRenderer 3
               @ ''</code>'' @ defaultBlankRenderer 4 @ ''<code>;</code></pre>''
         \<and> renderQtiItemForScoring (\<lambda>xml. Some exampleNestedItem) []
               (noScoringOptions\<lparr>opt_blankRenderer := Some defaultBlankRenderer\<rparr>) = Inr item'
         \<and> s_promptHtml item'
             = fill defaultBlankRenderer 0
                 (promptShape exampleNestedBody (resolveScoringOptions noScoringOptions)))\<close>
proof -
  let ?html = \<open>''<ol class="qti-choice-list"><li data-choice="A">Alpha '' @ defaultBlankRenderer 1
               @ ''</li></ol><p><em>'' @ defaultBlankRenderer 2
               @ ''</em></p><pre class="qti-pre-with-blanks"><code>x = '' @ defaultBlankRenderer 3
               @ ''</code>'' @ defaultBlankRenderer 4 @ ''<code>;</code></pre>''\<close>
  let ?pieces = "promptShape exampleNestedBody (resolveScoringOptions noScoringOptions)"
  have h1: "(\<lambda>xml. Some exampleNestedItem) [] = Some exampleNestedItem" by simp
  have h2: "nodeName exampleNestedItem \<noteq> ''parsererror''" by code_simp
  have h3: "firstOf (getElementsByLocalName exampleNestedItem ''qti-item-body'') = Some exampleNestedBody"
    by code_simp
  have g: "list_all regular (childNodes exampleNestedBody)" by code_simp
  have l: "concat (map textEntries (childNodes exampleNestedBody))
             = [blankEl ''R1'', blankEl ''R2'', blankEl ''R3'', blankEl ''R4'']" by code_simp
  have e: "renderQtiItemForScoring (\<lambda>xml. Some exampleNestedItem) [] noScoringOptions
             = Inr \<lparr>s_identifier = ''item-2'', s_title = ''item-2'', s_promptHtml = ?html,
                    s_rubricCriteria = [],
                    s_choices = [\<lparr>co_identifier = ''A'', co_text = ''Alpha''\<rparr>],
                    s_candidateExplanationHtml = None\<rparr>"
    by code_simp
  have o: "noScoringOptions\<lparr>opt_blankRenderer := None\<rparr> = noScoringOptions"
    by (simp add: noScoringOptions_def)
  note s = solid_defaultBlankRenderer
  from scoring_blank_indices[OF h1 h2 h3, where options = noScoringOptions]
  obtain item item' where
    a: "renderQtiItemForScoring (\<lambda>xml. Some exampleNestedItem) []
          (noScoringOptions\<lparr>opt_blankRenderer := Some defaultBlankRenderer\<rparr>) = Inr item'"
       "s_promptHtml item' = fill defaultBlankRenderer 0 ?pieces"
    and b: "renderQtiItemForScoring (\<lambda>xml. Some exampleNestedItem) [] noScoringOptions = Inr item"
       "s_promptHtml item = fill defaultBlankRenderer 0 ?pieces"
    and n: "blankNodes ?pieces = concat (map textEntries (childNodes exampleNestedBody))"
    unfolding o using s g by blast
  have "Inr item = (Inr \<lparr>s_identifier = ''item-2'', s_title = ''item-2'', s_promptHtml = ?html,
                    s_rubricCriteria = [],
                    s_choices = [\<lparr>co_identifier = ''A'', co_text = ''Alpha''\<rparr>],
                    s_candidateExplanationHtml = None\<rparr> :: error + parsed_item_for_scoring)"
    unfolding b(1)[symmetric] by (rule e)
  then have "item = \<lparr>s_identifier = ''item-2'', s_title = ''item-2'', s_promptHtml = ?html,
                    s_rubricCriteria = [],
                    s_choices = [\<lparr>co_identifier = ''A'', co_text = ''Alpha''\<rparr>],
                    s_candidateExplanationHtml = None\<rparr>"
    by (simp only: sum.inject)
  then have "s_promptHtml item = ?html" by simp
  with h1 h2 h3 g l s a b n show ?thesis by (simp only:) blast
qed

text \<open>
  The claim as stated fails where a blank stands in the prompt of a choice interaction:
  the item body has the two text-entry-interactions R1 and R2 in document order, and the
  prompt holds one blank, rendered with index 1, at the place of R2; R1 is not rendered.
\<close>

theorem scoring_blank_indices_counterexample:
  "concat (map textEntries (childNodes examplePromptBlankBody)) = [blankEl ''R1'', blankEl ''R2'']
   \<and> renderQtiItemForScoring
         (\<lambda>xml. Some (elem ''qti-assessment-item'' [] [examplePromptBlankBody])) [] noScoringOptions
       = Inr \<lparr>s_identifier = [], s_title = [],
              s_promptHtml = ''<ol class='' @ [CHR 0x22] @ ''qti-choice-list'' @ [CHR 0x22]
                 @ ''><li data-choice='' @ [CHR 0x22] @ ''A'' @ [CHR 0x22] @ ''>''
                 @ defaultBlankRenderer 1 @ ''</li></ol>'',
              s_rubricCriteria = [], s_choices = [\<lparr>co_identifier = ''A'', co_text = []\<rparr>],
              s_candidateExplanationHtml = None\<rparr>"
  by code_simp

text \<open>
  C1 (amended). The candidate explanation is rendered with a blank counter of its own,
  starting at 0 again, whatever the item body holds: for every document with an item body
  and an explanation, \<open>candidateExplanationHtml\<close> is the shape of the explanation's content
  body, filled: the text of the shape, which does not depend on the blank renderer, with
  \<open>blankRenderer(1)\<close>, \<open>blankRenderer(2)\<close>, ..., \<open>blankRenderer(K)\<close> at its blanks from left
  to right. So the first blank of the explanation is rendered with index 1, not \<open>N + 1\<close>.
  This holds for the default blank renderer and for every blank renderer whose results are
  not empty and neither start nor end with whitespace. When the children of the content
  body are regular, the blanks of the shape are the text-entry-interaction elements of the
  content body in document order, and \<open>K\<close> is their number.
\<close>

theorem explanation_blank_indices:
  assumes "parseXml xml = Some rootEl" and "nodeName rootEl \<noteq> ''parsererror''"
    and "firstOf (getElementsByLocalName rootEl ''qti-item-body'') = Some itemBody"
    and "explanationContentBody rootEl = Some contentBody"
  shows "(\<forall>r. solid r \<longrightarrow>
            (\<exists>item. renderQtiItemForScoring parseXml xml (options\<lparr>opt_blankRenderer := Some r\<rparr>)
                       = Inr item
                   \<and> s_candidateExplanationHtml item
                       = Some (fill r 0 (explanationShape contentBody
                                           (resolveScoringOptions options)))))
         \<and> (\<exists>item. renderQtiItemForScoring parseXml xml (options\<lparr>opt_blankRenderer := None\<rparr>)
                       = Inr item
                   \<and> s_candidateExplanationHtml item
                       = Some (fill defaultBlankRenderer 0
                                 (explanationShape contentBody (resolveScoringOptions options))))
         \<and> (list_all regular (childNodes contentBody) \<longrightarrow>
              blankNodes (explanationShape contentBody (resolveScoringOptions options))
                = concat (map textEntries (childNodes contentBody)))"
proof -
  let ?pieces = "explanationShape contentBody (resolveScoringOptions options)"
  from explanation_shape[of contentBody "resolveScoringOptions options"] have
    p: "\<And>r. solid r \<Longrightarrow>
          fst (renderExplanationBody contentBody ((resolveScoringOptions options)\<lparr>blankRenderer := r\<rparr>))
            = fill r 0 ?pieces"
    and n: "list_all regular (childNodes contentBody) \<longrightarrow>
              blankNodes ?pieces = concat (map textEntries (childNodes contentBody))"
    by blast+
  have a: "\<exists>item. renderQtiItemForScoring parseXml xml (options\<lparr>opt_blankRenderer := Some r\<rparr>) = Inr item
                \<and> s_candidateExplanationHtml item = Some (fill r 0 ?pieces)" if "solid r" for r
    using assms p[OF that]
    by (simp add: renderQtiItemForScoring_def parseCandidateExplanation_def Let_def
          resolve_blankRenderer_Some)
  have b: "\<exists>item. renderQtiItemForScoring parseXml xml (options\<lparr>opt_blankRenderer := None\<rparr>) = Inr item
                \<and> s_candidateExplanationHtml item = Some (fill defaultBlankRenderer 0 ?pieces)"
    using assms p[OF solid_defaultBlankRenderer]
    by (simp add: renderQtiItemForScoring_def parseCandidateExplanation_def Let_def
          resolve_blankRenderer_None)
  from a b n show ?thesis by blast
qed

theorem explanation_blank_indices_witness:
  "(\<lambda>xml. Some exampleExplanationItem) [] = Some exampleExplanationItem
   \<and> nodeName exampleExplanationItem \<noteq> ''parsererror''
   \<and> firstOf (getElementsByLocalName exampleExplanationItem ''qti-item-body'')
       = Some (elem ''qti-item-body'' [] [elem ''qti-p'' [] [blankEl ''R1'']])
   \<and> explanationContentBody exampleExplanationItem = Some exampleExplanationBody
   \<and> list_all regular (childNodes exampleExplanationBody)
   \<and> concat (map textEntries (childNodes exampleExplanationBody)) = [blankEl ''R2'']
   \<and> solid defaultBlankRenderer
   \<and> blankNodes (explanationShape exampleExplanationBody (resolveScoringOptions noScoringOptions))
       = [blankEl ''R2'']
   \<and> (\<exists>item item'.
         renderQtiItemForScoring (\<lambda>xml. Some exampleExplanationItem) [] noScoringOptions = Inr item
         \<and> s_candidateExplanationHtml item
             = Some (fill defaultBlankRenderer 0
                       (explanationShape exampleExplanationBody
                          (resolveScoringOptions noScoringOptions)))
         \<and> s_candidateExplanationHtml item = Some (''<p>'' @ defaultBlankRenderer 1 @ ''</p>'')
         \<and> s_promptHtml item = ''<p>'' @ defaultBlankRenderer 1 @ ''</p>''
         \<and> renderQtiItemForScoring (\<lambda>xml. Some exampleExplanationItem) []
               (noScoringOptions\<lparr>opt_blankRenderer := Some defaultBlankRenderer\<rparr>) = Inr item'
         \<and> s_candidateExplanationHtml item'
             = Some (fill defaultBlankRenderer 0
                       (explanationShape exampleExplanationBody
                          (resolveScoringOptions noScoringOptions))))"
proof -
  let ?pieces = "explanationShape exampleExplanationBody (resolveScoringOptions noScoringOptions)"
  have h1: "(\<lambda>xml. Some exampleExplanationItem) [] = Some exampleExplanationItem" by simp
  have h2: "nodeName exampleExplanationItem \<noteq> ''parsererror''" by code_simp
  have h3: "firstOf (getElementsByLocalName exampleExplanationItem ''qti-item-body'')
              = Some (elem ''qti-item-body'' [] [elem ''qti-p'' [] [blankEl ''R1'']])"
    by code_simp
  have h4: "explanationContentBody exampleExplanationItem = Some exampleExplanationBody"
    by code_simp
  have g: "list_all regular (childNodes exampleExplanationBody)" by code_simp
  have l: "concat (map textEntries (childNodes exampleExplanationBody)) = [blankEl ''R2'']"
    by code_simp
  have e: "renderQtiItemForScoring (\<lambda>xml. Some exampleExplanationItem) [] noScoringOptions
             = Inr \<lparr>s_identifier = ''item-1'', s_title = ''Item 1'',
                    s_promptHtml = ''<p>'' @ defaultBlankRenderer 1 @ ''</p>'',
                    s_rubricCriteria = [], s_choices = [],
                    s_candidateExplanationHtml = Some (''<p>'' @ defaultBlankRenderer 1 @ ''</p>'')\<rparr>"
    by code_simp
  have o: "noScoringOptions\<lparr>opt_blankRenderer := None\<rparr> = noScoringOptions"
    by (simp add: noScoringOptions_def)
  note s = solid_defaultBlankRenderer
  from explanation_blank_indices[OF h1 h2 h3 h4, where options = noScoringOptions]
  obtain item item' where
    a: "renderQtiItemForScoring (\<lambda>xml. Some exampleExplanationItem) []
          (noScoringOptions\<lparr>opt_blankRenderer := Some defaultBlankRenderer\<rparr>) = Inr item'"
       "s_candidateExplanationHtml item' = Some (fill defaultBlankRenderer 0 ?pieces)"
    and b: "renderQtiItemForScoring (\<lambda>xml. Some exampleExplanationItem) [] noScoringOptions = Inr item"
       "s_candidateExplanationHtml item = Some (fill defaultBlankRenderer 0 ?pieces)"
    and n: "blankNodes ?pieces = concat (map textEntries (childNodes exampleExplanationBody))"
    unfolding o using s g by blast
  have "Inr item = (Inr \<lparr>s_identifier = ''item-1'', s_title = ''Item 1'',
                    s_promptHtml = ''<p>'' @ defaultBlankRenderer 1 @ ''</p>'',
                    s_rubricCriteria = [], s_choices = [],
                    s_candidateExplanationHtml = Some (''<p>'' @ defaultBlankRenderer 1 @ ''</p>'')\<rparr>
                 :: error + parsed_item_for_scoring)"
    unfolding b(1)[symmetric] by (rule e)
  then have "item = \<lparr>s_identifier = ''item-1'', s_title = ''Item 1'',
                    s_promptHtml = ''<p>'' @ defaultBlankRenderer 1 @ ''</p>'',
                    s_rubricCriteria = [], s_choices = [],
                    s_candidateExplanationHtml = Some (''<p>'' @ defaultBlankRenderer 1 @ ''</p>'')\<rparr>"
    by (simp only: sum.inject)
  then have "s_candidateExplanationHtml item = Some (''<p>'' @ defaultBlankRenderer 1 @ ''</p>'')"
    and "s_promptHtml item = ''<p>'' @ defaultBlankRenderer 1 @ ''</p>''" by simp_all
  with h1 h2 h3 h4 g l s a b n show ?thesis by (simp only:) blast
qed

text \<open>
  The claim as stated fails on an item with one blank in its prompt (\<open>N = 1\<close>) and one in
  its explanation: the blank of the explanation is rendered with index 1, not 2.
\<close>

theorem explanation_counter_continues_counterexample:
  "length (concat (map textEntries [elem ''qti-item-body'' [] [elem ''qti-p'' [] [blankEl ''R1'']]])) = 1
   \<and> renderQtiItemForScoring (\<lambda>xml. Some exampleExplanationItem) [] noScoringOptions
       = Inr \<lparr>s_identifier = ''item-1'', s_title = ''Item 1'',
              s_promptHtml = ''<p>'' @ defaultBlankRenderer 1 @ ''</p>'',
              s_rubricCriteria = [], s_choices = [],
              s_candidateExplanationHtml = Some (''<p>'' @ defaultBlankRenderer 1 @ ''</p>'')\<rparr>
   \<and> defaultBlankRenderer 1 \<noteq> defaultBlankRenderer (1 + 1)"
  by code_simp

subsection \<open>The scoring entry point\<close>

text \<open>
  C10 (amended). The scoring entry point does not validate the identifier: for every parsed
  document whose root is not a parse error, has no identifier attribute and has an item
  body below it, \<open>renderQtiItemForScoring\<close> succeeds, with the identifier \<open>""\<close> and with the
  title attribute as title when the root has one, \<open>""\<close> (the identifier) when it has none.
\<close>

theorem scoring_no_identifier_validation:
  assumes "parseXml xml = Some rootEl"
    and "nodeName rootEl \<noteq> ''parsererror''"
    and "getAttribute rootEl ''identifier'' = None"
    and "getElementsByLocalName rootEl ''qti-item-body'' \<noteq> []"
  shows "\<exists>item. renderQtiItemForScoring parseXml xml options = Inr item
           \<and> s_identifier item = []
           \<and> s_title item = (case getAttribute rootEl ''title'' of None \<Rightarrow> [] | Some v \<Rightarrow> v)"
  using assms
  by (cases "getElementsByLocalName rootEl ''qti-item-body''")
     (simp_all add: renderQtiItemForScoring_def Let_def firstOf_def)

theorem scoring_no_identifier_validation_witness:
  "(\<lambda>xml. Some exampleUntitledItem) [] = Some exampleUntitledItem
   \<and> nodeName exampleUntitledItem \<noteq> ''parsererror''
   \<and> getAttribute exampleUntitledItem ''identifier'' = None
   \<and> getElementsByLocalName exampleUntitledItem ''qti-item-body'' \<noteq> []
   \<and> getAttribute exampleUntitledItem ''title'' = None
   \<and> (\<exists>item. renderQtiItemForScoring (\<lambda>xml. Some exampleUntitledItem) [] noScoringOptions = Inr item
           \<and> s_identifier item = [] \<and> s_title item = [])"
proof -
  have h1: "(\<lambda>xml. Some exampleUntitledItem) [] = Some exampleUntitledItem" by simp
  have h2: "nodeName exampleUntitledItem \<noteq> ''parsererror''" by code_simp
  have h3: "getAttribute exampleUntitledItem ''identifier'' = None" by code_simp
  have h4: "getElementsByLocalName exampleUntitledItem ''qti-item-body'' \<noteq> []" by code_simp
  have t: "getAttribute exampleUntitledItem ''title'' = None" by code_simp
  from scoring_no_identifier_validation[OF h1 h2 h3 h4, where options = noScoringOptions] t
  have "\<exists>item. renderQtiItemForScoring (\<lambda>xml. Some exampleUntitledItem) [] noScoringOptions = Inr item
           \<and> s_identifier item = [] \<and> s_title item = []" by simp
  with h1 h2 h3 h4 t show ?thesis by blast
qed

text \<open>
  The claim as stated fails on a root with a title and no identifier: the title returned is
  the title attribute, not \<open>""\<close>.
\<close>

theorem scoring_title_empty_counterexample:
  "getAttribute exampleTitledItem ''identifier'' = None
   \<and> renderQtiItemForScoring (\<lambda>xml. Some exampleTitledItem) [] noScoringOptions
       = Inr \<lparr>s_identifier = [], s_title = ''Item 1'', s_promptHtml = ''<p>Q</p>'',
              s_rubricCriteria = [], s_choices = [], s_candidateExplanationHtml = None\<rparr>"
  by code_simp

subsection \<open>Identifier validation of the report renderer\<close>

text \<open>
  C5. \<open>renderQtiItemForReport\<close> validates the identifier of every parsed document whose root
  is not a parse error: when the root has no identifier attribute, or an empty one, it
  fails with the identifier-missing error; when the identifier is there and differs from
  the expected identifier, it fails with the identifier-mismatch error. The two errors
  differ for all identifiers, so the caller can tell them apart.
\<close>

theorem report_identifier_validation:
  assumes "parseXml xml = Some rootEl" and "nodeName rootEl \<noteq> ''parsererror''"
  shows "(getAttribute rootEl ''identifier'' = None \<or> getAttribute rootEl ''identifier'' = Some [] \<longrightarrow>
            renderQtiItemForReport parseXml xml expectedIdentifier options
              = Inl (Error (''Invalid assessment item: identifier missing in '' @ expectedIdentifier)))
         \<and> (\<forall>identifier. getAttribute rootEl ''identifier'' = Some identifier \<and> identifier \<noteq> []
                 \<and> identifier \<noteq> expectedIdentifier \<longrightarrow>
               renderQtiItemForReport parseXml xml expectedIdentifier options
                 = Inl (Error (''Assessment item identifier mismatch: expected '' @ expectedIdentifier
                                 @ '' but found '' @ identifier)))
         \<and> (\<forall>e f g. Error (''Invalid assessment item: identifier missing in '' @ e)
                  \<noteq> Error (''Assessment item identifier mismatch: expected '' @ f
                                 @ '' but found '' @ g))"
  using assms by (auto simp: renderQtiItemForReport_def Let_def)

theorem report_identifier_validation_witness:
  "(\<lambda>xml. Some exampleReportItem) [] = Some exampleReportItem
   \<and> nodeName exampleReportItem \<noteq> ''parsererror''
   \<and> getAttribute exampleReportItem ''identifier'' = Some ''item-7''
   \<and> renderQtiItemForReport (\<lambda>xml. Some exampleReportItem) [] ''item-8'' noReportOptions
       = Inl (Error ''Assessment item identifier mismatch: expected item-8 but found item-7'')
   \<and> (\<lambda>xml. Some exampleUntitledItem) [] = Some exampleUntitledItem
   \<and> nodeName exampleUntitledItem \<noteq> ''parsererror''
   \<and> getAttribute exampleUntitledItem ''identifier'' = None
   \<and> renderQtiItemForReport (\<lambda>xml. Some exampleUntitledItem) [] ''item-8'' noReportOptions
       = Inl (Error ''Invalid assessment item: identifier missing in item-8'')"
proof -
  have h1: "(\<lambda>xml. Some exampleReportItem) [] = Some exampleReportItem" by simp
  have h2: "nodeName exampleReportItem \<noteq> ''parsererror''" by code_simp
  have i: "getAttribute exampleReportItem ''identifier'' = Some ''item-7''" by code_simp
  have k1: "(\<lambda>xml. Some exampleUntitledItem) [] = Some exampleUntitledItem" by simp
  have k2: "nodeName exampleUntitledItem \<noteq> ''parsererror''" by code_simp
  have j: "getAttribute exampleUntitledItem ''identifier'' = None" by code_simp
  have ne: "''item-7'' \<noteq> [] \<and> ''item-7'' \<noteq> ''item-8''" by simp
  from report_identifier_validation[OF h1 h2, where expectedIdentifier = "''item-8''"
      and options = noReportOptions, THEN conjunct2, THEN conjunct1, rule_format, of "''item-7''"] i ne
  have a: "renderQtiItemForReport (\<lambda>xml. Some exampleReportItem) [] ''item-8'' noReportOptions
       = Inl (Error ''Assessment item identifier mismatch: expected item-8 but found item-7'')"
    by simp
  from report_identifier_validation[OF k1 k2, where expectedIdentifier = "''item-8''"
      and options = noReportOptions, THEN conjunct1] j
  have b: "renderQtiItemForReport (\<lambda>xml. Some exampleUntitledItem) [] ''item-8'' noReportOptions
       = Inl (Error ''Invalid assessment item: identifier missing in item-8'')"
    by simp
  from h1 h2 i a k1 k2 j b show ?thesis by blast
qed


section \<open>Properties of the HTML passes\<close>

lemma map_of_setAttr_same: "map_of (setAttr name v attrs) name = Some v"
proof (cases "name \<in> fst ` set attrs")
  case True
  then have "map_of (map (\<lambda>(k, w). if k = name then (k, v) else (k, w)) attrs) name = Some v"
    by (induction attrs) auto
  then show ?thesis using True by (simp add: setAttr_def)
next
  case False
  then have "map_of attrs name = None" by (simp add: map_of_eq_None_iff)
  then show ?thesis using False by (simp add: setAttr_def map_add_def)
qed






lemma setAttribute_elements:
  "doc_elements (setAttribute b n v doc) =
     (doc_elements doc)[b := (doc_elements doc ! b)\<lparr>h_attrs := setAttr n v (h_attrs (doc_elements doc ! b))\<rparr>]"
  "doc_rest (setAttribute b n v doc) = doc_rest doc"
  by (simp_all add: setAttribute_def)








lemma querySelectorAll_props:
  "distinct (querySelectorAll doc sel)"
  "b \<in> set (querySelectorAll doc sel) \<Longrightarrow> b < length (doc_elements doc)"
  by (simp_all add: querySelectorAll_def)

text \<open>
  C6. \<open>applyResponsesToPromptHtml\<close> returns its input HTML string itself when the string
  does not contain the blank marker \<open>qti-blank-input\<close>, and, for every input, when the
  response is \<open>null\<close>, \<open>undefined\<close> or an empty list. No parser is needed on these paths.
\<close>

theorem applyResponses_noop:
  "(\<not> includesStr promptHtml ''qti-blank-input'' \<longrightarrow>
      applyResponsesToPromptHtml promptHtml response domParser globalDOMParser = Inr promptHtml)
   \<and> (response = Null \<or> response = Undefined \<or> response = Many [] \<longrightarrow>
      applyResponsesToPromptHtml promptHtml response domParser globalDOMParser = Inr promptHtml)"
  by (auto simp: applyResponsesToPromptHtml_def normalizeResponses_def)

theorem applyResponses_noop_witness:
  "\<not> includesStr ''<p>no blank</p>'' ''qti-blank-input''
   \<and> applyResponsesToPromptHtml ''<p>no blank</p>'' (Single ''a'') (None :: unit html_dom_parser option) None
        = Inr ''<p>no blank</p>''
   \<and> applyResponsesToPromptHtml ''<input class=qti-blank-input>'' Null (Some exampleBlankParser) None
        = Inr ''<input class=qti-blank-input>''"
proof -
  have h: "\<not> includesStr ''<p>no blank</p>'' ''qti-blank-input''" by code_simp
  from applyResponses_noop[of "''<p>no blank</p>''" "Single ''a''" "None :: unit html_dom_parser option" None] h
  have a: "applyResponsesToPromptHtml ''<p>no blank</p>'' (Single ''a'') (None :: unit html_dom_parser option) None
        = Inr ''<p>no blank</p>''" by blast
  from applyResponses_noop[of "''<input class=qti-blank-input>''" Null "Some exampleBlankParser" None]
  have b: "applyResponsesToPromptHtml ''<input class=qti-blank-input>'' Null (Some exampleBlankParser) None
        = Inr ''<input class=qti-blank-input>''" by blast
  from h a b show ?thesis by blast
qed



subsection \<open>Image sources\<close>

lemma rewriteImage_elements:
  "doc_elements (rewriteImage rr base opts img doc) =
     (doc_elements doc)[img := rewritten rr base opts (doc_elements doc ! img)]"
  "doc_rest (rewriteImage rr base opts img doc) = doc_rest doc"
  by (auto simp: rewriteImage_def rewritten_def Let_def getAttributeOf_def setAttribute_elements
        split: option.splits)

lemma fold_rewriteImage_rest: "doc_rest (fold (rewriteImage rr base opts) imgs doc) = doc_rest doc"
  by (induction imgs arbitrary: doc) (simp_all add: rewriteImage_elements)

lemma fold_rewriteImage_length:
  "length (doc_elements (fold (rewriteImage rr base opts) imgs doc)) = length (doc_elements doc)"
  by (induction imgs arbitrary: doc) (simp_all add: rewriteImage_elements)

lemma fold_rewriteImage_other:
  "el \<notin> set imgs \<Longrightarrow>
     doc_elements (fold (rewriteImage rr base opts) imgs doc) ! el = doc_elements doc ! el"
  by (induction imgs arbitrary: doc) (simp_all add: rewriteImage_elements)

lemma fold_rewriteImage_at:
  assumes "distinct imgs" "img \<in> set imgs" "img < length (doc_elements doc)"
  shows "doc_elements (fold (rewriteImage rr base opts) imgs doc) ! img
           = rewritten rr base opts (doc_elements doc ! img)"
  using assms
proof (induction imgs arbitrary: doc)
  case Nil
  then show ?case by simp
next
  case (Cons x xs)
  show ?case
  proof (cases "x = img")
    case True
    then have "img \<notin> set xs" using Cons.prems(1) by auto
    then have "doc_elements (fold (rewriteImage rr base opts) xs (rewriteImage rr base opts img doc)) ! img
        = doc_elements (rewriteImage rr base opts img doc) ! img"
      by (rule fold_rewriteImage_other)
    then show ?thesis using True Cons.prems(3) by (simp add: rewriteImage_elements)
  next
    case False
    then have mem: "img \<in> set xs" using Cons.prems(2) by simp
    have len: "img < length (doc_elements (rewriteImage rr base opts x doc))"
      using Cons.prems(3) by (simp add: rewriteImage_elements)
    have d: "distinct xs" using Cons.prems(1) by simp
    have "doc_elements (rewriteImage rr base opts x doc) ! img = doc_elements doc ! img"
      using False by (simp add: rewriteImage_elements)
    then show ?thesis using Cons.IH[OF d mem len] by simp
  qed
qed

lemma startsWith_append: "startsWith (p @ r) p"
  by (simp add: startsWith_def)

lemma not_letter_colon: "\<not> isAsciiLetter (CHR '':'')"
  by (simp add: isAsciiLetter_def)

lemma matchSchemeSlashes_letters:
  assumes "scheme \<noteq> []" "list_all isAsciiLetter scheme"
  shows "matchSchemeSlashes (scheme @ ''://'' @ r)"
proof -
  have "takeWhile isAsciiLetter (scheme @ CHR '':'' # (''//'' @ r)) = scheme"
    by (rule takeWhile_all_append[OF assms(2) not_letter_colon])
  then have t: "takeWhile isAsciiLetter (scheme @ ''://'' @ r) = scheme" by simp
  show ?thesis unfolding matchSchemeSlashes_def Let_def t using assms(1)
    by (simp add: startsWith_def)
qed

text \<open>
  C8 (amended). With the default external-source detector and a parser available,
  \<open>rewriteHtmlImageSources\<close> returns the serialization of the document after \<open>forEach\<close>. An
  image is left as it is when its source is empty, when the detector takes it as external,
  or when the relative-path resolver returns a falsy value for it; otherwise its source
  becomes \<open>resolveUrl(resolved, source)\<close>. Elements that are not images with a source are left
  as they are. The detector takes as external every source that starts with one or more
  ASCII letters and \<open>://\<close>, with \<open>//\<close>, with \<open>/\<close> or with \<open>data:\<close>.
\<close>

theorem rewrite_image_sources_default:
  assumes "resolveHtmlDomParser domParser globalDOMParser = Inr parser"
    and "isExternalSource options = None"
    and "doc = parseFromString parser html"
    and "images = querySelectorAll doc isImgWithSrc"
    and "doc' = fold (rewriteImage resolveRelativePath baseFilePath options) images doc"
  shows "rewriteHtmlImageSources resolveRelativePath html baseFilePath options domParser globalDOMParser
           = Inr (bodyInnerHTML parser doc')
         \<and> (\<forall>img \<in> set images. \<exists>src.
               getAttributeOf doc img ''src'' = Some src
               \<and> (if src \<noteq> [] \<and> \<not> defaultIsExternalSource src
                      \<and> resolveRelativePath baseFilePath src \<noteq> None
                      \<and> resolveRelativePath baseFilePath src \<noteq> Some []
                   then getAttributeOf doc' img ''src''
                          = Some (resolveUrl options (the (resolveRelativePath baseFilePath src)) src)
                   else doc_elements doc' ! img = doc_elements doc ! img))
         \<and> (\<forall>el. el \<notin> set images \<longrightarrow> doc_elements doc' ! el = doc_elements doc ! el)
         \<and> (\<forall>scheme rest. scheme \<noteq> [] \<and> list_all isAsciiLetter scheme \<longrightarrow>
               defaultIsExternalSource (scheme @ ''://'' @ rest))
         \<and> (\<forall>rest. defaultIsExternalSource (''//'' @ rest)
                  \<and> defaultIsExternalSource (''/'' @ rest)
                  \<and> defaultIsExternalSource (''data:'' @ rest))"
proof (intro conjI ballI allI impI)
  show "rewriteHtmlImageSources resolveRelativePath html baseFilePath options domParser globalDOMParser
           = Inr (bodyInnerHTML parser doc')"
    using assms by (simp add: rewriteHtmlImageSources_def Let_def)
  show "doc_elements doc' ! el = doc_elements doc ! el" if "el \<notin> set images" for el
    unfolding assms(5) using that by (rule fold_rewriteImage_other)
  show "defaultIsExternalSource (scheme @ ''://'' @ rest)"
    if "scheme \<noteq> [] \<and> list_all isAsciiLetter scheme" for scheme rest
    using that matchSchemeSlashes_letters by (simp add: defaultIsExternalSource_def)
  show "defaultIsExternalSource (''//'' @ rest)" for rest
    by (simp add: defaultIsExternalSource_def matchSchemeSlashes_def startsWith_def)
  show "defaultIsExternalSource (''/'' @ rest)" for rest
    by (simp add: defaultIsExternalSource_def startsWith_def)
  show "defaultIsExternalSource (''data:'' @ rest)" for rest
    by (simp add: defaultIsExternalSource_def startsWith_def)
  fix img assume img: "img \<in> set images"
  have d: "distinct images" unfolding assms(4) by (rule querySelectorAll_props(1))
  have len: "img < length (doc_elements doc)"
    using img unfolding assms(4) by (rule querySelectorAll_props(2))
  have sel: "isImgWithSrc (doc_elements doc ! img)"
    using img unfolding assms(4) by (simp add: querySelectorAll_def)
  then obtain src where src: "map_of (h_attrs (doc_elements doc ! img)) ''src'' = Some src"
    by (auto simp: isImgWithSrc_def)
  have at: "doc_elements doc' ! img = rewritten resolveRelativePath baseFilePath options (doc_elements doc ! img)"
    unfolding assms(5) by (rule fold_rewriteImage_at[OF d img len])
  have "if src \<noteq> [] \<and> \<not> defaultIsExternalSource src
                      \<and> resolveRelativePath baseFilePath src \<noteq> None
                      \<and> resolveRelativePath baseFilePath src \<noteq> Some []
                   then getAttributeOf doc' img ''src''
                          = Some (resolveUrl options (the (resolveRelativePath baseFilePath src)) src)
                   else doc_elements doc' ! img = doc_elements doc ! img"
    unfolding getAttributeOf_def at rewritten_def src assms(2)
    by (cases "resolveRelativePath baseFilePath src") (simp_all add: map_of_setAttr_same)
  then show "\<exists>src. getAttributeOf doc img ''src'' = Some src
               \<and> (if src \<noteq> [] \<and> \<not> defaultIsExternalSource src
                      \<and> resolveRelativePath baseFilePath src \<noteq> None
                      \<and> resolveRelativePath baseFilePath src \<noteq> Some []
                   then getAttributeOf doc' img ''src''
                          = Some (resolveUrl options (the (resolveRelativePath baseFilePath src)) src)
                   else doc_elements doc' ! img = doc_elements doc ! img)"
    using src by (auto simp: getAttributeOf_def)
qed

theorem rewrite_image_sources_default_witness:
  "resolveHtmlDomParser (Some exampleImageParser) None = Inr exampleImageParser
   \<and> isExternalSource exampleRewriteOptions = None
   \<and> querySelectorAll exampleImageDocument isImgWithSrc = [0, 1, 2]
   \<and> getAttributeOf
        (fold (rewriteImage (\<lambda>base src. Some (''items/'' @ src)) ''items/item-1.qti.xml''
                 exampleRewriteOptions) [0, 1, 2] exampleImageDocument) 0 ''src''
        = Some ''/assets/items/images/pic.png''
   \<and> doc_elements
        (fold (rewriteImage (\<lambda>base src. Some (''items/'' @ src)) ''items/item-1.qti.xml''
                 exampleRewriteOptions) [0, 1, 2] exampleImageDocument) ! 1
        = doc_elements exampleImageDocument ! 1"
proof -
  let ?rr = "\<lambda>base src. Some (''items/'' @ src) :: string option"
  let ?base = "''items/item-1.qti.xml''"
  have h1: "resolveHtmlDomParser (Some exampleImageParser) None = Inr exampleImageParser"
    by (simp add: resolveHtmlDomParser_def)
  have h2: "isExternalSource exampleRewriteOptions = None" by code_simp
  have q: "parseFromString exampleImageParser ''<p>images</p>'' = exampleImageDocument"
    "querySelectorAll exampleImageDocument isImgWithSrc = [0, 1, 2]"
    by code_simp+
  note th = rewrite_image_sources_default[OF h1 h2 refl refl refl,
      where html = "''<p>images</p>''" and resolveRelativePath = ?rr and baseFilePath = ?base,
      THEN conjunct2, THEN conjunct1, unfolded q]
  have s0: "getAttributeOf exampleImageDocument 0 ''src'' = Some ''images/pic.png''"
    and s1: "getAttributeOf exampleImageDocument 1 ''src'' = Some ''https://example.org/pic.png''"
    and e0: "\<not> defaultIsExternalSource ''images/pic.png''"
    and e1: "defaultIsExternalSource ''https://example.org/pic.png''"
    and u: "resolveUrl exampleRewriteOptions (''items/'' @ ''images/pic.png'') ''images/pic.png''
              = ''/assets/items/images/pic.png''"
    by code_simp+
  from th[rule_format, of 0] s0 e0 u have a: "getAttributeOf
        (fold (rewriteImage ?rr ?base exampleRewriteOptions) [0, 1, 2] exampleImageDocument) 0 ''src''
        = Some ''/assets/items/images/pic.png''"
    by simp
  from th[rule_format, of 1] s1 e1 have b: "doc_elements
        (fold (rewriteImage ?rr ?base exampleRewriteOptions) [0, 1, 2] exampleImageDocument) ! 1
        = doc_elements exampleImageDocument ! 1"
    by simp
  from h1 h2 q(2) a b show ?thesis by blast
qed

text \<open>
  The claim as stated fails on an absolute source whose scheme is not made of letters only:
  \<open>s3://bucket/pic.png\<close> is not taken as external, and is rewritten.
\<close>

theorem rewrite_absolute_source_counterexample:
  "getAttributeOf exampleImageDocument 2 ''src'' = Some ''s3://bucket/pic.png''
   \<and> \<not> defaultIsExternalSource ''s3://bucket/pic.png''
   \<and> rewriteHtmlImageSources (\<lambda>base src. Some (''items/'' @ src)) ''<p>images</p>''
        ''items/item-1.qti.xml'' exampleRewriteOptions (Some exampleImageParser) None
       = Inr (''<img src='' @ [CHR 0x22] @ ''/assets/items/images/pic.png'' @ [CHR 0x22] @ ''>''
              @ ''<img src='' @ [CHR 0x22] @ ''https://example.org/pic.png'' @ [CHR 0x22] @ ''>''
              @ ''<img src='' @ [CHR 0x22] @ ''/assets/items/s3://bucket/pic.png'' @ [CHR 0x22] @ ''>'')"
  by code_simp

subsection \<open>The inline-code pass and the code blocks\<close>

text \<open>
  C9. The code does not do what the claim says. The code-block pass splits the option
  \<open>codeBlockCodeClassName\<close> at whitespace and adds every class name of it to the \<open>code\<close>
  tag of a block; the inline-code pass looks for the whole option among the class names of
  a tag. With an option of two class names it finds it in no tag, so it does not skip the
  \<open>code\<close> tag that the code-block pass has marked: it adds the inline-code class to it. With
  the default option, one class name, the same tag is left as the code-block pass wrote it.
\<close>

theorem inline_pass_marks_block_code:
  \<open>renderQtiItemForReport (\<lambda>xml. Some exampleCodeBlockItem) [] ''item-9'' twoClassNamesOptions
     = Inr \<lparr>r_identifier = ''item-9'', r_title = ''item-9'',
            r_questionHtml = ''<div class="item-body"><pre data-code-lang="plain" class="code-block hljs"><code data-code-lang="plain" class="hljs code-block-code code-inline">a</code></pre></div>'',
            r_rubricCriteria = [], r_itemMaxScore = 0, r_choices = []\<rparr>
   \<and> enhanceCodeBlocks ''<div class="item-body"><pre><code>a</code></pre></div>''
         (resolveReportOptions twoClassNamesOptions) None
       = ''<div class="item-body"><pre data-code-lang="plain" class="code-block hljs"><code data-code-lang="plain" class="hljs code-block-code">a</code></pre></div>''
   \<and> enhanceInlineCode
         ''<div class="item-body"><pre data-code-lang="plain" class="code-block hljs"><code data-code-lang="plain" class="hljs code-block-code">a</code></pre></div>''
         (resolveReportOptions twoClassNamesOptions)
       = ''<div class="item-body"><pre data-code-lang="plain" class="code-block hljs"><code data-code-lang="plain" class="hljs code-block-code code-inline">a</code></pre></div>''
   \<and> renderQtiItemForReport (\<lambda>xml. Some exampleCodeBlockItem) [] ''item-9'' noReportOptions
     = Inr \<lparr>r_identifier = ''item-9'', r_title = ''item-9'',
            r_questionHtml = ''<div class="item-body"><pre data-code-lang="plain" class="code-block hljs"><code data-code-lang="plain" class="code-block-code">a</code></pre></div>'',
            r_rubricCriteria = [], r_itemMaxScore = 0, r_choices = []\<rparr>\<close>
  by code_simp

text \<open>
  The passes disagree on quotes as well: \<open>parseAttributes\<close> reads attributes in single and in
  double quotes, \<open>addOrUpdateAttribute\<close> finds only those in double quotes. On a \<open>code\<close> tag
  with a single-quoted class attribute the code-block pass writes a second class attribute
  in front, and the inline-code pass, which reads the last one, replaces what the
  code-block pass wrote.
\<close>

lemma inline_pass_single_quote_example:
  \<open>enhanceCodeBlocks ''<pre><code class='x'>a</code></pre>'' defaultReportOptions None
     = ''<pre data-code-lang="plain" class="code-block hljs"><code data-code-lang="plain" class="x code-block-code" class='x'>a</code></pre>''
   \<and> enhanceInlineCode
         ''<pre data-code-lang="plain" class="code-block hljs"><code data-code-lang="plain" class="x code-block-code" class='x'>a</code></pre>''
         defaultReportOptions
     = ''<pre data-code-lang="plain" class="code-block hljs"><code data-code-lang="plain" class="x code-inline" class='x'>a</code></pre>''\<close>
  by code_simp

end
